theory Spec2Isabelle
  imports Main
begin

section \<open>Go error values\<close>

text \<open>
  The error values that occur in \<^verbatim>\<open>aws/resource_aws_iam_role.go\<close>:
  an \<^verbatim>\<open>awserr.Error\<close> of the AWS SDK (code and message), a \<^verbatim>\<open>fmt.Errorf\<close> with the verb
  \<^verbatim>\<open>%w\<close> (the cause stays reachable through the unwrap chain), a
  \<^verbatim>\<open>fmt.Errorf\<close> with \<^verbatim>\<open>%s\<close> (only the text of the cause is kept),
  a \<^verbatim>\<open>multierror.Error\<close>, a \<^verbatim>\<open>resource.TimeoutError\<close> with its
  \<^verbatim>\<open>LastError\<close>, and any other error.
\<close>

datatype awserr = AwsError string string

datatype err =
    AwsErr awserr
  | Errorf_w string err
  | Errorf_s string err
  | MultiErr "err list"
  | TimeoutError "err option"
  | OtherErr string

text \<open>
  \<^verbatim>\<open>errors.As(err, &awsErr)\<close>: the first AWS error on the unwrap chain. Neither a
  multierror nor a timeout error is handed to an error-code test in this file; both are
  given no AWS error here.
\<close>

fun AsAwsErr :: "err \<Rightarrow> awserr option" where
  "AsAwsErr (AwsErr a) = Some a"
| "AsAwsErr (Errorf_w p e) = AsAwsErr e"
| "AsAwsErr (Errorf_s p e) = None"
| "AsAwsErr (MultiErr es) = None"
| "AsAwsErr (TimeoutError l) = None"
| "AsAwsErr (OtherErr s) = None"

definition ErrCodeNoSuchEntityException :: string where
  "ErrCodeNoSuchEntityException = ''NoSuchEntity''"

definition ErrCodeDeleteConflictException :: string where
  "ErrCodeDeleteConflictException = ''DeleteConflict''"

text \<open>\<^verbatim>\<open>tfawserr.ErrCodeEquals(err, code)\<close>; a nil error matches no code.\<close>

definition ErrCodeEquals :: "err option \<Rightarrow> string \<Rightarrow> bool" where
  "ErrCodeEquals e code =
     (case e of
        None \<Rightarrow> False
      | Some x \<Rightarrow> (case AsAwsErr x of None \<Rightarrow> False | Some (AwsError c m) \<Rightarrow> c = code))"

text \<open>\<^verbatim>\<open>strings.HasPrefix\<close> and \<^verbatim>\<open>strings.Contains\<close>.\<close>

definition HasPrefix :: "string \<Rightarrow> string \<Rightarrow> bool" where
  "HasPrefix s p = (take (length p) s = p)"

fun Contains :: "string \<Rightarrow> string \<Rightarrow> bool" where
  "Contains [] sub = (sub = [])"
| "Contains (c # cs) sub = (HasPrefix (c # cs) sub \<or> Contains cs sub)"

text \<open>
  Modelled from the spec: \<^verbatim>\<open>isAWSErr\<close> and \<^verbatim>\<open>isResourceTimeoutError\<close> are
  helpers of the provider that are not part of the source file. The first classifies an
  error by its AWS error code and a fragment of its message; the second recognises the
  timeout of \<^verbatim>\<open>resource.Retry\<close> that carries no last error.
\<close>

definition isAWSErr :: "err option \<Rightarrow> string \<Rightarrow> string \<Rightarrow> bool" where
  "isAWSErr e code message =
     (case e of
        None \<Rightarrow> False
      | Some x \<Rightarrow>
          (case AsAwsErr x of
             None \<Rightarrow> False
           | Some (AwsError c m) \<Rightarrow> c = code \<and> Contains m message))"

definition isResourceTimeoutError :: "err option \<Rightarrow> bool" where
  "isResourceTimeoutError e = (e = Some (TimeoutError None))"

text \<open>\<^verbatim>\<open>multierror.Append\<close> on a list of collected errors and \<^verbatim>\<open>ErrorOrNil\<close>.\<close>

definition ErrorOrNil :: "err list \<Rightarrow> err option" where
  "ErrorOrNil errs = (if errs = [] then None else Some (MultiErr errs))"

text \<open>\<^verbatim>\<open>aws.StringValue\<close>: a nil pointer reads as the empty string.\<close>

definition StringValue :: "string option \<Rightarrow> string" where
  "StringValue p = (case p of None \<Rightarrow> [] | Some s \<Rightarrow> s)"

definition Int64Value :: "int option \<Rightarrow> int" where
  "Int64Value p = (case p of None \<Rightarrow> 0 | Some i \<Rightarrow> i)"

section \<open>The IAM API\<close>

type_synonym tags = "(string \<times> string) list"

record CreateRoleInput =
  cr_Path :: string
  cr_RoleName :: string
  cr_AssumeRolePolicyDocument :: string
  cr_Description :: "string option"
  cr_MaxSessionDuration :: "int option"
  cr_PermissionsBoundary :: "string option"
  cr_Tags :: tags

text \<open>
  \<^verbatim>\<open>iam.Role\<close>. The members that the code dereferences without a nil check
  (\<^verbatim>\<open>RoleName\<close>, \<^verbatim>\<open>CreateDate\<close>, \<^verbatim>\<open>AssumeRolePolicyDocument\<close>) are
  plain values; the other pointer members are options, nil being \<open>None\<close>.
  \<^verbatim>\<open>PermissionsBoundary\<close> is a pointer to a structure that holds a pointer.
\<close>

record Role =
  Arn :: "string option"
  CreateDate :: int
  Description :: "string option"
  MaxSessionDuration :: "int option"
  RoleName :: string
  Path :: "string option"
  PermissionsBoundary :: "string option option"
  RoleId :: "string option"
  Tags :: tags
  AssumeRolePolicyDocument :: string

record PutRolePolicyInput =
  PolicyDocument :: "string option"
  PolicyName :: "string option"
  pr_RoleName :: "string option"

text \<open>
  One constructor for each request that the file sends. \<^verbatim>\<open>IamRoleUpdateTags\<close> stands
  for the requests of \<^verbatim>\<open>keyvaluetags.IamRoleUpdateTags\<close>, and
  \<^verbatim>\<open>AttachRolePolicy\<close> for the request of \<^verbatim>\<open>attachPolicyToRole\<close>.
\<close>

datatype call =
    CreateRole CreateRoleInput
  | GetRole string
  | UpdateAssumeRolePolicy string string
  | UpdateRoleDescription string string
  | UpdateRole string int
  | PutRolePermissionsBoundary string string
  | DeleteRolePermissionsBoundary string
  | IamRoleUpdateTags string tags tags
  | ListInstanceProfilesForRole string
  | RemoveRoleFromInstanceProfile "string option" string
  | ListAttachedRolePoliciesPages string
  | DetachRolePolicy "string option" string
  | ListRolePoliciesPages string
  | DeleteRolePolicy "string option" string
  | GetRolePolicy string "string option"
  | PutRolePolicy PutRolePolicyInput
  | AttachRolePolicy string string
  | DeleteRole string

type_synonym trace = "call list"

text \<open>
  The connection \<^verbatim>\<open>meta.(*AWSClient).iamconn\<close>: what the service answers to a
  request, given the requests sent before it. A call that returns only an error answers
  \<open>None\<close> on success. A paged listing answers the items of the pages delivered and the
  error that ended the paging, if any. \<^verbatim>\<open>GetRole\<close> may answer a nil output or an
  output with a nil role, which the code checks. Every error of a request is an
  \<^verbatim>\<open>awserr.Error\<close>, as the SDK documents for each operation; \<open>apiErr\<close>,
  \<open>apiOut\<close> and \<open>apiPages\<close> hand it to the code as a Go error.
\<close>

record IAM =
  iam_CreateRole :: "trace \<Rightarrow> CreateRoleInput \<Rightarrow> awserr + Role"
  iam_GetRole :: "trace \<Rightarrow> string \<Rightarrow> awserr + Role option option"
  iam_UpdateAssumeRolePolicy :: "trace \<Rightarrow> string \<Rightarrow> string \<Rightarrow> awserr option"
  iam_UpdateRoleDescription :: "trace \<Rightarrow> string \<Rightarrow> string \<Rightarrow> awserr option"
  iam_UpdateRole :: "trace \<Rightarrow> string \<Rightarrow> int \<Rightarrow> awserr option"
  iam_PutRolePermissionsBoundary :: "trace \<Rightarrow> string \<Rightarrow> string \<Rightarrow> awserr option"
  iam_DeleteRolePermissionsBoundary :: "trace \<Rightarrow> string \<Rightarrow> awserr option"
  iam_IamRoleUpdateTags :: "trace \<Rightarrow> string \<Rightarrow> tags \<Rightarrow> tags \<Rightarrow> awserr option"
  iam_ListInstanceProfilesForRole :: "trace \<Rightarrow> string \<Rightarrow> awserr + string option list"
  iam_RemoveRoleFromInstanceProfile :: "trace \<Rightarrow> string option \<Rightarrow> string \<Rightarrow> awserr option"
  iam_ListAttachedRolePoliciesPages :: "trace \<Rightarrow> string \<Rightarrow> string option list \<times> awserr option"
  iam_DetachRolePolicy :: "trace \<Rightarrow> string option \<Rightarrow> string \<Rightarrow> awserr option"
  iam_ListRolePoliciesPages :: "trace \<Rightarrow> string \<Rightarrow> string option list \<times> awserr option"
  iam_DeleteRolePolicy :: "trace \<Rightarrow> string option \<Rightarrow> string \<Rightarrow> awserr option"
  iam_GetRolePolicy :: "trace \<Rightarrow> string \<Rightarrow> string option \<Rightarrow> awserr + string"
  iam_PutRolePolicy :: "trace \<Rightarrow> PutRolePolicyInput \<Rightarrow> awserr option"
  iam_AttachRolePolicy :: "trace \<Rightarrow> string \<Rightarrow> string \<Rightarrow> awserr option"
  iam_DeleteRole :: "trace \<Rightarrow> string \<Rightarrow> awserr option"

definition apiErr :: "awserr option \<Rightarrow> err option" where
  "apiErr r = map_option AwsErr r"

definition apiOut :: "awserr + 'a \<Rightarrow> err + 'a" where
  "apiOut r = (case r of Inl a \<Rightarrow> Inl (AwsErr a) | Inr v \<Rightarrow> Inr v)"

definition apiPages :: "'a \<times> awserr option \<Rightarrow> 'a \<times> err option" where
  "apiPages r = (fst r, map_option AwsErr (snd r))"

section \<open>The host framework\<close>

text \<open>
  What the code takes from outside the file and the service: the number of attempts that
  \<^verbatim>\<open>resource.Retry\<close> completes within a window of a given length (in nanoseconds),
  the constant \<^verbatim>\<open>waiter.PropagationTimeout\<close>, \<^verbatim>\<open>url.QueryUnescape\<close>, the
  generated identifiers, the tag filters, \<^verbatim>\<open>expandStringList\<close> and the RFC 3339
  format of a time.
\<close>

record env =
  attempts :: "int \<Rightarrow> nat"
  PropagationTimeout :: int
  QueryUnescape :: "string \<Rightarrow> err + string"
  PrefixedUniqueId :: "string \<Rightarrow> string"
  UniqueId :: string
  IgnoreAws :: "tags \<Rightarrow> tags"
  IgnoreConfig :: "tags \<Rightarrow> tags"
  expandStringList :: "string list \<Rightarrow> string option list"
  RFC3339 :: "int \<Rightarrow> string"

definition Second :: int where
  "Second = 1000000000"

text \<open>
  \<^verbatim>\<open>resource.Retry(timeout, f)\<close>: \<open>f\<close> is called again after a retryable error as
  long as the window lasts. When the window is over, the last error of \<open>f\<close> is returned,
  or a timeout error without last error when no attempt was completed. The first
  argument is the number of attempts that are completed within the window; a request
  that is not answered within the window is not part of the history.
\<close>

datatype 'a RetryError = RetryNil 'a | RetryableError err | NonRetryableError err

fun Retry :: "nat \<Rightarrow> (trace \<Rightarrow> 'a RetryError \<times> trace) \<Rightarrow> err option \<Rightarrow> trace \<Rightarrow> (err + 'a) \<times> trace" where
  "Retry 0 f lastErr tr =
     (Inl (case lastErr of None \<Rightarrow> TimeoutError None | Some e \<Rightarrow> e), tr)"
| "Retry (Suc n) f lastErr tr =
     (case f tr of
        (RetryNil v, tr') \<Rightarrow> (Inr v, tr')
      | (NonRetryableError e, tr') \<Rightarrow> (Inl e, tr')
      | (RetryableError e, tr') \<Rightarrow> Retry n f (Some e) tr')"

section \<open>Deleting a role\<close>

text \<open>The loop of \<^verbatim>\<open>deleteAwsIamRoleInstanceProfiles\<close> over the profiles listed.\<close>

fun removeRoleFromInstanceProfiles :: "IAM \<Rightarrow> string \<Rightarrow> string option list \<Rightarrow> trace \<Rightarrow> err option \<times> trace" where
  "removeRoleFromInstanceProfiles conn rolename [] tr = (None, tr)"
| "removeRoleFromInstanceProfiles conn rolename (i # is) tr =
     (let e = apiErr (iam_RemoveRoleFromInstanceProfile conn tr i rolename);
          tr' = tr @ [RemoveRoleFromInstanceProfile i rolename]
      in if ErrCodeEquals e ErrCodeNoSuchEntityException
         then removeRoleFromInstanceProfiles conn rolename is tr'
         else (case e of
                 Some x \<Rightarrow> (Some x, tr')
               | None \<Rightarrow> removeRoleFromInstanceProfiles conn rolename is tr'))"

definition deleteAwsIamRoleInstanceProfiles :: "IAM \<Rightarrow> string \<Rightarrow> trace \<Rightarrow> err option \<times> trace" where
  "deleteAwsIamRoleInstanceProfiles conn rolename tr =
     (let tr' = tr @ [ListInstanceProfilesForRole rolename]
      in case apiOut (iam_ListInstanceProfilesForRole conn tr rolename) of
           Inl x \<Rightarrow>
             if ErrCodeEquals (Some x) ErrCodeNoSuchEntityException then (None, tr')
             else (Some x, tr')
         | Inr profiles \<Rightarrow> removeRoleFromInstanceProfiles conn rolename profiles tr')"

definition readAwsIamRolePolicyAttachments :: "IAM \<Rightarrow> string \<Rightarrow> trace \<Rightarrow> (err + string option list) \<times> trace" where
  "readAwsIamRolePolicyAttachments conn rolename tr =
     (let tr' = tr @ [ListAttachedRolePoliciesPages rolename]
      in case apiPages (iam_ListAttachedRolePoliciesPages conn tr rolename) of
           (managedPolicies, e) \<Rightarrow>
             (case e of
                Some x \<Rightarrow>
                  if \<not> ErrCodeEquals (Some x) ErrCodeNoSuchEntityException then (Inl x, tr')
                  else (Inr managedPolicies, tr')
              | None \<Rightarrow> (Inr managedPolicies, tr')))"

fun deleteAwsIamRolePolicyAttachments :: "IAM \<Rightarrow> string \<Rightarrow> string option list \<Rightarrow> trace \<Rightarrow> err option \<times> trace" where
  "deleteAwsIamRolePolicyAttachments conn rolename [] tr = (None, tr)"
| "deleteAwsIamRolePolicyAttachments conn rolename (parn # managedPolicies) tr =
     (let e = apiErr (iam_DetachRolePolicy conn tr parn rolename);
          tr' = tr @ [DetachRolePolicy parn rolename]
      in if ErrCodeEquals e ErrCodeNoSuchEntityException
         then deleteAwsIamRolePolicyAttachments conn rolename managedPolicies tr'
         else (case e of
                 Some x \<Rightarrow> (Some x, tr')
               | None \<Rightarrow> deleteAwsIamRolePolicyAttachments conn rolename managedPolicies tr'))"

definition readAwsIamRolePolicyNames :: "IAM \<Rightarrow> string \<Rightarrow> trace \<Rightarrow> (err + string option list) \<times> trace" where
  "readAwsIamRolePolicyNames conn rolename tr =
     (let tr' = tr @ [ListRolePoliciesPages rolename]
      in case apiPages (iam_ListRolePoliciesPages conn tr rolename) of
           (inlinePolicies, e) \<Rightarrow>
             (case e of
                Some x \<Rightarrow>
                  if \<not> ErrCodeEquals (Some x) ErrCodeNoSuchEntityException then (Inl x, tr')
                  else (Inr inlinePolicies, tr')
              | None \<Rightarrow> (Inr inlinePolicies, tr')))"

fun deleteAwsIamRolePolicies :: "IAM \<Rightarrow> string \<Rightarrow> string option list \<Rightarrow> trace \<Rightarrow> err option \<times> trace" where
  "deleteAwsIamRolePolicies conn rolename [] tr = (None, tr)"
| "deleteAwsIamRolePolicies conn rolename (name # policyNames) tr =
     (let e = apiErr (iam_DeleteRolePolicy conn tr name rolename);
          tr' = tr @ [DeleteRolePolicy name rolename]
      in if ErrCodeEquals e ErrCodeNoSuchEntityException
         then (None, tr')
         else (case e of
                 Some x \<Rightarrow> (Some x, tr')
               | None \<Rightarrow> deleteAwsIamRolePolicies conn rolename policyNames tr'))"

text \<open>The block of \<^verbatim>\<open>deleteAwsIamRole\<close> under \<^verbatim>\<open>if forceDetach\<close>.\<close>

definition forceDetachPolicies :: "IAM \<Rightarrow> string \<Rightarrow> trace \<Rightarrow> err option \<times> trace" where
  "forceDetachPolicies conn rolename tr =
     (case readAwsIamRolePolicyAttachments conn rolename tr of
        (Inl x, tr1) \<Rightarrow> (Some x, tr1)
      | (Inr managedPolicies, tr1) \<Rightarrow>
          (case deleteAwsIamRolePolicyAttachments conn rolename managedPolicies tr1 of
             (Some x, tr2) \<Rightarrow> (Some (Errorf_w ''unable to detach policies: '' x), tr2)
           | (None, tr2) \<Rightarrow>
               (case readAwsIamRolePolicyNames conn rolename tr2 of
                  (Inl x, tr3) \<Rightarrow> (Some x, tr3)
                | (Inr inlinePolicies, tr3) \<Rightarrow>
                    (case deleteAwsIamRolePolicies conn rolename inlinePolicies tr3 of
                       (Some x, tr4) \<Rightarrow> (Some (Errorf_w ''unable to delete inline policies: '' x), tr4)
                     | (None, tr4) \<Rightarrow> (None, tr4)))))"

text \<open>The function handed to \<^verbatim>\<open>resource.Retry\<close> in \<^verbatim>\<open>deleteAwsIamRole\<close>.\<close>

definition tryDeleteRole :: "IAM \<Rightarrow> string \<Rightarrow> trace \<Rightarrow> unit RetryError \<times> trace" where
  "tryDeleteRole conn rolename tr =
     (let tr' = tr @ [DeleteRole rolename]
      in case apiErr (iam_DeleteRole conn tr rolename) of
           Some x \<Rightarrow>
             if ErrCodeEquals (Some x) ErrCodeDeleteConflictException
             then (RetryableError x, tr')
             else (NonRetryableError x, tr')
         | None \<Rightarrow> (RetryNil (), tr'))"

text \<open>The end of \<^verbatim>\<open>deleteAwsIamRole\<close>: the retried request and the request after a timeout.\<close>

definition retryDeleteRole :: "env \<Rightarrow> IAM \<Rightarrow> string \<Rightarrow> trace \<Rightarrow> err option \<times> trace" where
  "retryDeleteRole ev conn rolename tr =
     (case Retry (attempts ev (PropagationTimeout ev)) (tryDeleteRole conn rolename) None tr of
        (r, tr1) \<Rightarrow>
          (let e = (case r of Inl x \<Rightarrow> Some x | Inr u \<Rightarrow> None)
           in if isResourceTimeoutError e
              then (apiErr (iam_DeleteRole conn tr1 rolename), tr1 @ [DeleteRole rolename])
              else (e, tr1)))"

definition deleteAwsIamRole :: "env \<Rightarrow> IAM \<Rightarrow> string \<Rightarrow> bool \<Rightarrow> trace \<Rightarrow> err option \<times> trace" where
  "deleteAwsIamRole ev conn rolename forceDetach tr =
     (case deleteAwsIamRoleInstanceProfiles conn rolename tr of
        (Some x, tr1) \<Rightarrow> (Some (Errorf_w ''unable to detach instance profiles: '' x), tr1)
      | (None, tr1) \<Rightarrow>
          (case (if forceDetach then forceDetachPolicies conn rolename tr1 else (None, tr1)) of
             (Some x, tr2) \<Rightarrow> (Some x, tr2)
           | (None, tr2) \<Rightarrow> retryDeleteRole ev conn rolename tr2))"

section \<open>The resource data\<close>

text \<open>
  An element of the set \<^verbatim>\<open>inline_policy\<close>, as the schema shapes it: a map with the
  keys \<^verbatim>\<open>name\<close>, \<^verbatim>\<open>name_prefix\<close> and \<^verbatim>\<open>policy\<close>, each a string (the
  zero value when unset). \<open>tfMap_lookup\<close> is the map lookup with its \<^verbatim>\<open>ok\<close> flag.
  An element is never nil and never of another type, so the checks for a nil map and for
  a failed type assertion in \<^verbatim>\<open>expandIamInlinePolicy\<close>,
  \<^verbatim>\<open>expandIamInlinePolicies\<close> and \<^verbatim>\<open>resourceAwsIamRoleUpdate\<close> have no
  branch here.
\<close>

record tfMap =
  tf_name :: string
  tf_name_prefix :: string
  tf_policy :: string

definition tfMap_lookup :: "tfMap \<Rightarrow> string \<Rightarrow> string option" where
  "tfMap_lookup m k =
     (if k = ''name'' then Some (tf_name m)
      else if k = ''name_prefix'' then Some (tf_name_prefix m)
      else if k = ''policy'' then Some (tf_policy m)
      else None)"

record attrs =
  arn :: string
  unique_id :: string
  name :: string
  name_prefix :: string
  path :: string
  permissions_boundary :: string
  description :: string
  assume_role_policy :: string
  force_detach_policies :: bool
  create_date :: string
  max_session_duration :: int
  tags :: tags
  inline_policy :: "tfMap list"
  managed_policy_arns :: "string list"

text \<open>
  \<^verbatim>\<open>schema.ResourceData\<close>: the id, the attributes of the prior state and the
  attributes that \<^verbatim>\<open>d.Get\<close> reads and \<^verbatim>\<open>d.Set\<close> writes. A \<^verbatim>\<open>schema.Set\<close> is
  the list of its elements; a nil set is the empty list. The values written by
  \<^verbatim>\<open>d.Set\<close> have the types of the schema, so \<^verbatim>\<open>d.Set\<close> returns no error.
\<close>

record ResourceData =
  rd_Id :: string
  state :: attrs
  config :: attrs

type_synonym result = "(err option \<times> ResourceData) \<times> trace"

definition HasChange :: "(attrs \<Rightarrow> 'a) \<Rightarrow> ResourceData \<Rightarrow> bool" where
  "HasChange key d = (key (state d) \<noteq> key (config d))"

text \<open>
  For a map attribute the old and the new value are compared as maps: they differ when
  some key of one of them is bound differently in the other.
\<close>

definition HasChangeMap :: "(attrs \<Rightarrow> ('k \<times> 'v) list) \<Rightarrow> ResourceData \<Rightarrow> bool" where
  "HasChangeMap key d =
     (\<not> list_all (\<lambda>k. map_of (key (state d)) k = map_of (key (config d)) k)
          (map fst (key (state d)) @ map fst (key (config d))))"

definition HasChangeSet :: "(attrs \<Rightarrow> 'a list) \<Rightarrow> ResourceData \<Rightarrow> bool" where
  "HasChangeSet key d = (set (key (state d)) \<noteq> set (key (config d)))"

text \<open>\<^verbatim>\<open>os.Difference(ns).List()\<close>: the elements of \<open>os\<close> that are not in \<open>ns\<close>.\<close>

definition Difference :: "'a list \<Rightarrow> 'a list \<Rightarrow> 'a list" where
  "Difference os ns = filter (\<lambda>x. x \<notin> set ns) os"

section \<open>The schema\<close>

datatype ValueType = TypeString | TypeBool | TypeInt | TypeMap | TypeSet

record Schema =
  Type :: ValueType
  Optional :: bool
  Required :: bool
  Computed :: bool
  ForceNew :: bool
  ConflictsWith :: "string list"

definition resourceAwsIamRole_Schema :: "(string \<times> Schema) list" where
  "resourceAwsIamRole_Schema =
     [(''arn'', \<lparr>Type = TypeString, Optional = False, Required = False, Computed = True,
                 ForceNew = False, ConflictsWith = []\<rparr>),
      (''unique_id'', \<lparr>Type = TypeString, Optional = False, Required = False, Computed = True,
                 ForceNew = False, ConflictsWith = []\<rparr>),
      (''name'', \<lparr>Type = TypeString, Optional = True, Required = False, Computed = True,
                 ForceNew = True, ConflictsWith = [''name_prefix'']\<rparr>),
      (''name_prefix'', \<lparr>Type = TypeString, Optional = True, Required = False, Computed = False,
                 ForceNew = True, ConflictsWith = [''name'']\<rparr>),
      (''path'', \<lparr>Type = TypeString, Optional = True, Required = False, Computed = False,
                 ForceNew = True, ConflictsWith = []\<rparr>),
      (''permissions_boundary'', \<lparr>Type = TypeString, Optional = True, Required = False,
                 Computed = False, ForceNew = False, ConflictsWith = []\<rparr>),
      (''description'', \<lparr>Type = TypeString, Optional = True, Required = False, Computed = False,
                 ForceNew = False, ConflictsWith = []\<rparr>),
      (''assume_role_policy'', \<lparr>Type = TypeString, Optional = False, Required = True,
                 Computed = False, ForceNew = False, ConflictsWith = []\<rparr>),
      (''force_detach_policies'', \<lparr>Type = TypeBool, Optional = True, Required = False,
                 Computed = False, ForceNew = False, ConflictsWith = []\<rparr>),
      (''create_date'', \<lparr>Type = TypeString, Optional = False, Required = False, Computed = True,
                 ForceNew = False, ConflictsWith = []\<rparr>),
      (''max_session_duration'', \<lparr>Type = TypeInt, Optional = True, Required = False,
                 Computed = False, ForceNew = False, ConflictsWith = []\<rparr>),
      (''tags'', \<lparr>Type = TypeMap, Optional = True, Required = False, Computed = False,
                 ForceNew = False, ConflictsWith = []\<rparr>),
      (''inline_policy'', \<lparr>Type = TypeSet, Optional = True, Required = False, Computed = True,
                 ForceNew = False, ConflictsWith = []\<rparr>),
      (''managed_policy_arns'', \<lparr>Type = TypeSet, Optional = True, Required = False,
                 Computed = True, ForceNew = False, ConflictsWith = []\<rparr>)]"

definition resourceAwsIamRoleImport :: "ResourceData \<Rightarrow> ResourceData list" where
  "resourceAwsIamRoleImport d = [d\<lparr>config := (config d)\<lparr>force_detach_policies := False\<rparr>\<rparr>]"

section \<open>Inline policies and managed policies\<close>

text \<open>A Go map built by assignments is an association list; a nil map is the empty list.\<close>

definition flattenIamInlinePolicy :: "PutRolePolicyInput option \<Rightarrow> (string \<times> string) list" where
  "flattenIamInlinePolicy apiObject =
     (case apiObject of
        None \<Rightarrow> []
      | Some a \<Rightarrow> [(''name'', StringValue (PolicyName a)), (''policy'', StringValue (PolicyDocument a))])"

fun flattenLoop :: "PutRolePolicyInput option list \<Rightarrow> (string \<times> string) list list" where
  "flattenLoop [] = []"
| "flattenLoop (None # apiObjects) = flattenLoop apiObjects"
| "flattenLoop (Some a # apiObjects) = flattenIamInlinePolicy (Some a) # flattenLoop apiObjects"

definition flattenIamInlinePolicies :: "PutRolePolicyInput option list \<Rightarrow> (string \<times> string) list list" where
  "flattenIamInlinePolicies apiObjects =
     (if length apiObjects = 0 then [] else flattenLoop apiObjects)"

text \<open>
  \<^verbatim>\<open>d.Set("inline_policy", ...)\<close> stores each map as an element of the set: a key
  that the map does not have is stored as the empty string.
\<close>

definition tfMap_of :: "(string \<times> string) list \<Rightarrow> tfMap" where
  "tfMap_of m =
     \<lparr>tf_name = (case map_of m ''name'' of None \<Rightarrow> [] | Some v \<Rightarrow> v),
      tf_name_prefix = (case map_of m ''name_prefix'' of None \<Rightarrow> [] | Some v \<Rightarrow> v),
      tf_policy = (case map_of m ''policy'' of None \<Rightarrow> [] | Some v \<Rightarrow> v)\<rparr>"

definition expandIamInlinePolicy :: "env \<Rightarrow> string \<Rightarrow> tfMap \<Rightarrow> PutRolePolicyInput" where
  "expandIamInlinePolicy ev roleName m =
     (let policyName =
            (case tfMap_lookup m ''name'' of
               Some v \<Rightarrow> v
             | None \<Rightarrow>
                 (case tfMap_lookup m ''name_prefix'' of
                    Some v \<Rightarrow> PrefixedUniqueId ev v
                  | None \<Rightarrow> UniqueId ev))
      in \<lparr>PolicyDocument = Some (tf_policy m), PolicyName = Some policyName,
          pr_RoleName = Some roleName\<rparr>)"

definition expandIamInlinePolicies :: "env \<Rightarrow> string \<Rightarrow> tfMap list \<Rightarrow> PutRolePolicyInput list" where
  "expandIamInlinePolicies ev roleName tfList =
     (if length tfList = 0 then [] else map (expandIamInlinePolicy ev roleName) tfList)"

fun createInlinePoliciesLoop :: "IAM \<Rightarrow> PutRolePolicyInput list \<Rightarrow> err list \<Rightarrow> trace \<Rightarrow> err list \<times> trace" where
  "createInlinePoliciesLoop conn [] errs tr = (errs, tr)"
| "createInlinePoliciesLoop conn (policy # policies) errs tr =
     (case apiErr (iam_PutRolePolicy conn tr policy) of
        Some x \<Rightarrow>
          createInlinePoliciesLoop conn policies
            (errs @ [Errorf_w (''creating inline policy ('' @ StringValue (PolicyName policy) @ ''): '') x])
            (tr @ [PutRolePolicy policy])
      | None \<Rightarrow> createInlinePoliciesLoop conn policies errs (tr @ [PutRolePolicy policy]))"

definition resourceAwsIamRoleCreateInlinePolicies :: "IAM \<Rightarrow> PutRolePolicyInput list \<Rightarrow> trace \<Rightarrow> err option \<times> trace" where
  "resourceAwsIamRoleCreateInlinePolicies conn policies tr =
     (case createInlinePoliciesLoop conn policies [] tr of (errs, tr') \<Rightarrow> (ErrorOrNil errs, tr'))"

text \<open>
  Modelled from the spec: \<^verbatim>\<open>attachPolicyToRole\<close> is a helper of the provider that is
  not part of the source file; it attaches one managed policy to the role, which is the
  request \<open>AttachRolePolicy\<close>.
\<close>

definition attachPolicyToRole :: "IAM \<Rightarrow> string \<Rightarrow> string \<Rightarrow> trace \<Rightarrow> err option \<times> trace" where
  "attachPolicyToRole conn roleName a tr =
     (apiErr (iam_AttachRolePolicy conn tr roleName a), tr @ [AttachRolePolicy roleName a])"

fun attachManagedPoliciesLoop :: "IAM \<Rightarrow> string \<Rightarrow> string option list \<Rightarrow> err list \<Rightarrow> trace \<Rightarrow> err list \<times> trace" where
  "attachManagedPoliciesLoop conn roleName [] errs tr = (errs, tr)"
| "attachManagedPoliciesLoop conn roleName (a # policies) errs tr =
     (case attachPolicyToRole conn roleName (StringValue a) tr of
        (Some x, tr') \<Rightarrow>
          attachManagedPoliciesLoop conn roleName policies
            (errs @ [Errorf_w (''attaching managed policy ('' @ StringValue a @ ''): '') x]) tr'
      | (None, tr') \<Rightarrow> attachManagedPoliciesLoop conn roleName policies errs tr')"

definition resourceAwsIamRoleAttachManagedPolicies :: "IAM \<Rightarrow> string \<Rightarrow> string option list \<Rightarrow> trace \<Rightarrow> err option \<times> trace" where
  "resourceAwsIamRoleAttachManagedPolicies conn roleName policies tr =
     (case attachManagedPoliciesLoop conn roleName policies [] tr of
        (errs, tr') \<Rightarrow> (ErrorOrNil errs, tr'))"

fun listInlinePoliciesLoop :: "env \<Rightarrow> IAM \<Rightarrow> string \<Rightarrow> string option list \<Rightarrow> PutRolePolicyInput list \<Rightarrow> trace \<Rightarrow> (err + PutRolePolicyInput list) \<times> trace" where
  "listInlinePoliciesLoop ev conn roleName [] apiObjects tr = (Inr apiObjects, tr)"
| "listInlinePoliciesLoop ev conn roleName (policyName # policyNames) apiObjects tr =
     (let tr' = tr @ [GetRolePolicy roleName policyName]
      in case apiOut (iam_GetRolePolicy conn tr roleName policyName) of
           Inl x \<Rightarrow> (Inl x, tr')
         | Inr doc \<Rightarrow>
             (case QueryUnescape ev doc of
                Inl x \<Rightarrow> (Inl x, tr')
              | Inr policy \<Rightarrow>
                  listInlinePoliciesLoop ev conn roleName policyNames
                    (apiObjects @ [\<lparr>PolicyDocument = Some policy, PolicyName = None,
                                    pr_RoleName = Some roleName\<rparr>]) tr'))"

definition resourceAwsIamRoleListInlinePolicies :: "env \<Rightarrow> IAM \<Rightarrow> string \<Rightarrow> trace \<Rightarrow> (err + PutRolePolicyInput list) \<times> trace" where
  "resourceAwsIamRoleListInlinePolicies ev conn roleName tr =
     (case readAwsIamRolePolicyNames conn roleName tr of
        (Inl x, tr1) \<Rightarrow> (Inl x, tr1)
      | (Inr policyNames, tr1) \<Rightarrow> listInlinePoliciesLoop ev conn roleName policyNames [] tr1)"

section \<open>Read\<close>

definition resourceAwsIamRoleRead :: "env \<Rightarrow> IAM \<Rightarrow> ResourceData \<Rightarrow> trace \<Rightarrow> result" where
  "resourceAwsIamRoleRead ev conn d tr =
     (let tr1 = tr @ [GetRole (rd_Id d)]
      in case apiOut (iam_GetRole conn tr (rd_Id d)) of
           Inl x \<Rightarrow>
             if isAWSErr (Some x) ErrCodeNoSuchEntityException []
             then ((None, d\<lparr>rd_Id := []\<rparr>), tr1)
             else ((Some (Errorf_s (''Error reading IAM Role '' @ rd_Id d @ '': '') x), d), tr1)
         | Inr None \<Rightarrow> ((None, d\<lparr>rd_Id := []\<rparr>), tr1)
         | Inr (Some None) \<Rightarrow> ((None, d\<lparr>rd_Id := []\<rparr>), tr1)
         | Inr (Some (Some role)) \<Rightarrow>
             (let c1 = (config d)
                    \<lparr>arn := StringValue (Arn role),
                     create_date := RFC3339 ev (CreateDate role),
                     description := StringValue (Description role),
                     max_session_duration := Int64Value (MaxSessionDuration role),
                     name := RoleName role,
                     path := StringValue (Path role)\<rparr>;
                  c2 = (case PermissionsBoundary role of
                          None \<Rightarrow> c1
                        | Some b \<Rightarrow> c1\<lparr>permissions_boundary := StringValue b\<rparr>);
                  c3 = c2\<lparr>unique_id := StringValue (RoleId role),
                          tags := IgnoreConfig ev (IgnoreAws ev (Tags role))\<rparr>
              in case QueryUnescape ev (AssumeRolePolicyDocument role) of
                   Inl x \<Rightarrow> ((Some x, d\<lparr>config := c3\<rparr>), tr1)
                 | Inr assumRolePolicy \<Rightarrow>
                     (let c4 = c3\<lparr>assume_role_policy := assumRolePolicy\<rparr>
                      in case resourceAwsIamRoleListInlinePolicies ev conn (RoleName role) tr1 of
                           (Inl x, tr2) \<Rightarrow>
                             ((Some (Errorf_s (''reading inline policies for IAM role '' @ rd_Id d @ '', error: '') x),
                               d\<lparr>config := c4\<rparr>), tr2)
                         | (Inr inlinePolicies, tr2) \<Rightarrow>
                             (let c5 = c4\<lparr>inline_policy :=
                                          map tfMap_of (flattenIamInlinePolicies (map Some inlinePolicies))\<rparr>
                              in case readAwsIamRolePolicyAttachments conn (RoleName role) tr2 of
                                   (Inl x, tr3) \<Rightarrow>
                                     ((Some (Errorf_s (''reading managed policies for IAM role '' @ rd_Id d @ '', error: '') x),
                                       d\<lparr>config := c5\<rparr>), tr3)
                                 | (Inr managedPolicies, tr3) \<Rightarrow>
                                     ((None, d\<lparr>config := c5\<lparr>managed_policy_arns := map StringValue managedPolicies\<rparr>\<rparr>),
                                      tr3)))))"

section \<open>Update\<close>

text \<open>
  Each block \<^verbatim>\<open>if d.HasChange(...) { ... }\<close> of \<^verbatim>\<open>resourceAwsIamRoleUpdate\<close> is one
  step: it answers \<open>Some\<close> of what the function returns when the block returns, and
  \<open>None\<close> when control goes on to the next block.
\<close>

type_synonym step = "trace \<Rightarrow> (err option \<times> ResourceData) option \<times> trace"

definition andThen :: "step \<Rightarrow> (trace \<Rightarrow> result) \<Rightarrow> trace \<Rightarrow> result" where
  "andThen s k tr = (case s tr of (Some r, tr') \<Rightarrow> (r, tr') | (None, tr') \<Rightarrow> k tr')"

definition updateAssumeRolePolicy :: "IAM \<Rightarrow> ResourceData \<Rightarrow> step" where
  "updateAssumeRolePolicy conn d tr =
     (if HasChange assume_role_policy d
      then (let tr' = tr @ [UpdateAssumeRolePolicy (rd_Id d) (assume_role_policy (config d))]
            in case apiErr (iam_UpdateAssumeRolePolicy conn tr (rd_Id d) (assume_role_policy (config d))) of
                 Some x \<Rightarrow>
                   if isAWSErr (Some x) ErrCodeNoSuchEntityException []
                   then (Some (None, d\<lparr>rd_Id := []\<rparr>), tr')
                   else (Some (Some (Errorf_s (''Error Updating IAM Role ('' @ rd_Id d @ '') Assume Role Policy: '') x), d), tr')
               | None \<Rightarrow> (None, tr'))
      else (None, tr))"

definition updateRoleDescription :: "IAM \<Rightarrow> ResourceData \<Rightarrow> step" where
  "updateRoleDescription conn d tr =
     (if HasChange description d
      then (let tr' = tr @ [UpdateRoleDescription (rd_Id d) (description (config d))]
            in case apiErr (iam_UpdateRoleDescription conn tr (rd_Id d) (description (config d))) of
                 Some x \<Rightarrow>
                   if isAWSErr (Some x) ErrCodeNoSuchEntityException []
                   then (Some (None, d\<lparr>rd_Id := []\<rparr>), tr')
                   else (Some (Some (Errorf_s (''Error Updating IAM Role ('' @ rd_Id d @ '') Assume Role Policy: '') x), d), tr')
               | None \<Rightarrow> (None, tr'))
      else (None, tr))"

definition updateMaxSessionDuration :: "IAM \<Rightarrow> ResourceData \<Rightarrow> step" where
  "updateMaxSessionDuration conn d tr =
     (if HasChange max_session_duration d
      then (let tr' = tr @ [UpdateRole (rd_Id d) (max_session_duration (config d))]
            in case apiErr (iam_UpdateRole conn tr (rd_Id d) (max_session_duration (config d))) of
                 Some x \<Rightarrow>
                   if isAWSErr (Some x) ErrCodeNoSuchEntityException []
                   then (Some (None, d\<lparr>rd_Id := []\<rparr>), tr')
                   else (Some (Some (Errorf_s (''Error Updating IAM Role ('' @ rd_Id d @ '') Max Session Duration: '') x), d), tr')
               | None \<Rightarrow> (None, tr'))
      else (None, tr))"

definition updatePermissionsBoundary :: "IAM \<Rightarrow> ResourceData \<Rightarrow> step" where
  "updatePermissionsBoundary conn d tr =
     (if HasChange permissions_boundary d
      then (let permissionsBoundary = permissions_boundary (config d)
            in if permissionsBoundary \<noteq> []
               then (case apiErr (iam_PutRolePermissionsBoundary conn tr permissionsBoundary (rd_Id d)) of
                       Some x \<Rightarrow>
                         (Some (Some (Errorf_s ''error updating IAM Role permissions boundary: '' x), d),
                          tr @ [PutRolePermissionsBoundary permissionsBoundary (rd_Id d)])
                     | None \<Rightarrow> (None, tr @ [PutRolePermissionsBoundary permissionsBoundary (rd_Id d)]))
               else (case apiErr (iam_DeleteRolePermissionsBoundary conn tr (rd_Id d)) of
                       Some x \<Rightarrow>
                         (Some (Some (Errorf_s ''error deleting IAM Role permissions boundary: '' x), d),
                          tr @ [DeleteRolePermissionsBoundary (rd_Id d)])
                     | None \<Rightarrow> (None, tr @ [DeleteRolePermissionsBoundary (rd_Id d)])))
      else (None, tr))"

definition updateTags :: "IAM \<Rightarrow> ResourceData \<Rightarrow> step" where
  "updateTags conn d tr =
     (if HasChangeMap tags d
      then (let tr' = tr @ [IamRoleUpdateTags (rd_Id d) (tags (state d)) (tags (config d))]
            in case apiErr (iam_IamRoleUpdateTags conn tr (rd_Id d) (tags (state d)) (tags (config d))) of
                 Some x \<Rightarrow>
                   (Some (Some (Errorf_s (''error updating IAM Role ('' @ rd_Id d @ '') tags: '') x), d), tr')
               | None \<Rightarrow> (None, tr'))
      else (None, tr))"

definition updateInlinePolicies :: "env \<Rightarrow> IAM \<Rightarrow> ResourceData \<Rightarrow> step" where
  "updateInlinePolicies ev conn d tr =
     (if HasChangeSet inline_policy d
      then (let roleName = name (config d);
                os = inline_policy (state d);
                ns = inline_policy (config d);
                remove = Difference os ns;
                add = Difference ns os;
                policyNames = map (\<lambda>m. Some (tf_name m)) remove
            in case deleteAwsIamRolePolicies conn roleName policyNames tr of
                 (Some x, tr1) \<Rightarrow> (Some (Some (Errorf_w ''unable to delete inline policies: '' x), d), tr1)
               | (None, tr1) \<Rightarrow>
                   (case resourceAwsIamRoleCreateInlinePolicies conn
                           (expandIamInlinePolicies ev roleName add) tr1 of
                      (Some x, tr2) \<Rightarrow> (Some (Some x, d), tr2)
                    | (None, tr2) \<Rightarrow> (None, tr2)))
      else (None, tr))"

definition updateManagedPolicies :: "env \<Rightarrow> IAM \<Rightarrow> ResourceData \<Rightarrow> step" where
  "updateManagedPolicies ev conn d tr =
     (if HasChangeSet managed_policy_arns d
      then (let roleName = name (config d);
                os = managed_policy_arns (state d);
                ns = managed_policy_arns (config d);
                remove = expandStringList ev (Difference os ns);
                add = expandStringList ev (Difference ns os)
            in case deleteAwsIamRolePolicyAttachments conn roleName remove tr of
                 (Some x, tr1) \<Rightarrow> (Some (Some (Errorf_w ''unable to detach policies: '' x), d), tr1)
               | (None, tr1) \<Rightarrow>
                   (case resourceAwsIamRoleAttachManagedPolicies conn roleName add tr1 of
                      (Some x, tr2) \<Rightarrow> (Some (Some x, d), tr2)
                    | (None, tr2) \<Rightarrow> (None, tr2)))
      else (None, tr))"

definition resourceAwsIamRoleUpdate :: "env \<Rightarrow> IAM \<Rightarrow> ResourceData \<Rightarrow> trace \<Rightarrow> result" where
  "resourceAwsIamRoleUpdate ev conn d =
     andThen (updateAssumeRolePolicy conn d)
       (andThen (updateRoleDescription conn d)
         (andThen (updateMaxSessionDuration conn d)
           (andThen (updatePermissionsBoundary conn d)
             (andThen (updateTags conn d)
               (andThen (updateInlinePolicies ev conn d)
                 (andThen (updateManagedPolicies ev conn d)
                   (resourceAwsIamRoleRead ev conn d)))))))"

section \<open>Create\<close>

definition createName :: "env \<Rightarrow> ResourceData \<Rightarrow> string" where
  "createName ev d =
     (if name (config d) \<noteq> [] then name (config d)
      else if name_prefix (config d) \<noteq> [] then PrefixedUniqueId ev (name_prefix (config d))
      else UniqueId ev)"

definition createRequest :: "env \<Rightarrow> ResourceData \<Rightarrow> CreateRoleInput" where
  "createRequest ev d =
     \<lparr>cr_Path = path (config d),
      cr_RoleName = createName ev d,
      cr_AssumeRolePolicyDocument = assume_role_policy (config d),
      cr_Description =
        (if description (config d) \<noteq> [] then Some (description (config d)) else None),
      cr_MaxSessionDuration =
        (if max_session_duration (config d) \<noteq> 0 then Some (max_session_duration (config d)) else None),
      cr_PermissionsBoundary =
        (if permissions_boundary (config d) \<noteq> [] then Some (permissions_boundary (config d)) else None),
      cr_Tags = (if length (tags (config d)) > 0 then IgnoreAws ev (tags (config d)) else [])\<rparr>"

text \<open>The function handed to \<^verbatim>\<open>resource.Retry\<close> in \<^verbatim>\<open>resourceAwsIamRoleCreate\<close>.\<close>

definition tryCreateRole :: "IAM \<Rightarrow> CreateRoleInput \<Rightarrow> trace \<Rightarrow> Role RetryError \<times> trace" where
  "tryCreateRole conn request tr =
     (let tr' = tr @ [CreateRole request]
      in case apiOut (iam_CreateRole conn tr request) of
           Inl x \<Rightarrow>
             if isAWSErr (Some x) ''MalformedPolicyDocument'' ''Invalid principal in policy''
             then (RetryableError x, tr')
             else (NonRetryableError x, tr')
         | Inr role \<Rightarrow> (RetryNil role, tr'))"

definition retryCreateRole :: "env \<Rightarrow> IAM \<Rightarrow> CreateRoleInput \<Rightarrow> trace \<Rightarrow> (err + Role) \<times> trace" where
  "retryCreateRole ev conn request tr =
     (case Retry (attempts ev (30 * Second)) (tryCreateRole conn request) None tr of
        (r, tr1) \<Rightarrow>
          if isResourceTimeoutError (case r of Inl x \<Rightarrow> Some x | Inr v \<Rightarrow> None)
          then (apiOut (iam_CreateRole conn tr1 request), tr1 @ [CreateRole request])
          else (r, tr1))"

definition resourceAwsIamRoleCreate :: "env \<Rightarrow> IAM \<Rightarrow> ResourceData \<Rightarrow> trace \<Rightarrow> result" where
  "resourceAwsIamRoleCreate ev conn d tr =
     (case retryCreateRole ev conn (createRequest ev d) tr of
        (Inl x, tr1) \<Rightarrow>
          ((Some (Errorf_s (''Error creating IAM Role '' @ createName ev d @ '': '') x), d), tr1)
      | (Inr role, tr1) \<Rightarrow>
          (let roleName = RoleName role
           in case (if inline_policy (config d) \<noteq> []
                    then resourceAwsIamRoleCreateInlinePolicies conn
                           (expandIamInlinePolicies ev roleName (inline_policy (config d))) tr1
                    else (None, tr1)) of
                (Some x, tr2) \<Rightarrow> ((Some x, d), tr2)
              | (None, tr2) \<Rightarrow>
                  (case (if managed_policy_arns (config d) \<noteq> []
                         then resourceAwsIamRoleAttachManagedPolicies conn roleName
                                (expandStringList ev (managed_policy_arns (config d))) tr2
                         else (None, tr2)) of
                     (Some x, tr3) \<Rightarrow> ((Some x, d), tr3)
                   | (None, tr3) \<Rightarrow> resourceAwsIamRoleRead ev conn (d\<lparr>rd_Id := roleName\<rparr>) tr3)))"

section \<open>Delete\<close>

definition resourceAwsIamRoleDelete :: "env \<Rightarrow> IAM \<Rightarrow> ResourceData \<Rightarrow> trace \<Rightarrow> result" where
  "resourceAwsIamRoleDelete ev conn d tr =
     (case deleteAwsIamRole ev conn (rd_Id d) (force_detach_policies (config d)) tr of
        (e, tr1) \<Rightarrow>
          if ErrCodeEquals e ErrCodeNoSuchEntityException then ((None, d), tr1)
          else (case e of
                  Some x \<Rightarrow> ((Some (Errorf_w (''error deleting IAM Role ('' @ rd_Id d @ ''): '') x), d), tr1)
                | None \<Rightarrow> ((None, d), tr1)))"

section \<open>Notions for the statements\<close>

text \<open>The requests sent between the history \<open>tr\<close> and the later history \<open>tr'\<close>.\<close>

definition issued :: "trace \<Rightarrow> trace \<Rightarrow> trace" where
  "issued tr tr' = drop (length tr) tr'"

text \<open>
  \<open>sends P tr tr'\<close>: the history \<open>tr'\<close> continues \<open>tr\<close>, and every request sent in
  between satisfies \<open>P\<close>.
\<close>

definition sends :: "(call \<Rightarrow> bool) \<Rightarrow> trace \<Rightarrow> trace \<Rightarrow> bool" where
  "sends P tr tr' = (take (length tr) tr' = tr \<and> list_all P (issued tr tr'))"

text \<open>Every request of the list is answered without error, one after the other.\<close>

fun deletedAll :: "IAM \<Rightarrow> string \<Rightarrow> string option list \<Rightarrow> trace \<Rightarrow> bool" where
  "deletedAll conn r [] tr = True"
| "deletedAll conn r (n # ns) tr =
     (iam_DeleteRolePolicy conn tr n r = None \<and> deletedAll conn r ns (tr @ [DeleteRolePolicy n r]))"

text \<open>Every request of the list is answered without error or with \<^verbatim>\<open>NoSuchEntity\<close>.\<close>

fun detachedAll :: "IAM \<Rightarrow> string \<Rightarrow> string option list \<Rightarrow> trace \<Rightarrow> bool" where
  "detachedAll conn r [] tr = True"
| "detachedAll conn r (n # ns) tr =
     ((iam_DetachRolePolicy conn tr n r = None
        \<or> ErrCodeEquals (apiErr (iam_DetachRolePolicy conn tr n r)) ErrCodeNoSuchEntityException)
      \<and> detachedAll conn r ns (tr @ [DetachRolePolicy n r]))"

text \<open>
  Every removal from an instance profile of the list is answered without error or with
  \<^verbatim>\<open>NoSuchEntity\<close>, one after the other.
\<close>

fun removedAll :: "IAM \<Rightarrow> string \<Rightarrow> string option list \<Rightarrow> trace \<Rightarrow> bool" where
  "removedAll conn r [] tr = True"
| "removedAll conn r (p # ps) tr =
     ((iam_RemoveRoleFromInstanceProfile conn tr p r = None
        \<or> ErrCodeEquals (apiErr (iam_RemoveRoleFromInstanceProfile conn tr p r)) ErrCodeNoSuchEntityException)
      \<and> removedAll conn r ps (tr @ [RemoveRoleFromInstanceProfile p r]))"

text \<open>
  The steps of the cascade: 0 for the instance profiles, 1 for the managed policies, 2 for
  the inline policies, 3 for the role itself, 4 for every other request.
\<close>

definition phase :: "call \<Rightarrow> nat" where
  "phase c =
     (case c of
        ListInstanceProfilesForRole r \<Rightarrow> 0
      | RemoveRoleFromInstanceProfile p r \<Rightarrow> 0
      | ListAttachedRolePoliciesPages r \<Rightarrow> 1
      | DetachRolePolicy p r \<Rightarrow> 1
      | ListRolePoliciesPages r \<Rightarrow> 2
      | DeleteRolePolicy p r \<Rightarrow> 2
      | DeleteRole r \<Rightarrow> 3
      | _ \<Rightarrow> 4)"

text \<open>
  \<open>inOrder lo hi tr tr'\<close>: the requests sent between \<open>tr\<close> and \<open>tr'\<close> belong to the
  steps \<open>lo\<close> to \<open>hi\<close> and come in the order of the steps.
\<close>

definition inOrder :: "nat \<Rightarrow> nat \<Rightarrow> trace \<Rightarrow> trace \<Rightarrow> bool" where
  "inOrder lo hi tr tr' =
     (sends (\<lambda>c. lo \<le> phase c \<and> phase c \<le> hi) tr tr' \<and> sorted (map phase (issued tr tr')))"

text \<open>The failures of the requests of a bulk attach, in the order of the list, as the loops wrap them.\<close>

fun putFailures :: "IAM \<Rightarrow> PutRolePolicyInput list \<Rightarrow> trace \<Rightarrow> err list" where
  "putFailures conn [] tr = []"
| "putFailures conn (p # ps) tr =
     (case iam_PutRolePolicy conn tr p of
        Some a \<Rightarrow> [Errorf_w (''creating inline policy ('' @ StringValue (PolicyName p) @ ''): '') (AwsErr a)]
      | None \<Rightarrow> [])
     @ putFailures conn ps (tr @ [PutRolePolicy p])"

fun attachFailures :: "IAM \<Rightarrow> string \<Rightarrow> string option list \<Rightarrow> trace \<Rightarrow> err list" where
  "attachFailures conn r [] tr = []"
| "attachFailures conn r (p # ps) tr =
     (case iam_AttachRolePolicy conn tr r (StringValue p) of
        Some a \<Rightarrow> [Errorf_w (''attaching managed policy ('' @ StringValue p @ ''): '') (AwsErr a)]
      | None \<Rightarrow> [])
     @ attachFailures conn r ps (tr @ [AttachRolePolicy r (StringValue p)])"

text \<open>
  \<open>conflictAt conn r tr i\<close>: after the history \<open>tr\<close> and \<open>i\<close> requests
  \<^verbatim>\<open>DeleteRole\<close>, the next \<^verbatim>\<open>DeleteRole\<close> is answered with
  \<^verbatim>\<open>DeleteConflict\<close>. \<open>retried conn r n tr tr' k\<close>: between \<open>tr\<close> and
  \<open>tr'\<close> exactly \<open>k\<close> requests \<^verbatim>\<open>DeleteRole\<close> are sent, at most \<open>n\<close>;
  each but the last is answered with \<^verbatim>\<open>DeleteConflict\<close>, and when the last is
  too, all \<open>n\<close> attempts are used.
\<close>

definition conflictAt :: "IAM \<Rightarrow> string \<Rightarrow> trace \<Rightarrow> nat \<Rightarrow> bool" where
  "conflictAt conn r tr i =
     ErrCodeEquals (apiErr (iam_DeleteRole conn (tr @ replicate i (DeleteRole r)) r))
       ErrCodeDeleteConflictException"

definition retried :: "IAM \<Rightarrow> string \<Rightarrow> nat \<Rightarrow> trace \<Rightarrow> trace \<Rightarrow> nat \<Rightarrow> bool" where
  "retried conn r n tr tr' k =
     (k \<le> n \<and> tr' = tr @ replicate k (DeleteRole r)
      \<and> (\<forall>i. Suc i < k \<longrightarrow> conflictAt conn r tr i)
      \<and> (0 < k \<and> conflictAt conn r tr (k - 1) \<longrightarrow> k = n)
      \<and> (0 < n \<longrightarrow> 0 < k))"


section \<open>A service for the examples\<close>

text \<open>
  A role, a host framework and a service that answers every request without error: no
  instance profile, no policy, and \<open>example_role\<close> for \<^verbatim>\<open>CreateRole\<close> and
  \<^verbatim>\<open>GetRole\<close>. The examples below change single answers of it.
\<close>

definition example_role :: Role where
  "example_role =
     \<lparr>Arn = Some ''arn:aws:iam::123456789012:role/r'', CreateDate = 0, Description = None,
      MaxSessionDuration = Some 3600, RoleName = ''r'', Path = Some ''/'',
      PermissionsBoundary = None, RoleId = Some ''AROAEXAMPLE'', Tags = [],
      AssumeRolePolicyDocument = ''{}''\<rparr>"

definition example_env :: env where
  "example_env =
     \<lparr>attempts = (\<lambda>w. 3), PropagationTimeout = 120 * Second,
      QueryUnescape = (\<lambda>s. Inr s), PrefixedUniqueId = (\<lambda>p. p @ ''0001''),
      UniqueId = ''terraform-0001'', IgnoreAws = (\<lambda>t. t), IgnoreConfig = (\<lambda>t. t),
      expandStringList = map Some, RFC3339 = (\<lambda>t. ''1970-01-01T00:00:00Z'')\<rparr>"

definition example_conn :: IAM where
  "example_conn =
     \<lparr>iam_CreateRole = (\<lambda>tr request. Inr example_role),
      iam_GetRole = (\<lambda>tr r. Inr (Some (Some example_role))),
      iam_UpdateAssumeRolePolicy = (\<lambda>tr r p. None),
      iam_UpdateRoleDescription = (\<lambda>tr r p. None),
      iam_UpdateRole = (\<lambda>tr r p. None),
      iam_PutRolePermissionsBoundary = (\<lambda>tr p r. None),
      iam_DeleteRolePermissionsBoundary = (\<lambda>tr r. None),
      iam_IamRoleUpdateTags = (\<lambda>tr r o1 n1. None),
      iam_ListInstanceProfilesForRole = (\<lambda>tr r. Inr []),
      iam_RemoveRoleFromInstanceProfile = (\<lambda>tr p r. None),
      iam_ListAttachedRolePoliciesPages = (\<lambda>tr r. ([], None)),
      iam_DetachRolePolicy = (\<lambda>tr p r. None),
      iam_ListRolePoliciesPages = (\<lambda>tr r. ([], None)),
      iam_DeleteRolePolicy = (\<lambda>tr p r. None),
      iam_GetRolePolicy = (\<lambda>tr r p. Inr ''{}''),
      iam_PutRolePolicy = (\<lambda>tr p. None),
      iam_AttachRolePolicy = (\<lambda>tr r p. None),
      iam_DeleteRole = (\<lambda>tr r. None)\<rparr>"

definition example_attrs :: attrs where
  "example_attrs =
     \<lparr>arn = ''arn:aws:iam::123456789012:role/r'', unique_id = ''AROAEXAMPLE'', name = ''r'',
      name_prefix = [], path = ''/'', permissions_boundary = [], description = [],
      assume_role_policy = ''{}'', force_detach_policies = False,
      create_date = ''1970-01-01T00:00:00Z'', max_session_duration = 3600, tags = [],
      inline_policy = [], managed_policy_arns = []\<rparr>"

definition example_data :: ResourceData where
  "example_data = \<lparr>rd_Id = ''r'', state = example_attrs, config = example_attrs\<rparr>"

text \<open>The answers \<^verbatim>\<open>NoSuchEntity\<close>, \<^verbatim>\<open>DeleteConflict\<close> and another failure.\<close>

definition noSuchEntity :: awserr where
  "noSuchEntity = AwsError ''NoSuchEntity'' ''The role cannot be found.''"

definition deleteConflict :: awserr where
  "deleteConflict = AwsError ''DeleteConflict'' ''Cannot delete entity, must detach all policies first.''"

definition serviceFailure :: awserr where
  "serviceFailure = AwsError ''ServiceFailure'' ''The request processing has failed.''"

text \<open>A service where the policy \<open>b\<close> is already gone when it is detached or deleted.\<close>

definition gone_conn :: IAM where
  "gone_conn =
     example_conn
       \<lparr>iam_DetachRolePolicy := (\<lambda>tr p r. if p = Some ''b'' then Some noSuchEntity else None),
        iam_DeleteRolePolicy := (\<lambda>tr p r. if p = Some ''b'' then Some noSuchEntity else None)\<rparr>"

text \<open>A service where every request about the policies \<open>a\<close> and \<open>c\<close> fails.\<close>

definition failing_conn :: IAM where
  "failing_conn =
     example_conn
       \<lparr>iam_DetachRolePolicy :=
          (\<lambda>tr p r. if p = Some ''a'' \<or> p = Some ''c'' then Some serviceFailure else None),
        iam_PutRolePolicy :=
          (\<lambda>tr p. if PolicyName p = Some ''a'' \<or> PolicyName p = Some ''c''
                   then Some serviceFailure else None),
        iam_AttachRolePolicy :=
          (\<lambda>tr r p. if p = ''a'' \<or> p = ''c'' then Some serviceFailure else None)\<rparr>"

definition example_policy :: "string \<Rightarrow> PutRolePolicyInput" where
  "example_policy n = \<lparr>PolicyDocument = Some ''{}'', PolicyName = Some n, pr_RoleName = Some ''r''\<rparr>"

text \<open>A service where the role is in one instance profile.\<close>

definition profile_conn :: IAM where
  "profile_conn = example_conn\<lparr>iam_ListInstanceProfilesForRole := (\<lambda>tr r. Inr [Some ''p''])\<rparr>"

text \<open>
  A service where the role is in the instance profiles \<open>p\<close>, \<open>q\<close> and \<open>s\<close>; \<open>q\<close> is
  already gone when the role is removed from it.
\<close>

definition profiles_conn :: IAM where
  "profiles_conn =
     example_conn
       \<lparr>iam_ListInstanceProfilesForRole := (\<lambda>tr r. Inr [Some ''p'', Some ''q'', Some ''s'']),
        iam_RemoveRoleFromInstanceProfile :=
          (\<lambda>tr p r. if p = Some ''q'' then Some noSuchEntity else None)\<rparr>"

text \<open>The same service, but removing the role from the profile \<open>s\<close> fails.\<close>

definition stuck_profiles_conn :: IAM where
  "stuck_profiles_conn =
     profiles_conn
       \<lparr>iam_RemoveRoleFromInstanceProfile :=
          (\<lambda>tr p r. if p = Some ''q'' then Some noSuchEntity
                     else if p = Some ''s'' then Some serviceFailure else None)\<rparr>"

text \<open>The resource data with the flag \<^verbatim>\<open>force_detach_policies\<close> set to \<open>b\<close>.\<close>

definition withForceDetach :: "bool \<Rightarrow> ResourceData \<Rightarrow> ResourceData" where
  "withForceDetach b d = d\<lparr>config := (config d)\<lparr>force_detach_policies := b\<rparr>\<rparr>"

text \<open>
  A service where the role is in one instance profile and has one managed and one inline
  policy, and where the first \<^verbatim>\<open>DeleteRole\<close> is answered with
  \<^verbatim>\<open>DeleteConflict\<close>.
\<close>

definition cascade_conn :: IAM where
  "cascade_conn =
     example_conn
       \<lparr>iam_ListInstanceProfilesForRole := (\<lambda>tr r. Inr [Some ''p'']),
        iam_ListAttachedRolePoliciesPages := (\<lambda>tr r. ([Some ''arn:aws:iam::aws:policy/m''], None)),
        iam_ListRolePoliciesPages := (\<lambda>tr r. ([Some ''i''], None)),
        iam_DeleteRole := (\<lambda>tr r. if DeleteRole r \<in> set tr then None else Some deleteConflict)\<rparr>"

text \<open>A service where the role has the inline policies \<open>p1\<close> and \<open>p2\<close>.\<close>

definition named_conn :: IAM where
  "named_conn =
     example_conn
       \<lparr>iam_ListRolePoliciesPages := (\<lambda>tr r. ([Some ''p1'', Some ''p2''], None)),
        iam_GetRolePolicy := (\<lambda>tr r p. if p = Some ''p1'' then Inr ''doc1'' else Inr ''doc2'')\<rparr>"

section \<open>Notions for the Update operation\<close>

text \<open>
  The attributes that \<^verbatim>\<open>resourceAwsIamRoleUpdate\<close> reconciles, the attribute that a
  request changes (\<open>None\<close> for a request that changes none of them), and the requests
  that only read.
\<close>

datatype attribute =
    A_assume_role_policy
  | A_description
  | A_max_session_duration
  | A_permissions_boundary
  | A_tags
  | A_inline_policy
  | A_managed_policy_arns

definition mutated :: "call \<Rightarrow> attribute option" where
  "mutated c =
     (case c of
        UpdateAssumeRolePolicy r p \<Rightarrow> Some A_assume_role_policy
      | UpdateRoleDescription r p \<Rightarrow> Some A_description
      | UpdateRole r p \<Rightarrow> Some A_max_session_duration
      | PutRolePermissionsBoundary p r \<Rightarrow> Some A_permissions_boundary
      | DeleteRolePermissionsBoundary r \<Rightarrow> Some A_permissions_boundary
      | IamRoleUpdateTags r o1 n1 \<Rightarrow> Some A_tags
      | DeleteRolePolicy p r \<Rightarrow> Some A_inline_policy
      | PutRolePolicy p \<Rightarrow> Some A_inline_policy
      | DetachRolePolicy p r \<Rightarrow> Some A_managed_policy_arns
      | AttachRolePolicy r p \<Rightarrow> Some A_managed_policy_arns
      | _ \<Rightarrow> None)"

definition isRead :: "call \<Rightarrow> bool" where
  "isRead c =
     (case c of
        GetRole r \<Rightarrow> True
      | ListRolePoliciesPages r \<Rightarrow> True
      | GetRolePolicy r p \<Rightarrow> True
      | ListAttachedRolePoliciesPages r \<Rightarrow> True
      | _ \<Rightarrow> False)"

text \<open>\<open>changed d k\<close>: \<^verbatim>\<open>d.HasChange\<close> for the attribute \<open>k\<close>.\<close>

definition changed :: "ResourceData \<Rightarrow> attribute \<Rightarrow> bool" where
  "changed d k =
     (case k of
        A_assume_role_policy \<Rightarrow> HasChange assume_role_policy d
      | A_description \<Rightarrow> HasChange description d
      | A_max_session_duration \<Rightarrow> HasChange max_session_duration d
      | A_permissions_boundary \<Rightarrow> HasChange permissions_boundary d
      | A_tags \<Rightarrow> HasChangeMap tags d
      | A_inline_policy \<Rightarrow> HasChangeSet inline_policy d
      | A_managed_policy_arns \<Rightarrow> HasChangeSet managed_policy_arns d)"

text \<open>
  \<open>reconciles ev d c\<close>: a request about an inline policy or a managed policy comes from
  the set differences of the old and the new set: a policy is removed only for an element
  of the old set that is not in the new set, and added only for an element of the new set
  that is not in the old set. Every other request reconciles.
\<close>

definition reconciles :: "env \<Rightarrow> ResourceData \<Rightarrow> call \<Rightarrow> bool" where
  "reconciles ev d c =
     (case c of
        DeleteRolePolicy p r \<Rightarrow>
          r = name (config d)
          \<and> (\<exists>m \<in> set (inline_policy (state d)) - set (inline_policy (config d)).
                p = Some (tf_name m))
      | PutRolePolicy p \<Rightarrow>
          (\<exists>m \<in> set (inline_policy (config d)) - set (inline_policy (state d)).
                p = expandIamInlinePolicy ev (name (config d)) m)
      | DetachRolePolicy p r \<Rightarrow>
          r = name (config d)
          \<and> p \<in> set (expandStringList ev
                       (Difference (managed_policy_arns (state d)) (managed_policy_arns (config d))))
      | AttachRolePolicy r a \<Rightarrow>
          r = name (config d)
          \<and> (\<exists>p \<in> set (expandStringList ev
                         (Difference (managed_policy_arns (config d)) (managed_policy_arns (state d)))).
                a = StringValue p)
      | _ \<Rightarrow> True)"

text \<open>
  The requests about the inline policies and about the managed policies that an Update
  sends when no request fails: when the set has a change, the removals for the old set
  minus the new set, then the additions for the new set minus the old set.
\<close>

definition inlineRequests :: "env \<Rightarrow> ResourceData \<Rightarrow> call list" where
  "inlineRequests ev d =
     (if HasChangeSet inline_policy d
      then map (\<lambda>m. DeleteRolePolicy (Some (tf_name m)) (name (config d)))
             (Difference (inline_policy (state d)) (inline_policy (config d)))
           @ map (\<lambda>m. PutRolePolicy (expandIamInlinePolicy ev (name (config d)) m))
               (Difference (inline_policy (config d)) (inline_policy (state d)))
      else [])"

definition managedRequests :: "env \<Rightarrow> ResourceData \<Rightarrow> call list" where
  "managedRequests ev d =
     (if HasChangeSet managed_policy_arns d
      then map (\<lambda>p. DetachRolePolicy p (name (config d)))
             (expandStringList ev
                (Difference (managed_policy_arns (state d)) (managed_policy_arns (config d))))
           @ map (\<lambda>p. AttachRolePolicy (name (config d)) (StringValue p))
               (expandStringList ev
                  (Difference (managed_policy_arns (config d)) (managed_policy_arns (state d))))
      else [])"

text \<open>\<open>answersAll conn\<close>: the service answers every request that changes the role without error.\<close>

definition answersAll :: "IAM \<Rightarrow> bool" where
  "answersAll conn =
     ((\<forall>t r p. iam_UpdateAssumeRolePolicy conn t r p = None)
      \<and> (\<forall>t r p. iam_UpdateRoleDescription conn t r p = None)
      \<and> (\<forall>t r p. iam_UpdateRole conn t r p = None)
      \<and> (\<forall>t p r. iam_PutRolePermissionsBoundary conn t p r = None)
      \<and> (\<forall>t r. iam_DeleteRolePermissionsBoundary conn t r = None)
      \<and> (\<forall>t r o1 n1. iam_IamRoleUpdateTags conn t r o1 n1 = None)
      \<and> (\<forall>t p r. iam_DeleteRolePolicy conn t p r = None)
      \<and> (\<forall>t p. iam_PutRolePolicy conn t p = None)
      \<and> (\<forall>t p r. iam_DetachRolePolicy conn t p r = None)
      \<and> (\<forall>t r p. iam_AttachRolePolicy conn t r p = None))"

text \<open>
  A resource whose description, inline policies and managed policies have a change: the
  inline policy \<open>p1\<close> and the managed policy \<open>arn:a\<close> go, \<open>p3\<close> and \<open>arn:c\<close> come,
  \<open>p2\<close> and \<open>arn:b\<close> stay.
\<close>

definition example_inline :: "string \<Rightarrow> tfMap" where
  "example_inline n = \<lparr>tf_name = n, tf_name_prefix = [], tf_policy = ''{}''\<rparr>"

definition changed_data :: ResourceData where
  "changed_data =
     \<lparr>rd_Id = ''r'',
      state = example_attrs
        \<lparr>inline_policy := [example_inline ''p1'', example_inline ''p2''],
         managed_policy_arns := [''arn:a'', ''arn:b'']\<rparr>,
      config = example_attrs
        \<lparr>description := ''new'',
         inline_policy := [example_inline ''p2'', example_inline ''p3''],
         managed_policy_arns := [''arn:b'', ''arn:c'']\<rparr>\<rparr>"

text \<open>
  A resource whose inline policies \<open>b\<close> and \<open>c\<close> are to be removed; nothing else has a
  change.
\<close>

definition stale_data :: ResourceData where
  "stale_data =
     \<lparr>rd_Id = ''r'',
      state = example_attrs\<lparr>inline_policy := [example_inline ''b'', example_inline ''c'']\<rparr>,
      config = example_attrs\<rparr>"

text \<open>
  A resource whose managed policies \<open>a\<close> and \<open>b\<close> are to be detached and whose managed
  policy \<open>c\<close> is to be attached; nothing else has a change.
\<close>

definition aborted_data :: ResourceData where
  "aborted_data =
     \<lparr>rd_Id = ''r'',
      state = example_attrs\<lparr>managed_policy_arns := [''a'', ''b'']\<rparr>,
      config = example_attrs\<lparr>managed_policy_arns := [''c'']\<rparr>\<rparr>"

text \<open>A service where the role does not exist: every request about it answers \<^verbatim>\<open>NoSuchEntity\<close>.\<close>

definition gone_role_conn :: IAM where
  "gone_role_conn =
     example_conn
       \<lparr>iam_CreateRole := (\<lambda>tr request. Inl noSuchEntity),
        iam_GetRole := (\<lambda>tr r. Inl noSuchEntity),
        iam_UpdateAssumeRolePolicy := (\<lambda>tr r p. Some noSuchEntity),
        iam_UpdateRoleDescription := (\<lambda>tr r p. Some noSuchEntity),
        iam_UpdateRole := (\<lambda>tr r p. Some noSuchEntity),
        iam_DeleteRole := (\<lambda>tr r. Some noSuchEntity)\<rparr>"

section \<open>Notions for the Create operation\<close>

text \<open>
  \<open>createErr conn request t\<close>: the error of \<^verbatim>\<open>CreateRole\<close> after the history \<open>t\<close>,
  if any. \<open>principalAt conn request tr i\<close>: after \<open>tr\<close> and \<open>i\<close> requests
  \<^verbatim>\<open>CreateRole\<close>, the next one fails with \<^verbatim>\<open>MalformedPolicyDocument\<close> and a
  message about an invalid principal. \<open>retriedCreate conn request n tr tr' k\<close>: between
  \<open>tr\<close> and \<open>tr'\<close> exactly \<open>k\<close> requests \<^verbatim>\<open>CreateRole\<close> are sent, at most \<open>n\<close>;
  each but the last failed in that way, and when the last did too, all \<open>n\<close> attempts
  are used.
\<close>

definition createErr :: "IAM \<Rightarrow> CreateRoleInput \<Rightarrow> trace \<Rightarrow> err option" where
  "createErr conn request t =
     (case iam_CreateRole conn t request of Inl a \<Rightarrow> Some (AwsErr a) | Inr role \<Rightarrow> None)"

definition principalAt :: "IAM \<Rightarrow> CreateRoleInput \<Rightarrow> trace \<Rightarrow> nat \<Rightarrow> bool" where
  "principalAt conn request tr i =
     isAWSErr (createErr conn request (tr @ replicate i (CreateRole request)))
       ''MalformedPolicyDocument'' ''Invalid principal in policy''"

definition retriedCreate :: "IAM \<Rightarrow> CreateRoleInput \<Rightarrow> nat \<Rightarrow> trace \<Rightarrow> trace \<Rightarrow> nat \<Rightarrow> bool" where
  "retriedCreate conn request n tr tr' k =
     (k \<le> n \<and> tr' = tr @ replicate k (CreateRole request)
      \<and> (\<forall>i. Suc i < k \<longrightarrow> principalAt conn request tr i)
      \<and> (0 < k \<and> principalAt conn request tr (k - 1) \<longrightarrow> k = n)
      \<and> (0 < n \<longrightarrow> 0 < k))"

text \<open>
  A service where the principal of the trust policy becomes visible after two failed
  \<^verbatim>\<open>CreateRole\<close> requests, and a resource with one inline and one managed policy.
\<close>

definition invalidPrincipal :: awserr where
  "invalidPrincipal = AwsError ''MalformedPolicyDocument'' ''Invalid principal in policy: AWS''"

definition propagating_conn :: IAM where
  "propagating_conn =
     example_conn
       \<lparr>iam_CreateRole := (\<lambda>tr request. if length tr < 2 then Inl invalidPrincipal else Inr example_role)\<rparr>"

definition new_data :: ResourceData where
  "new_data =
     \<lparr>rd_Id = [],
      state = example_attrs,
      config = example_attrs
        \<lparr>inline_policy := [example_inline ''p1''],
         managed_policy_arns := [''arn:a'']\<rparr>\<rparr>"

section \<open>Requests sent by the helper functions\<close>

lemma ErrCodeEquals_None [simp]: "ErrCodeEquals None c = False"
  by (simp add: ErrCodeEquals_def)

lemma apiErr_simps [simp]: "apiErr None = None" "apiErr (Some a) = Some (AwsErr a)"
  by (simp_all add: apiErr_def)

lemma sends_iff: "sends P tr tr' \<longleftrightarrow> (\<exists>suf. tr' = tr @ suf \<and> list_all P suf)"
proof
  assume "sends P tr tr'"
  then have "tr' = tr @ issued tr tr'" "list_all P (issued tr tr')"
    unfolding sends_def issued_def by (metis append_take_drop_id, simp)
  then show "\<exists>suf. tr' = tr @ suf \<and> list_all P suf" by blast
next
  assume "\<exists>suf. tr' = tr @ suf \<and> list_all P suf"
  then show "sends P tr tr'" unfolding sends_def issued_def by auto
qed

lemma sends_refl [simp]: "sends P tr tr"
  by (simp add: sends_iff)

lemma sends_snoc: "P c \<Longrightarrow> sends P tr (tr @ [c])"
  by (simp add: sends_iff)

lemma sends_trans: "sends P tr tr1 \<Longrightarrow> sends P tr1 tr2 \<Longrightarrow> sends P tr tr2"
  unfolding sends_iff by auto

lemma sends_snoc_trans: "P c \<Longrightarrow> sends P (tr @ [c]) tr2 \<Longrightarrow> sends P tr tr2"
  using sends_snoc sends_trans by blast

lemma sends_mono: "sends P tr tr' \<Longrightarrow> (\<And>c. P c \<Longrightarrow> Q c) \<Longrightarrow> sends Q tr tr'"
  unfolding sends_iff by (auto simp: list_all_iff)

lemma sends_issued: "sends P tr tr' \<Longrightarrow> c \<in> set (issued tr tr') \<Longrightarrow> P c"
  unfolding sends_def by (simp add: list_all_iff)

lemma removeRoleFromInstanceProfiles_sends:
  "removeRoleFromInstanceProfiles conn r ps tr = (e, tr') \<Longrightarrow>
   sends (\<lambda>c. \<exists>p. c = RemoveRoleFromInstanceProfile p r) tr tr'"
proof (induction ps arbitrary: tr)
  case Nil
  then show ?case by simp
next
  case (Cons p ps)
  have s: "sends (\<lambda>c. \<exists>p. c = RemoveRoleFromInstanceProfile p r) tr (tr @ [RemoveRoleFromInstanceProfile p r])"
    by (rule sends_snoc) blast
  from Cons.prems show ?case
    by (auto simp: Let_def split: if_splits option.splits intro: s sends_trans [OF s Cons.IH])
qed

lemma deleteAwsIamRolePolicyAttachments_sends:
  "deleteAwsIamRolePolicyAttachments conn r ps tr = (e, tr') \<Longrightarrow>
   sends (\<lambda>c. \<exists>p. p \<in> set ps \<and> c = DetachRolePolicy p r) tr tr'"
proof (induction ps arbitrary: tr)
  case Nil
  then show ?case by simp
next
  case (Cons p ps)
  have s: "sends (\<lambda>c. \<exists>q. q \<in> set (p # ps) \<and> c = DetachRolePolicy q r) tr (tr @ [DetachRolePolicy p r])"
    by (rule sends_snoc) auto
  have m: "\<And>t t'. sends (\<lambda>c. \<exists>q. q \<in> set ps \<and> c = DetachRolePolicy q r) t t' \<Longrightarrow>
     sends (\<lambda>c. \<exists>q. q \<in> set (p # ps) \<and> c = DetachRolePolicy q r) t t'"
    by (erule sends_mono) auto
  from Cons.prems consider "tr' = tr @ [DetachRolePolicy p r]"
    | "deleteAwsIamRolePolicyAttachments conn r ps (tr @ [DetachRolePolicy p r]) = (e, tr')"
    by (auto simp: Let_def split: if_splits option.splits)
  then show ?case
  proof cases
    case 1
    with s show ?thesis by simp
  next
    case 2
    from sends_trans [OF s m [OF Cons.IH [OF 2]]] show ?thesis .
  qed
qed

lemma deleteAwsIamRolePolicies_sends:
  "deleteAwsIamRolePolicies conn r ps tr = (e, tr') \<Longrightarrow>
   sends (\<lambda>c. \<exists>p. p \<in> set ps \<and> c = DeleteRolePolicy p r) tr tr'"
proof (induction ps arbitrary: tr)
  case Nil
  then show ?case by simp
next
  case (Cons p ps)
  have s: "sends (\<lambda>c. \<exists>q. q \<in> set (p # ps) \<and> c = DeleteRolePolicy q r) tr (tr @ [DeleteRolePolicy p r])"
    by (rule sends_snoc) auto
  have m: "\<And>t t'. sends (\<lambda>c. \<exists>q. q \<in> set ps \<and> c = DeleteRolePolicy q r) t t' \<Longrightarrow>
     sends (\<lambda>c. \<exists>q. q \<in> set (p # ps) \<and> c = DeleteRolePolicy q r) t t'"
    by (erule sends_mono) auto
  from Cons.prems consider "tr' = tr @ [DeleteRolePolicy p r]"
    | "deleteAwsIamRolePolicies conn r ps (tr @ [DeleteRolePolicy p r]) = (e, tr')"
    by (auto simp: Let_def split: if_splits option.splits)
  then show ?case
  proof cases
    case 1
    with s show ?thesis by simp
  next
    case 2
    from sends_trans [OF s m [OF Cons.IH [OF 2]]] show ?thesis .
  qed
qed

lemma deleteAwsIamRoleInstanceProfiles_sends:
  "deleteAwsIamRoleInstanceProfiles conn r tr = (e, tr') \<Longrightarrow>
   sends (\<lambda>c. c = ListInstanceProfilesForRole r \<or> (\<exists>p. c = RemoveRoleFromInstanceProfile p r)) tr tr'"
proof -
  assume a: "deleteAwsIamRoleInstanceProfiles conn r tr = (e, tr')"
  let ?P = "\<lambda>c. c = ListInstanceProfilesForRole r \<or> (\<exists>p. c = RemoveRoleFromInstanceProfile p r)"
  have s: "sends ?P tr (tr @ [ListInstanceProfilesForRole r])" by (rule sends_snoc) simp
  show ?thesis
  proof (cases "apiOut (iam_ListInstanceProfilesForRole conn tr r)")
    case (Inl x)
    with a s show ?thesis
      by (auto simp: deleteAwsIamRoleInstanceProfiles_def Let_def split: if_splits)
  next
    case (Inr ps)
    with a have "removeRoleFromInstanceProfiles conn r ps (tr @ [ListInstanceProfilesForRole r]) = (e, tr')"
      by (simp add: deleteAwsIamRoleInstanceProfiles_def Let_def)
    from removeRoleFromInstanceProfiles_sends [OF this]
    have "sends ?P (tr @ [ListInstanceProfilesForRole r]) tr'" by (rule sends_mono) blast
    with s show ?thesis by (rule sends_trans)
  qed
qed

lemma readAwsIamRolePolicyAttachments_sends:
  "readAwsIamRolePolicyAttachments conn r tr = (res, tr') \<Longrightarrow> tr' = tr @ [ListAttachedRolePoliciesPages r]"
  by (auto simp: readAwsIamRolePolicyAttachments_def Let_def split: prod.splits option.splits if_splits)

lemma readAwsIamRolePolicyNames_sends:
  "readAwsIamRolePolicyNames conn r tr = (res, tr') \<Longrightarrow> tr' = tr @ [ListRolePoliciesPages r]"
  by (auto simp: readAwsIamRolePolicyNames_def Let_def split: prod.splits option.splits if_splits)

lemma issued_append [simp]: "issued tr (tr @ suf) = suf"
  by (simp add: issued_def)

lemma issued_self [simp]: "issued tr tr = []"
  by (simp add: issued_def)

lemma inOrder_refl [simp]: "inOrder lo hi tr tr"
  by (simp add: inOrder_def)

lemma inOrder_sends: "sends (\<lambda>c. phase c = k) tr tr' \<Longrightarrow> inOrder k k tr tr'"
proof -
  assume "sends (\<lambda>c. phase c = k) tr tr'"
  then obtain suf where s: "tr' = tr @ suf" "list_all (\<lambda>c. phase c = k) suf"
    unfolding sends_iff by blast
  then have "map phase suf = replicate (length suf) k"
    by (induction suf arbitrary: tr') auto
  then have "sorted (map phase suf)" by simp
  moreover have "sends (\<lambda>c. k \<le> phase c \<and> phase c \<le> k) tr tr'"
    unfolding sends_iff using s by (auto simp: list_all_iff)
  ultimately show ?thesis using s by (simp add: inOrder_def)
qed

lemma inOrder_trans:
  assumes "inOrder a b tr tr1" "inOrder c d tr1 tr2" "b \<le> c" "a \<le> c" "b \<le> d"
  shows "inOrder a d tr tr2"
proof -
  from assms(1) obtain s1 where s1: "tr1 = tr @ s1" "list_all (\<lambda>c. a \<le> phase c \<and> phase c \<le> b) s1"
      "sorted (map phase s1)"
    unfolding inOrder_def sends_iff by auto
  from assms(2) obtain s2 where s2: "tr2 = tr1 @ s2" "list_all (\<lambda>x. c \<le> phase x \<and> phase x \<le> d) s2"
      "sorted (map phase s2)"
    unfolding inOrder_def sends_iff by auto
  have "sorted (map phase (s1 @ s2))"
    using s1 s2 assms(3) by (fastforce simp: sorted_append list_all_iff)
  moreover have "list_all (\<lambda>x. a \<le> phase x \<and> phase x \<le> d) (s1 @ s2)"
    using s1 s2 assms(3-5) by (fastforce simp: list_all_iff)
  ultimately show ?thesis
    unfolding inOrder_def sends_iff using s1(1) s2(1) by auto
qed

lemma inOrder_widen: "inOrder a b tr tr' \<Longrightarrow> a' \<le> a \<Longrightarrow> b \<le> b' \<Longrightarrow> inOrder a' b' tr tr'"
  unfolding inOrder_def by (auto elim!: sends_mono)

lemma deleteAwsIamRoleInstanceProfiles_phase:
  "deleteAwsIamRoleInstanceProfiles conn r tr = (e, tr') \<Longrightarrow> inOrder 0 0 tr tr'"
  by (rule inOrder_sends, drule deleteAwsIamRoleInstanceProfiles_sends, erule sends_mono)
     (auto simp: phase_def)

lemma forceDetachPolicies_sends:
  assumes "forceDetachPolicies conn r tr = (e, tr')"
  shows "sends (\<lambda>c. c = ListAttachedRolePoliciesPages r \<or> (\<exists>p. c = DetachRolePolicy p r)
                   \<or> c = ListRolePoliciesPages r \<or> (\<exists>p. c = DeleteRolePolicy p r)) tr tr'"
    and "inOrder 1 2 tr tr'"
proof -
  let ?P = "\<lambda>c. c = ListAttachedRolePoliciesPages r \<or> (\<exists>p. c = DetachRolePolicy p r)
                   \<or> c = ListRolePoliciesPages r \<or> (\<exists>p. c = DeleteRolePolicy p r)"
  obtain r1 tr1 where a1: "readAwsIamRolePolicyAttachments conn r tr = (r1, tr1)" by force
  then have t1: "tr1 = tr @ [ListAttachedRolePoliciesPages r]"
    by (rule readAwsIamRolePolicyAttachments_sends)
  have s1: "sends ?P tr tr1" unfolding t1 by (rule sends_snoc) simp
  have o1: "inOrder 1 1 tr tr1" unfolding t1
    by (rule inOrder_sends, rule sends_snoc) (simp add: phase_def)
  show "sends ?P tr tr'" "inOrder 1 2 tr tr'"
  proof (atomize (full), cases r1)
    case (Inl x)
    with assms a1 have "tr' = tr1" by (simp add: forceDetachPolicies_def)
    with s1 o1 show "sends ?P tr tr' \<and> inOrder 1 2 tr tr'" by (auto intro: inOrder_widen)
  next
    case (Inr mps)
    obtain e2 tr2 where a2: "deleteAwsIamRolePolicyAttachments conn r mps tr1 = (e2, tr2)" by force
    from deleteAwsIamRolePolicyAttachments_sends [OF a2]
    have d2: "sends (\<lambda>c. \<exists>p. c = DetachRolePolicy p r) tr1 tr2" by (rule sends_mono) blast
    then have s2: "sends ?P tr1 tr2" by (rule sends_mono) blast
    have "inOrder 1 1 tr1 tr2"
      by (rule inOrder_sends, rule sends_mono [OF d2]) (auto simp: phase_def)
    with o1 have o2: "inOrder 1 1 tr tr2" by (rule inOrder_trans) simp_all
    from s1 s2 have s12: "sends ?P tr tr2" by (rule sends_trans)
    show "sends ?P tr tr' \<and> inOrder 1 2 tr tr'"
    proof (cases e2)
      case (Some x)
      with assms a1 a2 Inr have "tr' = tr2" by (simp add: forceDetachPolicies_def)
      with s12 o2 show ?thesis by (auto intro: inOrder_widen)
    next
      case None
      obtain r3 tr3 where a3: "readAwsIamRolePolicyNames conn r tr2 = (r3, tr3)" by force
      then have t3: "tr3 = tr2 @ [ListRolePoliciesPages r]" by (rule readAwsIamRolePolicyNames_sends)
      have s3: "sends ?P tr2 tr3" unfolding t3 by (rule sends_snoc) simp
      have o3: "inOrder 2 2 tr2 tr3" unfolding t3
        by (rule inOrder_sends, rule sends_snoc) (simp add: phase_def)
      from s12 s3 have s13: "sends ?P tr tr3" by (rule sends_trans)
      from o2 o3 have o13: "inOrder 1 2 tr tr3" by (rule inOrder_trans) simp_all
      show ?thesis
      proof (cases r3)
        case (Inl x)
        with assms a1 a2 a3 Inr None have "tr' = tr3" by (simp add: forceDetachPolicies_def)
        with s13 o13 show ?thesis by simp
      next
        case (Inr ips)
        obtain e4 tr4 where a4: "deleteAwsIamRolePolicies conn r ips tr3 = (e4, tr4)" by force
        from deleteAwsIamRolePolicies_sends [OF a4]
        have d4: "sends (\<lambda>c. \<exists>p. c = DeleteRolePolicy p r) tr3 tr4" by (rule sends_mono) blast
        then have s4: "sends ?P tr3 tr4" by (rule sends_mono) blast
        have o4: "inOrder 2 2 tr3 tr4"
          by (rule inOrder_sends, rule sends_mono [OF d4]) (auto simp: phase_def)
        from assms a1 a2 a3 a4 \<open>r1 = Inr mps\<close> None Inr have "tr' = tr4"
          by (auto simp: forceDetachPolicies_def split: option.splits)
        with sends_trans [OF s13 s4] inOrder_trans [OF o13 o4] show ?thesis by simp
      qed
    qed
  qed
qed

lemma tryDeleteRole_cases:
  "tryDeleteRole conn r tr =
    (case iam_DeleteRole conn tr r of
       None \<Rightarrow> (RetryNil (), tr @ [DeleteRole r])
     | Some a \<Rightarrow>
         if ErrCodeEquals (Some (AwsErr a)) ErrCodeDeleteConflictException
         then (RetryableError (AwsErr a), tr @ [DeleteRole r])
         else (NonRetryableError (AwsErr a), tr @ [DeleteRole r]))"
  by (cases "iam_DeleteRole conn tr r") (simp_all add: tryDeleteRole_def Let_def)

lemma conflictAt_shift:
  "conflictAt conn r (tr @ [DeleteRole r]) i = conflictAt conn r tr (Suc i)"
  by (simp add: conflictAt_def)

lemma retried_one:
  "\<not> conflictAt conn r tr 0 \<Longrightarrow> retried conn r (Suc n) tr (tr @ [DeleteRole r]) 1"
  by (simp add: retried_def)

lemma retried_Suc:
  assumes "retried conn r n (tr @ [DeleteRole r]) tr' k" "conflictAt conn r tr 0"
  shows "retried conn r (Suc n) tr tr' (Suc k)"
proof -
  from assms(1) have k1: "k \<le> n" unfolding retried_def by (elim conjE)
  from assms(1) have k2: "tr' = (tr @ [DeleteRole r]) @ replicate k (DeleteRole r)"
    unfolding retried_def by (elim conjE)
  from assms(1) have al: "\<forall>i. Suc i < k \<longrightarrow> conflictAt conn r tr (Suc i)"
    unfolding retried_def conflictAt_shift by (elim conjE)
  from assms(1) have la: "0 < k \<and> conflictAt conn r tr (Suc (k - 1)) \<longrightarrow> k = n"
    unfolding retried_def conflictAt_shift by (elim conjE)
  from assms(1) have po: "0 < n \<longrightarrow> 0 < k"
    unfolding retried_def by (elim conjE)
  have 1: "Suc k \<le> Suc n" using k1 by simp
  have 2: "tr' = tr @ replicate (Suc k) (DeleteRole r)" unfolding k2 by simp
  have 3: "\<forall>i. Suc i < Suc k \<longrightarrow> conflictAt conn r tr i"
  proof (intro allI impI)
    fix i assume i: "Suc i < Suc k"
    show "conflictAt conn r tr i"
    proof (cases i)
      case 0
      with assms(2) show ?thesis by simp
    next
      case (Suc j)
      with i have "Suc j < k" by simp
      with al have "conflictAt conn r tr (Suc j)" by blast
      with Suc show ?thesis by simp
    qed
  qed
  have 4: "0 < Suc k \<and> conflictAt conn r tr (Suc k - 1) \<longrightarrow> Suc k = Suc n"
  proof (cases k)
    case 0
    with po have "n = 0" by (cases n) simp_all
    with 0 show ?thesis by simp
  next
    case (Suc j)
    with la show ?thesis by simp
  qed
  have 5: "0 < Suc n \<longrightarrow> 0 < Suc k" by simp
  show ?thesis unfolding retried_def using 1 2 3 4 5 by (intro conjI)
qed

lemma Retry_tryDeleteRole:
  "Retry n (tryDeleteRole conn r) lastErr tr = (res, tr') \<Longrightarrow>
   lastErr \<noteq> Some (TimeoutError None) \<Longrightarrow>
   \<exists>k. retried conn r n tr tr' k \<and> (res = Inl (TimeoutError None) \<longrightarrow> n = 0)"
proof (induction n arbitrary: lastErr tr)
  case 0
  then have "tr' = tr" by simp
  then have "retried conn r 0 tr tr' 0" by (simp add: retried_def)
  moreover have "res = Inl (TimeoutError None) \<longrightarrow> (0::nat) = 0" by simp
  ultimately show ?case by (intro exI conjI)
next
  case (Suc n)
  show ?case
  proof (cases "iam_DeleteRole conn tr r")
    case None
    then have "tryDeleteRole conn r tr = (RetryNil (), tr @ [DeleteRole r])"
      by (simp add: tryDeleteRole_cases)
    with Suc.prems have t: "tr' = tr @ [DeleteRole r]" "res = Inr ()"
      by simp_all
    from None have "\<not> conflictAt conn r tr 0" by (simp add: conflictAt_def apiErr_def ErrCodeEquals_def)
    from retried_one [OF this] have "retried conn r (Suc n) tr tr' 1" unfolding t .
    moreover have "res = Inl (TimeoutError None) \<longrightarrow> Suc n = 0" unfolding t by simp
    ultimately show ?thesis by (intro exI conjI)
  next
    case (Some a)
    show ?thesis
    proof (cases "ErrCodeEquals (Some (AwsErr a)) ErrCodeDeleteConflictException")
      case False
      with Some have "tryDeleteRole conn r tr = (NonRetryableError (AwsErr a), tr @ [DeleteRole r])"
        by (simp add: tryDeleteRole_cases)
      with Suc.prems have t: "tr' = tr @ [DeleteRole r]" "res = Inl (AwsErr a)"
        by simp_all
      from Some False have "\<not> conflictAt conn r tr 0" by (simp add: conflictAt_def apiErr_def)
      from retried_one [OF this] have "retried conn r (Suc n) tr tr' 1" unfolding t .
      moreover have "res = Inl (TimeoutError None) \<longrightarrow> Suc n = 0" unfolding t by simp
      ultimately show ?thesis by (intro exI conjI)
    next
      case True
      with Some have c0: "conflictAt conn r tr 0" by (simp add: conflictAt_def apiErr_def)
      from Some True have "tryDeleteRole conn r tr = (RetryableError (AwsErr a), tr @ [DeleteRole r])"
        by (simp add: tryDeleteRole_cases)
      with Suc.prems have R:
        "Retry n (tryDeleteRole conn r) (Some (AwsErr a)) (tr @ [DeleteRole r]) = (res, tr')"
        by simp
      have ne: "Some (AwsErr a) \<noteq> Some (TimeoutError None)" by simp
      from Suc.IH [OF R ne] obtain k where k: "retried conn r n (tr @ [DeleteRole r]) tr' k"
        and z: "res = Inl (TimeoutError None) \<longrightarrow> n = 0" by (elim exE conjE)
      have "res \<noteq> Inl (TimeoutError None)"
      proof
        assume t: "res = Inl (TimeoutError None)"
        with z have "n = 0" by simp
        with R have "res = Inl (AwsErr a)" by simp
        with t show False by simp
      qed
      then have "res = Inl (TimeoutError None) \<longrightarrow> Suc n = 0" by simp
      with retried_Suc [OF k c0] show ?thesis by (intro exI conjI)
    qed
  qed
qed

lemma retryDeleteRole_sends:
  assumes "retryDeleteRole ev conn r tr = (e, tr')"
  shows "\<exists>k. retried conn r (max 1 (attempts ev (PropagationTimeout ev))) tr tr' k \<and> 0 < k"
proof -
  let ?n = "attempts ev (PropagationTimeout ev)"
  obtain res tr1 where R: "Retry ?n (tryDeleteRole conn r) None tr = (res, tr1)" by force
  have "None \<noteq> Some (TimeoutError None)" by simp
  from Retry_tryDeleteRole [OF R this] obtain k where k: "retried conn r ?n tr tr1 k"
    and z: "res = Inl (TimeoutError None) \<longrightarrow> ?n = 0" by (elim exE conjE)
  show ?thesis
  proof (cases "res = Inl (TimeoutError None)")
    case True
    with z have n0: "?n = 0" by simp
    with R have "tr1 = tr" by simp
    with True R assms have "tr' = tr @ [DeleteRole r]"
      by (simp add: retryDeleteRole_def isResourceTimeoutError_def)
    then have "retried conn r (max 1 ?n) tr tr' 1" using n0 by (simp add: retried_def)
    then show ?thesis by (intro exI [of _ 1]) simp
  next
    case False
    then have nt: "\<not> isResourceTimeoutError (case res of Inl x \<Rightarrow> Some x | Inr u \<Rightarrow> None)"
      by (auto simp: isResourceTimeoutError_def split: sum.splits)
    with R assms have t: "tr' = tr1" by (simp add: retryDeleteRole_def Let_def)
    have "0 < ?n"
    proof (rule ccontr)
      assume "\<not> 0 < ?n"
      then have "?n = 0" by simp
      with R have "res = Inl (TimeoutError None)" by simp
      with False show False by simp
    qed
    then have m: "max 1 ?n = ?n" by simp
    from k have "0 < ?n \<longrightarrow> 0 < k" unfolding retried_def by (elim conjE)
    with \<open>0 < ?n\<close> have "0 < k" by blast
    moreover from k have "retried conn r (max 1 ?n) tr tr' k" unfolding t m .
    ultimately show ?thesis by (intro exI conjI)
  qed
qed

lemma replicate_same_length: "tr @ replicate k c = tr @ replicate j c \<Longrightarrow> k = j"
  by (drule arg_cong [where f = length]) simp

lemma Retry_tryDeleteRole_answer:
  "Retry n (tryDeleteRole conn r) lastErr tr = (res, tr') \<Longrightarrow>
   lastErr \<noteq> Some (TimeoutError None) \<Longrightarrow>
   tr' = tr @ replicate k (DeleteRole r) \<Longrightarrow> 0 < k \<Longrightarrow>
   (case res of Inl x \<Rightarrow> Some x | Inr u \<Rightarrow> None)
     = apiErr (iam_DeleteRole conn (tr @ replicate (k - 1) (DeleteRole r)) r)"
proof (induction n arbitrary: lastErr tr k)
  case 0
  then have "tr' = tr" by simp
  with 0 show ?case by simp
next
  case (Suc n)
  have one: "tr' = tr @ [DeleteRole r] \<Longrightarrow> k = 1"
  proof -
    assume "tr' = tr @ [DeleteRole r]"
    with Suc.prems(3) have "tr @ replicate k (DeleteRole r) = tr @ replicate 1 (DeleteRole r)"
      by simp
    then show "k = 1" by (rule replicate_same_length)
  qed
  show ?case
  proof (cases "iam_DeleteRole conn tr r")
    case None
    then have "tryDeleteRole conn r tr = (RetryNil (), tr @ [DeleteRole r])"
      by (simp add: tryDeleteRole_cases)
    with Suc.prems have t: "tr' = tr @ [DeleteRole r]" "res = Inr ()"
      by simp_all
    from one [OF t(1)] None t(2) show ?thesis by simp
  next
    case (Some a)
    show ?thesis
    proof (cases "ErrCodeEquals (Some (AwsErr a)) ErrCodeDeleteConflictException")
      case False
      with Some have "tryDeleteRole conn r tr = (NonRetryableError (AwsErr a), tr @ [DeleteRole r])"
        by (simp add: tryDeleteRole_cases)
      with Suc.prems have t: "tr' = tr @ [DeleteRole r]" "res = Inl (AwsErr a)"
        by simp_all
      from one [OF t(1)] Some t(2) show ?thesis by simp
    next
      case True
      from Some True have "tryDeleteRole conn r tr = (RetryableError (AwsErr a), tr @ [DeleteRole r])"
        by (simp add: tryDeleteRole_cases)
      with Suc.prems have R:
        "Retry n (tryDeleteRole conn r) (Some (AwsErr a)) (tr @ [DeleteRole r]) = (res, tr')"
        by simp
      have ne: "Some (AwsErr a) \<noteq> Some (TimeoutError None)" by simp
      from Suc.prems(4) obtain j where j: "k = Suc j" by (cases k) simp_all
      have t: "tr' = (tr @ [DeleteRole r]) @ replicate j (DeleteRole r)"
        using Suc.prems(3) unfolding j by simp
      show ?thesis
      proof (cases j)
        case 0
        from Retry_tryDeleteRole [OF R ne] obtain k' where
          k': "retried conn r n (tr @ [DeleteRole r]) tr' k'" by (elim exE conjE)
        then have "tr' = (tr @ [DeleteRole r]) @ replicate k' (DeleteRole r)"
          unfolding retried_def by (elim conjE)
        with t have "(tr @ [DeleteRole r]) @ replicate k' (DeleteRole r)
             = (tr @ [DeleteRole r]) @ replicate j (DeleteRole r)" by simp
        then have "k' = j" by (rule replicate_same_length)
        with 0 have k0: "k' = 0" by simp
        from k' have "0 < n \<longrightarrow> 0 < k'" unfolding retried_def by (elim conjE)
        with k0 have "n = 0" by simp
        with R have "res = Inl (AwsErr a)" by simp
        with Some j 0 show ?thesis by simp
      next
        case (Suc i)
        then have "0 < j" by simp
        from Suc.IH [OF R ne t this]
        have "(case res of Inl x \<Rightarrow> Some x | Inr u \<Rightarrow> None)
           = apiErr (iam_DeleteRole conn ((tr @ [DeleteRole r]) @ replicate (j - 1) (DeleteRole r)) r)" .
        then show ?thesis unfolding j Suc by simp
      qed
    qed
  qed
qed

lemma retryDeleteRole_answer:
  assumes "retryDeleteRole ev conn r tr = (e, tr')" "tr' = tr @ replicate k (DeleteRole r)" "0 < k"
  shows "e = apiErr (iam_DeleteRole conn (tr @ replicate (k - 1) (DeleteRole r)) r)"
proof -
  let ?n = "attempts ev (PropagationTimeout ev)"
  obtain res tr1 where R: "Retry ?n (tryDeleteRole conn r) None tr = (res, tr1)" by force
  have nn: "None \<noteq> Some (TimeoutError None)" by simp
  from Retry_tryDeleteRole [OF R nn] have z: "res = Inl (TimeoutError None) \<longrightarrow> ?n = 0"
    by (elim exE conjE)
  show ?thesis
  proof (cases "res = Inl (TimeoutError None)")
    case True
    with z have n0: "?n = 0" by simp
    with R have "tr1 = tr" by simp
    with True R assms(1) have t: "tr' = tr @ [DeleteRole r]"
      "e = apiErr (iam_DeleteRole conn tr r)"
      by (simp_all add: retryDeleteRole_def isResourceTimeoutError_def)
    with assms(2) have "tr @ replicate k (DeleteRole r) = tr @ replicate 1 (DeleteRole r)" by simp
    then have "k = 1" by (rule replicate_same_length)
    with t show ?thesis by simp
  next
    case False
    then have nt: "\<not> isResourceTimeoutError (case res of Inl x \<Rightarrow> Some x | Inr u \<Rightarrow> None)"
      by (auto simp: isResourceTimeoutError_def split: sum.splits)
    with R assms(1) have t: "tr' = tr1" "e = (case res of Inl x \<Rightarrow> Some x | Inr u \<Rightarrow> None)"
      by (simp_all add: retryDeleteRole_def Let_def)
    from assms(2) have "tr1 = tr @ replicate k (DeleteRole r)" unfolding t .
    from Retry_tryDeleteRole_answer [OF R nn this assms(3)] show ?thesis unfolding t .
  qed
qed

lemma forceDetachPolicies_lists:
  assumes "forceDetachPolicies conn r tr = (None, tr')"
  shows "ListAttachedRolePoliciesPages r \<in> set (issued tr tr')"
    and "ListRolePoliciesPages r \<in> set (issued tr tr')"
proof -
  obtain r1 tr1 where a1: "readAwsIamRolePolicyAttachments conn r tr = (r1, tr1)" by force
  then have t1: "tr1 = tr @ [ListAttachedRolePoliciesPages r]"
    by (rule readAwsIamRolePolicyAttachments_sends)
  from assms a1 obtain ms where r1: "r1 = Inr ms"
    by (cases r1) (simp_all add: forceDetachPolicies_def)
  obtain e2 tr2 where a2: "deleteAwsIamRolePolicyAttachments conn r ms tr1 = (e2, tr2)" by force
  from deleteAwsIamRolePolicyAttachments_sends [OF a2] obtain s2 where t2: "tr2 = tr1 @ s2"
    unfolding sends_iff by (elim exE conjE)
  from assms a1 r1 a2 have e2: "e2 = None"
    by (cases e2) (simp_all add: forceDetachPolicies_def)
  obtain r3 tr3 where a3: "readAwsIamRolePolicyNames conn r tr2 = (r3, tr3)" by force
  then have t3: "tr3 = tr2 @ [ListRolePoliciesPages r]"
    by (rule readAwsIamRolePolicyNames_sends)
  from assms a1 r1 a2 e2 a3 obtain ns where r3: "r3 = Inr ns"
    by (cases r3) (simp_all add: forceDetachPolicies_def)
  obtain e4 tr4 where a4: "deleteAwsIamRolePolicies conn r ns tr3 = (e4, tr4)" by force
  from deleteAwsIamRolePolicies_sends [OF a4] obtain s4 where t4: "tr4 = tr3 @ s4"
    unfolding sends_iff by (elim exE conjE)
  from assms a1 r1 a2 e2 a3 r3 a4 have "tr' = tr4"
    by (cases e4) (simp_all add: forceDetachPolicies_def)
  then have t: "tr' = tr @ (ListAttachedRolePoliciesPages r # s2 @ ListRolePoliciesPages r # s4)"
    unfolding t4 t3 t2 t1 by simp
  show "ListAttachedRolePoliciesPages r \<in> set (issued tr tr')" unfolding t issued_append by simp
  show "ListRolePoliciesPages r \<in> set (issued tr tr')" unfolding t issued_append by simp
qed

lemma removeRoleFromInstanceProfiles_extends:
  "\<exists>suf. snd (removeRoleFromInstanceProfiles conn r ps tr) = tr @ suf"
proof -
  obtain e tr' where "removeRoleFromInstanceProfiles conn r ps tr = (e, tr')" by force
  from removeRoleFromInstanceProfiles_sends [OF this] show ?thesis
    unfolding sends_iff \<open>removeRoleFromInstanceProfiles conn r ps tr = (e, tr')\<close> by auto
qed

lemma deleteAwsIamRoleInstanceProfiles_first:
  "\<exists>suf. snd (deleteAwsIamRoleInstanceProfiles conn r tr) = tr @ ListInstanceProfilesForRole r # suf"
proof (cases "apiOut (iam_ListInstanceProfilesForRole conn tr r)")
  case (Inl x)
  then show ?thesis by (simp add: deleteAwsIamRoleInstanceProfiles_def Let_def)
next
  case (Inr ps)
  from removeRoleFromInstanceProfiles_extends [of conn r ps "tr @ [ListInstanceProfilesForRole r]"]
  obtain suf where "snd (removeRoleFromInstanceProfiles conn r ps (tr @ [ListInstanceProfilesForRole r]))
     = (tr @ [ListInstanceProfilesForRole r]) @ suf" by (elim exE)
  with Inr show ?thesis by (simp add: deleteAwsIamRoleInstanceProfiles_def Let_def)
qed

section \<open>Bulk detach and bulk attach\<close>

lemma deleteAwsIamRolePolicies_stops:
  "deletedAll conn r pre tr \<Longrightarrow>
   ErrCodeEquals (apiErr (iam_DeleteRolePolicy conn (tr @ map (\<lambda>n. DeleteRolePolicy n r) pre) n r))
     ErrCodeNoSuchEntityException \<Longrightarrow>
   deleteAwsIamRolePolicies conn r (pre @ n # rest) tr =
     (None, tr @ map (\<lambda>n. DeleteRolePolicy n r) pre @ [DeleteRolePolicy n r])"
proof (induction pre arbitrary: tr)
  case Nil
  then show ?case by simp
next
  case (Cons p pre)
  from Cons.prems have p: "iam_DeleteRolePolicy conn tr p r = None"
    and rest: "deletedAll conn r pre (tr @ [DeleteRolePolicy p r])" by simp_all
  from Cons.prems(2) have "ErrCodeEquals
     (apiErr (iam_DeleteRolePolicy conn ((tr @ [DeleteRolePolicy p r]) @ map (\<lambda>n. DeleteRolePolicy n r) pre) n r))
     ErrCodeNoSuchEntityException" by simp
  from Cons.IH [OF rest this] show ?case using p by simp
qed

lemma deleteAwsIamRolePolicyAttachments_continues:
  "detachedAll conn r pre tr \<Longrightarrow>
   ErrCodeEquals (apiErr (iam_DetachRolePolicy conn (tr @ map (\<lambda>n. DetachRolePolicy n r) pre) n r))
     ErrCodeNoSuchEntityException \<Longrightarrow>
   deleteAwsIamRolePolicyAttachments conn r (pre @ n # rest) tr =
     deleteAwsIamRolePolicyAttachments conn r rest
       (tr @ map (\<lambda>n. DetachRolePolicy n r) pre @ [DetachRolePolicy n r])"
proof (induction pre arbitrary: tr)
  case Nil
  then show ?case by simp
next
  case (Cons p pre)
  from Cons.prems have p: "iam_DetachRolePolicy conn tr p r = None
        \<or> ErrCodeEquals (apiErr (iam_DetachRolePolicy conn tr p r)) ErrCodeNoSuchEntityException"
    and rest: "detachedAll conn r pre (tr @ [DetachRolePolicy p r])" by simp_all
  from Cons.prems(2) have "ErrCodeEquals
     (apiErr (iam_DetachRolePolicy conn ((tr @ [DetachRolePolicy p r]) @ map (\<lambda>n. DetachRolePolicy n r) pre) n r))
     ErrCodeNoSuchEntityException" by simp
  from Cons.IH [OF rest this] show ?case using p by (auto simp: Let_def)
qed

lemma deleteAwsIamRolePolicyAttachments_stops:
  "detachedAll conn r pre tr \<Longrightarrow>
   iam_DetachRolePolicy conn (tr @ map (\<lambda>n. DetachRolePolicy n r) pre) n r = Some a \<Longrightarrow>
   \<not> ErrCodeEquals (Some (AwsErr a)) ErrCodeNoSuchEntityException \<Longrightarrow>
   deleteAwsIamRolePolicyAttachments conn r (pre @ n # rest) tr =
     (Some (AwsErr a), tr @ map (\<lambda>n. DetachRolePolicy n r) pre @ [DetachRolePolicy n r])"
proof (induction pre arbitrary: tr)
  case Nil
  then show ?case by simp
next
  case (Cons p pre)
  from Cons.prems have p: "iam_DetachRolePolicy conn tr p r = None
        \<or> ErrCodeEquals (apiErr (iam_DetachRolePolicy conn tr p r)) ErrCodeNoSuchEntityException"
    and rest: "detachedAll conn r pre (tr @ [DetachRolePolicy p r])" by simp_all
  from Cons.prems(2) have "iam_DetachRolePolicy conn ((tr @ [DetachRolePolicy p r]) @ map (\<lambda>n. DetachRolePolicy n r) pre) n r = Some a" by simp
  from Cons.IH [OF rest this Cons.prems(3)] show ?case using p by (auto simp: Let_def)
qed

lemma createInlinePoliciesLoop_eq:
  "createInlinePoliciesLoop conn ps errs tr = (errs @ putFailures conn ps tr, tr @ map PutRolePolicy ps)"
  by (induction ps arbitrary: errs tr) (simp_all split: option.splits)

lemma attachManagedPoliciesLoop_eq:
  "attachManagedPoliciesLoop conn r ps errs tr =
     (errs @ attachFailures conn r ps tr, tr @ map (\<lambda>a. AttachRolePolicy r (StringValue a)) ps)"
  by (induction ps arbitrary: errs tr) (simp_all add: attachPolicyToRole_def split: option.splits)

lemma deleteAwsIamRolePolicyAttachments_first:
  "take (Suc (length tr)) (snd (deleteAwsIamRolePolicyAttachments conn r (m # ms) tr))
     = tr @ [DetachRolePolicy m r]"
proof -
  let ?c = "DetachRolePolicy m r"
  obtain e tr' where a: "deleteAwsIamRolePolicyAttachments conn r (m # ms) tr = (e, tr')" by force
  then consider "tr' = tr @ [?c]"
    | "deleteAwsIamRolePolicyAttachments conn r ms (tr @ [?c]) = (e, tr')"
    by (auto simp: Let_def split: if_splits option.splits)
  then have "take (length (tr @ [?c])) tr' = tr @ [?c]"
  proof cases
    case 1
    then show ?thesis by simp
  next
    case 2
    from deleteAwsIamRolePolicyAttachments_sends [OF 2] show ?thesis by (simp add: sends_def)
  qed
  with a show ?thesis by simp
qed

text \<open>
  C10. When \<^verbatim>\<open>DeleteRolePolicy\<close> answers \<^verbatim>\<open>NoSuchEntity\<close> for a policy name,
  \<^verbatim>\<open>deleteAwsIamRolePolicies\<close> returns no error at once and sends no request for the
  names after it. When \<^verbatim>\<open>DetachRolePolicy\<close> answers \<^verbatim>\<open>NoSuchEntity\<close>,
  \<^verbatim>\<open>deleteAwsIamRolePolicyAttachments\<close> goes on with the rest of the list: the next
  policy is detached.
\<close>

theorem NoSuchEntity_stops_inline_delete_but_not_detach:
  "(deletedAll conn r pre tr
      \<and> ErrCodeEquals (apiErr (iam_DeleteRolePolicy conn (tr @ map (\<lambda>n. DeleteRolePolicy n r) pre) n r))
          ErrCodeNoSuchEntityException
    \<longrightarrow> deleteAwsIamRolePolicies conn r (pre @ n # rest) tr
          = (None, tr @ map (\<lambda>n. DeleteRolePolicy n r) pre @ [DeleteRolePolicy n r]))
   \<and> (detachedAll conn r pre tr
      \<and> ErrCodeEquals (apiErr (iam_DetachRolePolicy conn (tr @ map (\<lambda>n. DetachRolePolicy n r) pre) n r))
          ErrCodeNoSuchEntityException
    \<longrightarrow> deleteAwsIamRolePolicyAttachments conn r (pre @ n # rest) tr
          = deleteAwsIamRolePolicyAttachments conn r rest
              (tr @ map (\<lambda>n. DetachRolePolicy n r) pre @ [DetachRolePolicy n r])
        \<and> (\<forall>m ms. rest = m # ms \<longrightarrow>
             take (length tr + length pre + 2)
                  (snd (deleteAwsIamRolePolicyAttachments conn r (pre @ n # rest) tr))
             = tr @ map (\<lambda>n. DetachRolePolicy n r) pre @ [DetachRolePolicy n r, DetachRolePolicy m r]))"
proof (intro conjI impI allI)
  assume "deletedAll conn r pre tr
      \<and> ErrCodeEquals (apiErr (iam_DeleteRolePolicy conn (tr @ map (\<lambda>n. DeleteRolePolicy n r) pre) n r))
          ErrCodeNoSuchEntityException"
  then show "deleteAwsIamRolePolicies conn r (pre @ n # rest) tr
          = (None, tr @ map (\<lambda>n. DeleteRolePolicy n r) pre @ [DeleteRolePolicy n r])"
    using deleteAwsIamRolePolicies_stops by blast
next
  assume a: "detachedAll conn r pre tr
      \<and> ErrCodeEquals (apiErr (iam_DetachRolePolicy conn (tr @ map (\<lambda>n. DetachRolePolicy n r) pre) n r))
          ErrCodeNoSuchEntityException"
  then show eq: "deleteAwsIamRolePolicyAttachments conn r (pre @ n # rest) tr
          = deleteAwsIamRolePolicyAttachments conn r rest
              (tr @ map (\<lambda>n. DetachRolePolicy n r) pre @ [DetachRolePolicy n r])"
    using deleteAwsIamRolePolicyAttachments_continues by blast
  fix m ms assume rest: "rest = m # ms"
  let ?tr = "tr @ map (\<lambda>n. DetachRolePolicy n r) pre @ [DetachRolePolicy n r]"
  have "take (Suc (length ?tr)) (snd (deleteAwsIamRolePolicyAttachments conn r (m # ms) ?tr))
     = ?tr @ [DetachRolePolicy m r]"
    by (rule deleteAwsIamRolePolicyAttachments_first)
  moreover from eq have "deleteAwsIamRolePolicyAttachments conn r (pre @ n # rest) tr
      = deleteAwsIamRolePolicyAttachments conn r (m # ms) ?tr" unfolding rest .
  ultimately show "take (length tr + length pre + 2)
                  (snd (deleteAwsIamRolePolicyAttachments conn r (pre @ n # rest) tr))
             = tr @ map (\<lambda>n. DetachRolePolicy n r) pre @ [DetachRolePolicy n r, DetachRolePolicy m r]"
    by (simp del: deleteAwsIamRolePolicyAttachments.simps)
qed

lemma ErrCodeEquals_AwsErr [simp]:
  "ErrCodeEquals (Some (AwsErr (AwsError c m))) code = (c = code)"
  by (simp add: ErrCodeEquals_def)

theorem NoSuchEntity_stops_inline_delete_but_not_detach_witness:
  "deleteAwsIamRolePolicies gone_conn ''r'' [Some ''a'', Some ''b'', Some ''c''] []
     = (None, [DeleteRolePolicy (Some ''a'') ''r'', DeleteRolePolicy (Some ''b'') ''r''])
   \<and> deleteAwsIamRolePolicyAttachments gone_conn ''r'' [Some ''a'', Some ''b'', Some ''c''] []
     = (None, [DetachRolePolicy (Some ''a'') ''r'', DetachRolePolicy (Some ''b'') ''r'',
               DetachRolePolicy (Some ''c'') ''r''])"
  using NoSuchEntity_stops_inline_delete_but_not_detach
          [of gone_conn "''r''" "[Some ''a'']" "[]" "Some ''b''" "[Some ''c'']"]
  by (simp add: gone_conn_def example_conn_def noSuchEntity_def ErrCodeNoSuchEntityException_def)

text \<open>
  C2, as the code has it. A bulk attach (\<^verbatim>\<open>resourceAwsIamRoleCreateInlinePolicies\<close>,
  \<^verbatim>\<open>resourceAwsIamRoleAttachManagedPolicies\<close>) sends a request for every policy of
  its list, whatever fails, and returns all failures together as one combined error (no
  error when nothing failed). The bulk detach \<^verbatim>\<open>deleteAwsIamRolePolicyAttachments\<close>
  stops at the first failure other than \<^verbatim>\<open>NoSuchEntity\<close>: it returns that error
  alone and sends no request for the policies after it.
\<close>

theorem bulk_attach_collects_and_bulk_detach_stops:
  "resourceAwsIamRoleCreateInlinePolicies conn ps tr
     = (ErrorOrNil (putFailures conn ps tr), tr @ map PutRolePolicy ps)
   \<and> resourceAwsIamRoleAttachManagedPolicies conn r arns tr
     = (ErrorOrNil (attachFailures conn r arns tr),
        tr @ map (\<lambda>a. AttachRolePolicy r (StringValue a)) arns)
   \<and> (detachedAll conn r pre tr
        \<and> iam_DetachRolePolicy conn (tr @ map (\<lambda>n. DetachRolePolicy n r) pre) n r = Some a
        \<and> \<not> ErrCodeEquals (Some (AwsErr a)) ErrCodeNoSuchEntityException
      \<longrightarrow> deleteAwsIamRolePolicyAttachments conn r (pre @ n # rest) tr
            = (Some (AwsErr a), tr @ map (\<lambda>n. DetachRolePolicy n r) pre @ [DetachRolePolicy n r]))"
proof (intro conjI impI)
  show "resourceAwsIamRoleCreateInlinePolicies conn ps tr
     = (ErrorOrNil (putFailures conn ps tr), tr @ map PutRolePolicy ps)"
    by (simp add: resourceAwsIamRoleCreateInlinePolicies_def createInlinePoliciesLoop_eq)
  show "resourceAwsIamRoleAttachManagedPolicies conn r arns tr
     = (ErrorOrNil (attachFailures conn r arns tr),
        tr @ map (\<lambda>a. AttachRolePolicy r (StringValue a)) arns)"
    by (simp add: resourceAwsIamRoleAttachManagedPolicies_def attachManagedPoliciesLoop_eq)
next
  assume "detachedAll conn r pre tr
        \<and> iam_DetachRolePolicy conn (tr @ map (\<lambda>n. DetachRolePolicy n r) pre) n r = Some a
        \<and> \<not> ErrCodeEquals (Some (AwsErr a)) ErrCodeNoSuchEntityException"
  then show "deleteAwsIamRolePolicyAttachments conn r (pre @ n # rest) tr
            = (Some (AwsErr a), tr @ map (\<lambda>n. DetachRolePolicy n r) pre @ [DetachRolePolicy n r])"
    using deleteAwsIamRolePolicyAttachments_stops by blast
qed

theorem bulk_attach_collects_and_bulk_detach_stops_witness:
  "resourceAwsIamRoleCreateInlinePolicies failing_conn
       [example_policy ''a'', example_policy ''b'', example_policy ''c''] []
     = (Some (MultiErr [Errorf_w ''creating inline policy (a): '' (AwsErr serviceFailure),
                        Errorf_w ''creating inline policy (c): '' (AwsErr serviceFailure)]),
        [PutRolePolicy (example_policy ''a''), PutRolePolicy (example_policy ''b''),
         PutRolePolicy (example_policy ''c'')])
   \<and> resourceAwsIamRoleAttachManagedPolicies failing_conn ''r'' [Some ''a'', Some ''b'', Some ''c''] []
     = (Some (MultiErr [Errorf_w ''attaching managed policy (a): '' (AwsErr serviceFailure),
                        Errorf_w ''attaching managed policy (c): '' (AwsErr serviceFailure)]),
        [AttachRolePolicy ''r'' ''a'', AttachRolePolicy ''r'' ''b'', AttachRolePolicy ''r'' ''c''])
   \<and> deleteAwsIamRolePolicyAttachments failing_conn ''r'' [Some ''b'', Some ''c'', Some ''a''] []
     = (Some (AwsErr serviceFailure),
        [DetachRolePolicy (Some ''b'') ''r'', DetachRolePolicy (Some ''c'') ''r''])"
  using bulk_attach_collects_and_bulk_detach_stops
          [of failing_conn "[example_policy ''a'', example_policy ''b'', example_policy ''c'']" "[]"
              "''r''" "[Some ''a'', Some ''b'', Some ''c'']" "[Some ''b'']" "Some ''c''"
              serviceFailure "[Some ''a'']"]
  by (simp add: failing_conn_def example_conn_def example_policy_def serviceFailure_def
        ErrCodeNoSuchEntityException_def ErrorOrNil_def StringValue_def)

text \<open>
  C2 as stated fails for the bulk detach: the first policy fails, the second and the third
  are never attempted, and the failure returned is not a combined one.
\<close>

theorem bulk_detach_counterexample:
  "deleteAwsIamRolePolicyAttachments failing_conn ''r'' [Some ''a'', Some ''b'', Some ''c''] []
     = (Some (AwsErr serviceFailure), [DetachRolePolicy (Some ''a'') ''r''])
   \<and> DetachRolePolicy (Some ''b'') ''r''
       \<notin> set (snd (deleteAwsIamRolePolicyAttachments failing_conn ''r''
                        [Some ''a'', Some ''b'', Some ''c''] []))
   \<and> DetachRolePolicy (Some ''c'') ''r''
       \<notin> set (snd (deleteAwsIamRolePolicyAttachments failing_conn ''r''
                        [Some ''a'', Some ''b'', Some ''c''] []))"
  by (simp add: failing_conn_def example_conn_def serviceFailure_def
        ErrCodeNoSuchEntityException_def)

section \<open>The cascade of the Delete operation\<close>

lemma inOrder_iff:
  "inOrder lo hi tr tr' \<longleftrightarrow>
     (\<exists>suf. tr' = tr @ suf \<and> list_all (\<lambda>c. lo \<le> phase c \<and> phase c \<le> hi) suf
        \<and> sorted (map phase suf))"
  unfolding inOrder_def sends_iff by auto

lemma ifForceDetach_phase:
  "(if f then forceDetachPolicies conn r tr else (None, tr)) = (e, tr') \<Longrightarrow> inOrder 1 2 tr tr'"
  by (cases f) (auto dest: forceDetachPolicies_sends(2))

text \<open>
  The shape of every run of \<^verbatim>\<open>deleteAwsIamRole\<close>: requests of the steps 0 to 2 in
  the order of the steps, the listing of the instance profiles first, then \<open>k\<close> requests
  \<^verbatim>\<open>DeleteRole\<close>; \<open>k\<close> is 0 when a step before failed, and positive otherwise.
\<close>

lemma deleteAwsIamRole_run:
  assumes "deleteAwsIamRole ev conn r f tr = (e, tr')"
  shows "\<exists>tr2 k. inOrder 0 2 tr tr2 \<and> tr' = tr2 @ replicate k (DeleteRole r)
           \<and> take 1 (issued tr tr2) = [ListInstanceProfilesForRole r]
           \<and> (if fst (deleteAwsIamRoleInstanceProfiles conn r tr) = None
                   \<and> (f \<longrightarrow> fst (forceDetachPolicies conn r
                                    (snd (deleteAwsIamRoleInstanceProfiles conn r tr))) = None)
               then 0 < k
                 \<and> retried conn r (max 1 (attempts ev (PropagationTimeout ev))) tr2 tr' k
                 \<and> e = apiErr (iam_DeleteRole conn (tr2 @ replicate (k - 1) (DeleteRole r)) r)
                 \<and> (f \<longrightarrow> ListAttachedRolePoliciesPages r \<in> set (issued tr tr2)
                         \<and> ListRolePoliciesPages r \<in> set (issued tr tr2))
               else k = 0 \<and> e \<noteq> None)"
proof -
  let ?ok = "fst (deleteAwsIamRoleInstanceProfiles conn r tr) = None
                   \<and> (f \<longrightarrow> fst (forceDetachPolicies conn r
                                    (snd (deleteAwsIamRoleInstanceProfiles conn r tr))) = None)"
  let ?T = "\<lambda>tr2 k. 0 < k
                 \<and> retried conn r (max 1 (attempts ev (PropagationTimeout ev))) tr2 tr' k
                 \<and> e = apiErr (iam_DeleteRole conn (tr2 @ replicate (k - 1) (DeleteRole r)) r)
                 \<and> (f \<longrightarrow> ListAttachedRolePoliciesPages r \<in> set (issued tr tr2)
                         \<and> ListRolePoliciesPages r \<in> set (issued tr tr2))"
  obtain e1 tr1 where ip: "deleteAwsIamRoleInstanceProfiles conn r tr = (e1, tr1)" by force
  from deleteAwsIamRoleInstanceProfiles_phase [OF ip] have o1: "inOrder 0 0 tr tr1" .
  from deleteAwsIamRoleInstanceProfiles_first [of conn r tr] ip
  obtain s1 where t1: "tr1 = tr @ ListInstanceProfilesForRole r # s1" by auto
  show ?thesis
  proof (cases e1)
    case (Some x)
    with assms ip have "tr' = tr1" "e \<noteq> None" by (auto simp: deleteAwsIamRole_def)
    then have a: "tr' = tr1 @ replicate 0 (DeleteRole r)"
      and b: "if ?ok then ?T tr1 0 else (0::nat) = 0 \<and> e \<noteq> None"
      unfolding ip fst_conv Some by simp_all
    from o1 have c: "inOrder 0 2 tr tr1" by (rule inOrder_widen) simp_all
    have d: "take 1 (issued tr tr1) = [ListInstanceProfilesForRole r]"
      unfolding t1 issued_append by simp
    from c a d b show ?thesis by (intro exI [of _ tr1] exI [of _ 0] conjI)
  next
    case None
    obtain e2 tr2 where fd: "(if f then forceDetachPolicies conn r tr1 else (None, tr1)) = (e2, tr2)"
      by force
    from ifForceDetach_phase [OF fd] have o12: "inOrder 1 2 tr1 tr2" .
    with o1 have o2: "inOrder 0 2 tr tr2" by (rule inOrder_trans) simp_all
    from o12 obtain s2 where t2: "tr2 = tr1 @ s2" unfolding inOrder_iff by (elim exE conjE)
    have li: "take 1 (issued tr tr2) = [ListInstanceProfilesForRole r]"
      unfolding t2 t1 by (simp del: issued_append add: issued_append [of tr, simplified])
    show ?thesis
    proof (cases e2)
      case (Some x)
      with fd have f: f and fdf: "forceDetachPolicies conn r tr1 = (Some x, tr2)"
        by (auto split: if_splits)
      from Some assms ip fd None have "tr' = tr2" "e \<noteq> None" by (auto simp: deleteAwsIamRole_def)
      then have a: "tr' = tr2 @ replicate 0 (DeleteRole r)"
        and b: "if ?ok then ?T tr2 0 else (0::nat) = 0 \<and> e \<noteq> None"
        unfolding ip fst_conv snd_conv using f fdf by simp_all
      from o2 a li b show ?thesis by (intro exI [of _ tr2] exI [of _ 0] conjI)
    next
      case n2: None
      have ok: ?ok unfolding ip fst_conv snd_conv
        using fd n2 None by (auto split: if_splits)
      have ls: "f \<longrightarrow> ListAttachedRolePoliciesPages r \<in> set (issued tr tr2)
                         \<and> ListRolePoliciesPages r \<in> set (issued tr tr2)"
      proof
        assume f
        with fd n2 have "forceDetachPolicies conn r tr1 = (None, tr2)" by simp
        from forceDetachPolicies_lists [OF this]
        have "ListAttachedRolePoliciesPages r \<in> set s2" "ListRolePoliciesPages r \<in> set s2"
          unfolding t2 issued_append by simp_all
        then show "ListAttachedRolePoliciesPages r \<in> set (issued tr tr2)
                         \<and> ListRolePoliciesPages r \<in> set (issued tr tr2)"
          unfolding t2 t1 by (simp del: issued_append add: issued_append [of tr, simplified])
      qed
      from n2 assms ip fd None have rd: "retryDeleteRole ev conn r tr2 = (e, tr')"
        by (simp add: deleteAwsIamRole_def)
      from retryDeleteRole_sends [OF this] obtain k where
        k: "retried conn r (max 1 (attempts ev (PropagationTimeout ev))) tr2 tr' k"
        and kp: "0 < k" by (elim exE conjE)
      from k have t: "tr' = tr2 @ replicate k (DeleteRole r)" unfolding retried_def by (elim conjE)
      from retryDeleteRole_answer [OF rd t kp]
      have an: "e = apiErr (iam_DeleteRole conn (tr2 @ replicate (k - 1) (DeleteRole r)) r)" .
      from kp k an ls have "?T tr2 k" by (intro conjI)
      with ok have b: "if ?ok then ?T tr2 k else k = 0 \<and> e \<noteq> None" by simp
      from o2 t li b show ?thesis by (intro exI [of _ tr2] exI [of _ k] conjI)
    qed
  qed
qed

text \<open>
  C5. \<^verbatim>\<open>deleteAwsIamRole\<close> sends its requests in the order of the cascade: instance
  profiles (step 0), managed policies (step 1), inline policies (step 2), then the role
  (step 3), so no \<^verbatim>\<open>DeleteRole\<close> comes before a request of a detach step. The run
  begins with the listing of the instance profiles. The requests \<^verbatim>\<open>DeleteRole\<close> are
  the last \<open>k\<close> requests. At least one is sent exactly when the steps before it succeed,
  and then, under the flag, the managed and the inline policies have been listed before
  it; \<open>k\<close> is bounded by the number of attempts that fit into the window
  \<^verbatim>\<open>waiter.PropagationTimeout\<close>, every \<^verbatim>\<open>DeleteRole\<close> but the last was answered
  with \<^verbatim>\<open>DeleteConflict\<close>, and when the last one is answered with
  \<^verbatim>\<open>DeleteConflict\<close> too the window is used up. The function returns the answer to
  the last \<^verbatim>\<open>DeleteRole\<close>, and an error when no \<^verbatim>\<open>DeleteRole\<close> is sent.
\<close>

theorem deleteAwsIamRole_cascade_order_and_bounded_retry:
  assumes "deleteAwsIamRole ev conn r forceDetach tr = (e, tr')"
  shows "sends (\<lambda>c. phase c \<le> 3) tr tr' \<and> sorted (map phase (issued tr tr'))
    \<and> (\<exists>pre k. issued tr tr' = pre @ replicate k (DeleteRole r)
          \<and> list_all (\<lambda>c. phase c < 3) pre
          \<and> k \<le> max 1 (attempts ev (PropagationTimeout ev))
          \<and> (\<forall>i. Suc i < k \<longrightarrow>
                ErrCodeEquals (apiErr (iam_DeleteRole conn (tr @ pre @ replicate i (DeleteRole r)) r))
                  ErrCodeDeleteConflictException)
          \<and> (0 < k \<and> ErrCodeEquals
                        (apiErr (iam_DeleteRole conn (tr @ pre @ replicate (k - 1) (DeleteRole r)) r))
                        ErrCodeDeleteConflictException
               \<longrightarrow> k = max 1 (attempts ev (PropagationTimeout ev)))
          \<and> take 1 pre = [ListInstanceProfilesForRole r]
          \<and> (0 < k \<longleftrightarrow>
                fst (deleteAwsIamRoleInstanceProfiles conn r tr) = None
                \<and> (forceDetach \<longrightarrow>
                      fst (forceDetachPolicies conn r
                             (snd (deleteAwsIamRoleInstanceProfiles conn r tr))) = None))
          \<and> (0 < k \<and> forceDetach \<longrightarrow>
                ListAttachedRolePoliciesPages r \<in> set pre \<and> ListRolePoliciesPages r \<in> set pre)
          \<and> (0 < k \<longrightarrow>
                e = apiErr (iam_DeleteRole conn (tr @ pre @ replicate (k - 1) (DeleteRole r)) r))
          \<and> (k = 0 \<longrightarrow> e \<noteq> None))"
proof -
  let ?n = "max 1 (attempts ev (PropagationTimeout ev))"
  let ?ok = "fst (deleteAwsIamRoleInstanceProfiles conn r tr) = None
                \<and> (forceDetach \<longrightarrow>
                      fst (forceDetachPolicies conn r
                             (snd (deleteAwsIamRoleInstanceProfiles conn r tr))) = None)"
  from deleteAwsIamRole_run [OF assms] obtain tr2 k where o2: "inOrder 0 2 tr tr2"
    and t: "tr' = tr2 @ replicate k (DeleteRole r)"
    and li: "take 1 (issued tr tr2) = [ListInstanceProfilesForRole r]"
    and k: "if ?ok
            then 0 < k \<and> retried conn r ?n tr2 tr' k
              \<and> e = apiErr (iam_DeleteRole conn (tr2 @ replicate (k - 1) (DeleteRole r)) r)
              \<and> (forceDetach \<longrightarrow> ListAttachedRolePoliciesPages r \<in> set (issued tr tr2)
                         \<and> ListRolePoliciesPages r \<in> set (issued tr tr2))
            else k = 0 \<and> e \<noteq> None" by (elim exE conjE)
  from o2 obtain pre where pre: "tr2 = tr @ pre"
    and lo: "list_all (\<lambda>c. 0 \<le> phase c \<and> phase c \<le> 2) pre"
    and so: "sorted (map phase pre)"
    unfolding inOrder_iff by (elim exE conjE)
  have iss: "issued tr tr' = pre @ replicate k (DeleteRole r)" unfolding t pre by simp
  have ph: "list_all (\<lambda>c. phase c < 3) pre"
    using lo by (fastforce simp: list_all_iff)
  have p3: "phase (DeleteRole r) = 3" by (simp add: phase_def)
  have 1: "sends (\<lambda>c. phase c \<le> 3) tr tr'"
    unfolding sends_iff
  proof (intro exI conjI)
    show "tr' = tr @ pre @ replicate k (DeleteRole r)" unfolding t pre by simp
    show "list_all (\<lambda>c. phase c \<le> 3) (pre @ replicate k (DeleteRole r))"
      using ph p3 by (auto simp: list_all_iff)
  qed
  have 2: "sorted (map phase (issued tr tr'))"
    unfolding iss using so ph p3 by (auto simp: sorted_append list_all_iff)
  have k0: "\<not> ?ok \<Longrightarrow> k = 0" using k by (simp split: if_splits)
  have kr: "?ok \<Longrightarrow> retried conn r ?n tr2 tr' k" using k by (simp split: if_splits)
  have 3: "k \<le> ?n"
  proof (cases ?ok)
    case False
    from k0 [OF this] show ?thesis by simp
  next
    case True
    from kr [OF this] show ?thesis unfolding retried_def by (elim conjE)
  qed
  have 4: "\<forall>i. Suc i < k \<longrightarrow>
      ErrCodeEquals (apiErr (iam_DeleteRole conn (tr @ pre @ replicate i (DeleteRole r)) r))
        ErrCodeDeleteConflictException"
  proof (cases ?ok)
    case False
    from k0 [OF this] show ?thesis by simp
  next
    case True
    from kr [OF this] have "\<forall>i. Suc i < k \<longrightarrow> conflictAt conn r tr2 i"
      unfolding retried_def by (elim conjE)
    then show ?thesis unfolding conflictAt_def pre append_assoc .
  qed
  have 5: "0 < k \<and> ErrCodeEquals
                        (apiErr (iam_DeleteRole conn (tr @ pre @ replicate (k - 1) (DeleteRole r)) r))
                        ErrCodeDeleteConflictException
               \<longrightarrow> k = ?n"
  proof (cases ?ok)
    case False
    from k0 [OF this] show ?thesis by simp
  next
    case True
    from kr [OF this] have "0 < k \<and> conflictAt conn r tr2 (k - 1) \<longrightarrow> k = ?n"
      unfolding retried_def by (elim conjE)
    then show ?thesis unfolding conflictAt_def pre append_assoc .
  qed
  from li have 6: "take 1 pre = [ListInstanceProfilesForRole r]" unfolding pre issued_append .
  have 7: "0 < k \<longleftrightarrow> ?ok"
  proof (cases ?ok)
    case False
    from k0 [OF this] False show ?thesis by simp
  next
    case True
    with k have "0 < k" by (simp split: if_splits)
    with True show ?thesis by simp
  qed
  have 8: "0 < k \<and> forceDetach \<longrightarrow>
                ListAttachedRolePoliciesPages r \<in> set pre \<and> ListRolePoliciesPages r \<in> set pre"
  proof (cases ?ok)
    case False
    from k0 [OF this] show ?thesis by simp
  next
    case True
    with k have "forceDetach \<longrightarrow> ListAttachedRolePoliciesPages r \<in> set (issued tr tr2)
                         \<and> ListRolePoliciesPages r \<in> set (issued tr tr2)"
      by (simp split: if_splits)
    then show ?thesis unfolding pre issued_append by simp
  qed
  have 9: "0 < k \<longrightarrow>
                e = apiErr (iam_DeleteRole conn (tr @ pre @ replicate (k - 1) (DeleteRole r)) r)"
  proof (cases ?ok)
    case False
    from k0 [OF this] show ?thesis by simp
  next
    case True
    with k have "e = apiErr (iam_DeleteRole conn (tr2 @ replicate (k - 1) (DeleteRole r)) r)"
      by (simp split: if_splits)
    then show ?thesis unfolding pre append_assoc by simp
  qed
  have 10: "k = 0 \<longrightarrow> e \<noteq> None"
  proof (cases ?ok)
    case False
    with k show ?thesis by (simp split: if_splits)
  next
    case True
    with 7 show ?thesis by simp
  qed
  from iss ph 3 4 5 6 7 8 9 10 have "\<exists>pre k. issued tr tr' = pre @ replicate k (DeleteRole r)
          \<and> list_all (\<lambda>c. phase c < 3) pre
          \<and> k \<le> ?n
          \<and> (\<forall>i. Suc i < k \<longrightarrow>
                ErrCodeEquals (apiErr (iam_DeleteRole conn (tr @ pre @ replicate i (DeleteRole r)) r))
                  ErrCodeDeleteConflictException)
          \<and> (0 < k \<and> ErrCodeEquals
                        (apiErr (iam_DeleteRole conn (tr @ pre @ replicate (k - 1) (DeleteRole r)) r))
                        ErrCodeDeleteConflictException
               \<longrightarrow> k = ?n)
          \<and> take 1 pre = [ListInstanceProfilesForRole r]
          \<and> (0 < k \<longleftrightarrow> ?ok)
          \<and> (0 < k \<and> forceDetach \<longrightarrow>
                ListAttachedRolePoliciesPages r \<in> set pre \<and> ListRolePoliciesPages r \<in> set pre)
          \<and> (0 < k \<longrightarrow>
                e = apiErr (iam_DeleteRole conn (tr @ pre @ replicate (k - 1) (DeleteRole r)) r))
          \<and> (k = 0 \<longrightarrow> e \<noteq> None)"
    by (intro exI conjI)
  with 1 2 show ?thesis by (intro conjI)
qed

lemma cascade_run:
  "deleteAwsIamRole example_env cascade_conn ''r'' True []
     = (None,
        [ListInstanceProfilesForRole ''r'', RemoveRoleFromInstanceProfile (Some ''p'') ''r'',
         ListAttachedRolePoliciesPages ''r'',
         DetachRolePolicy (Some ''arn:aws:iam::aws:policy/m'') ''r'',
         ListRolePoliciesPages ''r'', DeleteRolePolicy (Some ''i'') ''r'',
         DeleteRole ''r'', DeleteRole ''r''])"
  by code_simp


theorem deleteAwsIamRole_cascade_order_and_bounded_retry_witness:
  "deleteAwsIamRole example_env cascade_conn ''r'' True []
     = (None,
        [ListInstanceProfilesForRole ''r'', RemoveRoleFromInstanceProfile (Some ''p'') ''r'',
         ListAttachedRolePoliciesPages ''r'',
         DetachRolePolicy (Some ''arn:aws:iam::aws:policy/m'') ''r'',
         ListRolePoliciesPages ''r'', DeleteRolePolicy (Some ''i'') ''r'',
         DeleteRole ''r'', DeleteRole ''r''])
   \<and> sends (\<lambda>c. phase c \<le> 3) []
        [ListInstanceProfilesForRole ''r'', RemoveRoleFromInstanceProfile (Some ''p'') ''r'',
         ListAttachedRolePoliciesPages ''r'',
         DetachRolePolicy (Some ''arn:aws:iam::aws:policy/m'') ''r'',
         ListRolePoliciesPages ''r'', DeleteRolePolicy (Some ''i'') ''r'',
         DeleteRole ''r'', DeleteRole ''r'']
   \<and> sorted (map phase (issued []
        [ListInstanceProfilesForRole ''r'', RemoveRoleFromInstanceProfile (Some ''p'') ''r'',
         ListAttachedRolePoliciesPages ''r'',
         DetachRolePolicy (Some ''arn:aws:iam::aws:policy/m'') ''r'',
         ListRolePoliciesPages ''r'', DeleteRolePolicy (Some ''i'') ''r'',
         DeleteRole ''r'', DeleteRole ''r'']))"
proof -
  note w = deleteAwsIamRole_cascade_order_and_bounded_retry [OF cascade_run]
  from w have a: "sends (\<lambda>c. phase c \<le> 3) []
        [ListInstanceProfilesForRole ''r'', RemoveRoleFromInstanceProfile (Some ''p'') ''r'',
         ListAttachedRolePoliciesPages ''r'',
         DetachRolePolicy (Some ''arn:aws:iam::aws:policy/m'') ''r'',
         ListRolePoliciesPages ''r'', DeleteRolePolicy (Some ''i'') ''r'',
         DeleteRole ''r'', DeleteRole ''r'']" by (elim conjE)
  from w have b: "sorted (map phase (issued []
        [ListInstanceProfilesForRole ''r'', RemoveRoleFromInstanceProfile (Some ''p'') ''r'',
         ListAttachedRolePoliciesPages ''r'',
         DetachRolePolicy (Some ''arn:aws:iam::aws:policy/m'') ''r'',
         ListRolePoliciesPages ''r'', DeleteRolePolicy (Some ''i'') ''r'',
         DeleteRole ''r'', DeleteRole ''r'']))" by (elim conjE)
  from cascade_run a b show ?thesis by (intro conjI)
qed

lemma resourceAwsIamRoleDelete_trace:
  "snd (resourceAwsIamRoleDelete ev conn d tr)
     = snd (deleteAwsIamRole ev conn (rd_Id d) (force_detach_policies (config d)) tr)"
  by (cases "deleteAwsIamRole ev conn (rd_Id d) (force_detach_policies (config d)) tr")
     (simp add: resourceAwsIamRoleDelete_def split: option.splits)

lemma retryDeleteRole_only_DeleteRole:
  assumes "retryDeleteRole ev conn r tr = (e, tr')"
  shows "sends (\<lambda>c. c = DeleteRole r) tr tr'"
proof -
  from retryDeleteRole_sends [OF assms] obtain k where
    "retried conn r (max 1 (attempts ev (PropagationTimeout ev))) tr tr' k" by (elim exE conjE)
  then have "tr' = tr @ replicate k (DeleteRole r)" unfolding retried_def by (elim conjE)
  then show ?thesis unfolding sends_iff by (auto simp: list_all_iff)
qed

lemma removeRoleFromInstanceProfiles_removedAll:
  "removedAll conn r qs tr \<Longrightarrow>
   removeRoleFromInstanceProfiles conn r (qs @ rest) tr
     = removeRoleFromInstanceProfiles conn r rest (tr @ map (\<lambda>p. RemoveRoleFromInstanceProfile p r) qs)"
proof (induction qs arbitrary: tr)
  case Nil
  show ?case by simp
next
  case (Cons q qs)
  from Cons.prems have a: "iam_RemoveRoleFromInstanceProfile conn tr q r = None
        \<or> ErrCodeEquals (apiErr (iam_RemoveRoleFromInstanceProfile conn tr q r)) ErrCodeNoSuchEntityException"
    and b: "removedAll conn r qs (tr @ [RemoveRoleFromInstanceProfile q r])" by simp_all
  from a have "removeRoleFromInstanceProfiles conn r ((q # qs) @ rest) tr
     = removeRoleFromInstanceProfiles conn r (qs @ rest) (tr @ [RemoveRoleFromInstanceProfile q r])"
    by (auto simp: Let_def)
  also note Cons.IH [OF b]
  finally show ?case by simp
qed

lemma removeRoleFromInstanceProfiles_take1:
  "\<exists>suf. snd (removeRoleFromInstanceProfiles conn r rest tr)
     = tr @ map (\<lambda>p. RemoveRoleFromInstanceProfile p r) (take 1 rest) @ suf"
proof (cases rest)
  case Nil
  then show ?thesis by simp
next
  case (Cons q qs)
  from removeRoleFromInstanceProfiles_extends [of conn r qs "tr @ [RemoveRoleFromInstanceProfile q r]"]
  obtain suf where "snd (removeRoleFromInstanceProfiles conn r qs (tr @ [RemoveRoleFromInstanceProfile q r]))
     = (tr @ [RemoveRoleFromInstanceProfile q r]) @ suf" by (elim exE)
  then show ?thesis unfolding Cons
    by (cases "iam_RemoveRoleFromInstanceProfile conn tr q r") (simp_all add: Let_def)
qed

lemma removeRoleFromInstanceProfiles_fails:
  "iam_RemoveRoleFromInstanceProfile conn tr q r = Some a \<Longrightarrow>
   \<not> ErrCodeEquals (Some (AwsErr a)) ErrCodeNoSuchEntityException \<Longrightarrow>
   removeRoleFromInstanceProfiles conn r (q # rest) tr
     = (Some (AwsErr a), tr @ [RemoveRoleFromInstanceProfile q r])"
  by (simp add: Let_def)

lemma ErrCodeEquals_wrapped:
  "ErrCodeEquals (Some (Errorf_w s x)) c = ErrCodeEquals (Some x) c"
  by (simp add: ErrCodeEquals_def)

text \<open>
  What \<^verbatim>\<open>deleteAwsIamRole\<close> sends after the instance profiles belongs to the later
  steps, and is nothing but \<^verbatim>\<open>DeleteRole\<close> without the flag.
\<close>

lemma deleteAwsIamRole_after_profiles:
  assumes "deleteAwsIamRole ev conn r f tr = (e, tr')"
    and "deleteAwsIamRoleInstanceProfiles conn r tr = (e1, tr1)"
  shows "\<exists>more. tr' = tr1 @ more \<and> list_all (\<lambda>c. 1 \<le> phase c) more
           \<and> (\<not> f \<longrightarrow> list_all (\<lambda>c. c = DeleteRole r) more)
           \<and> (e1 \<noteq> None \<longrightarrow> more = []
                 \<and> e = map_option (Errorf_w ''unable to detach instance profiles: '') e1)"
proof (cases e1)
  case (Some x)
  with assms have "tr' = tr1 @ []" "e = map_option (Errorf_w ''unable to detach instance profiles: '') e1"
    by (auto simp: deleteAwsIamRole_def)
  then show ?thesis by (intro exI [of _ "[]"]) simp
next
  case None
  obtain e2 tr2 where fd: "(if f then forceDetachPolicies conn r tr1 else (None, tr1)) = (e2, tr2)"
    by force
  from ifForceDetach_phase [OF fd] obtain s2 where t2: "tr2 = tr1 @ s2"
    and p2: "list_all (\<lambda>c. 1 \<le> phase c \<and> phase c \<le> 2) s2"
    unfolding inOrder_iff by (elim exE conjE)
  from p2 have q2: "list_all (\<lambda>c. 1 \<le> phase c) s2" by (simp add: list_all_iff)
  have n2: "\<not> f \<longrightarrow> s2 = []" using fd t2 by auto
  show ?thesis
  proof (cases e2)
    case (Some x)
    with assms fd None have "tr' = tr2" by (simp add: deleteAwsIamRole_def)
    then have "tr' = tr1 @ s2" unfolding t2 .
    with q2 n2 None show ?thesis by (intro exI [of _ s2]) auto
  next
    case m: None
    with assms fd None have "retryDeleteRole ev conn r tr2 = (e, tr')"
      by (simp add: deleteAwsIamRole_def)
    from retryDeleteRole_only_DeleteRole [OF this] obtain s3 where t3: "tr' = tr2 @ s3"
      and p3: "list_all (\<lambda>c. c = DeleteRole r) s3" unfolding sends_iff by (elim exE conjE)
    have "phase (DeleteRole r) = 3" by (simp add: phase_def)
    with p3 have q3: "list_all (\<lambda>c. 1 \<le> phase c) s3" by (auto simp: list_all_iff)
    have "tr' = tr1 @ (s2 @ s3)" unfolding t3 t2 by simp
    moreover have "list_all (\<lambda>c. 1 \<le> phase c) (s2 @ s3)" using q2 q3 by simp
    moreover have "\<not> f \<longrightarrow> list_all (\<lambda>c. c = DeleteRole r) (s2 @ s3)" using n2 p3 by simp
    ultimately show ?thesis using None by (intro exI [of _ "s2 @ s3"]) simp
  qed
qed

lemma deleteAwsIamRole_profile_requests:
  "filter (\<lambda>c. phase c = 0) (issued tr (snd (deleteAwsIamRole ev conn r f tr)))
     = issued tr (snd (deleteAwsIamRoleInstanceProfiles conn r tr))"
proof -
  obtain e tr' where d: "deleteAwsIamRole ev conn r f tr = (e, tr')" by force
  obtain e1 tr1 where ip: "deleteAwsIamRoleInstanceProfiles conn r tr = (e1, tr1)" by force
  from deleteAwsIamRoleInstanceProfiles_phase [OF ip] obtain s1 where t1: "tr1 = tr @ s1"
    and p1: "list_all (\<lambda>c. 0 \<le> phase c \<and> phase c \<le> 0) s1"
    unfolding inOrder_iff by (elim exE conjE)
  from deleteAwsIamRole_after_profiles [OF d ip] obtain more where t: "tr' = tr1 @ more"
    and pm: "list_all (\<lambda>c. 1 \<le> phase c) more" by (elim exE conjE)
  from p1 have "filter (\<lambda>c. phase c = 0) s1 = s1" by (simp add: list_all_iff)
  moreover from pm have "filter (\<lambda>c. phase c = 0) more = []"
    by (fastforce simp: list_all_iff filter_empty_conv)
  moreover have "issued tr tr' = s1 @ more" unfolding t t1 by (simp add: issued_append [of tr, simplified])
  ultimately show ?thesis unfolding d ip snd_conv t1 by simp
qed

lemma withForceDetach_simps [simp]:
  "rd_Id (withForceDetach b d) = rd_Id d"
  "force_detach_policies (config (withForceDetach b d)) = b"
  by (simp_all add: withForceDetach_def)

text \<open>
  C1, as the code has it. The managed policies and the inline policies are touched only
  under the flag: when \<^verbatim>\<open>force_detach_policies\<close> is false, the Delete operation sends
  nothing but the instance-profile requests and \<^verbatim>\<open>DeleteRole\<close>. The instance
  profiles are not under the flag. Every run begins with the listing of the instance
  profiles. When the listing answers with profiles, a removal is sent for each of them
  in turn as long as the removals before it were answered without error or with
  \<^verbatim>\<open>NoSuchEntity\<close>; a removal that fails with another error is the last request,
  and its error is returned. The instance-profile requests of a run are the same for
  both values of the flag.
\<close>

theorem delete_without_force_detaches_instance_profiles_only:
  assumes "resourceAwsIamRoleDelete ev conn d tr = (res, tr')"
  shows "(\<not> force_detach_policies (config d) \<longrightarrow>
          sends (\<lambda>c. c = ListInstanceProfilesForRole (rd_Id d)
                     \<or> (\<exists>p. c = RemoveRoleFromInstanceProfile p (rd_Id d))
                     \<or> c = DeleteRole (rd_Id d)) tr tr')
    \<and> take 1 (issued tr tr') = [ListInstanceProfilesForRole (rd_Id d)]
    \<and> (\<forall>qs rest.
          iam_ListInstanceProfilesForRole conn tr (rd_Id d) = Inr (qs @ rest)
          \<and> removedAll conn (rd_Id d) qs (tr @ [ListInstanceProfilesForRole (rd_Id d)])
          \<longrightarrow> take (Suc (length (qs @ take 1 rest))) (issued tr tr')
                = ListInstanceProfilesForRole (rd_Id d)
                  # map (\<lambda>p. RemoveRoleFromInstanceProfile p (rd_Id d)) (qs @ take 1 rest))
    \<and> (\<forall>qs q rest a.
          iam_ListInstanceProfilesForRole conn tr (rd_Id d) = Inr (qs @ q # rest)
          \<and> removedAll conn (rd_Id d) qs (tr @ [ListInstanceProfilesForRole (rd_Id d)])
          \<and> iam_RemoveRoleFromInstanceProfile conn
               (tr @ ListInstanceProfilesForRole (rd_Id d)
                    # map (\<lambda>p. RemoveRoleFromInstanceProfile p (rd_Id d)) qs) q (rd_Id d) = Some a
          \<and> \<not> ErrCodeEquals (Some (AwsErr a)) ErrCodeNoSuchEntityException
          \<longrightarrow> issued tr tr'
                = ListInstanceProfilesForRole (rd_Id d)
                  # map (\<lambda>p. RemoveRoleFromInstanceProfile p (rd_Id d)) (qs @ [q])
              \<and> fst res = Some (Errorf_w (''error deleting IAM Role ('' @ rd_Id d @ ''): '')
                              (Errorf_w ''unable to detach instance profiles: '' (AwsErr a))))
    \<and> (\<forall>b. filter (\<lambda>c. phase c = 0)
               (issued tr (snd (resourceAwsIamRoleDelete ev conn (withForceDetach b d) tr)))
             = filter (\<lambda>c. phase c = 0) (issued tr tr'))"
proof -
  let ?r = "rd_Id d" and ?f = "force_detach_policies (config d)"
  let ?L = "ListInstanceProfilesForRole ?r"
  let ?R = "\<lambda>p. RemoveRoleFromInstanceProfile p ?r"
  let ?P = "\<lambda>c. c = ?L \<or> (\<exists>p. c = ?R p) \<or> c = DeleteRole ?r"
  obtain e where del: "deleteAwsIamRole ev conn ?r ?f tr = (e, tr')"
    using assms resourceAwsIamRoleDelete_trace [of ev conn d tr]
    by (cases "deleteAwsIamRole ev conn ?r ?f tr") simp
  from assms del have res: "fst res = (if ErrCodeEquals e ErrCodeNoSuchEntityException then None
      else map_option (Errorf_w (''error deleting IAM Role ('' @ rd_Id d @ ''): '')) e)"
    by (auto simp: resourceAwsIamRoleDelete_def split: option.splits)
  obtain e1 tr1 where ip: "deleteAwsIamRoleInstanceProfiles conn ?r tr = (e1, tr1)" by force
  from deleteAwsIamRoleInstanceProfiles_sends [OF ip]
  have s1: "sends ?P tr tr1" by (rule sends_mono) blast
  from deleteAwsIamRole_after_profiles [OF del ip] obtain more where t: "tr' = tr1 @ more"
    and nf: "\<not> ?f \<longrightarrow> list_all (\<lambda>c. c = DeleteRole ?r) more"
    and fl: "e1 \<noteq> None \<longrightarrow> more = []
                 \<and> e = map_option (Errorf_w ''unable to detach instance profiles: '') e1"
    by (elim exE conjE)
  have 1: "\<not> ?f \<longrightarrow> sends ?P tr tr'"
  proof
    assume "\<not> ?f"
    with nf have "list_all ?P more" by (simp add: list_all_iff)
    then have "sends ?P tr1 tr'" unfolding t sends_iff by blast
    with s1 show "sends ?P tr tr'" by (rule sends_trans)
  qed
  from deleteAwsIamRoleInstanceProfiles_first [of conn ?r tr] ip
  obtain s0 where t1: "tr1 = tr @ ?L # s0" by auto
  have 2: "take 1 (issued tr tr') = [?L]"
    unfolding t t1 by (simp add: issued_append [of tr, simplified])
  have 3: "\<forall>qs rest.
          iam_ListInstanceProfilesForRole conn tr ?r = Inr (qs @ rest)
          \<and> removedAll conn ?r qs (tr @ [?L])
          \<longrightarrow> take (Suc (length (qs @ take 1 rest))) (issued tr tr')
                = ?L # map ?R (qs @ take 1 rest)"
  proof (intro allI impI, elim conjE)
    fix qs rest
    assume l: "iam_ListInstanceProfilesForRole conn tr ?r = Inr (qs @ rest)"
      and ra: "removedAll conn ?r qs (tr @ [?L])"
    from l ip have "removeRoleFromInstanceProfiles conn ?r (qs @ rest) (tr @ [?L]) = (e1, tr1)"
      by (simp add: deleteAwsIamRoleInstanceProfiles_def Let_def apiOut_def)
    with removeRoleFromInstanceProfiles_removedAll [OF ra, of rest]
    have "removeRoleFromInstanceProfiles conn ?r rest ((tr @ [?L]) @ map ?R qs) = (e1, tr1)"
      by simp
    with removeRoleFromInstanceProfiles_take1 [of conn ?r rest "(tr @ [?L]) @ map ?R qs"]
    obtain suf where "tr1 = ((tr @ [?L]) @ map ?R qs) @ map ?R (take 1 rest) @ suf" by auto
    then have "issued tr tr' = (?L # map ?R (qs @ take 1 rest)) @ suf @ more"
      unfolding t by (simp add: issued_append [of tr, simplified])
    then show "take (Suc (length (qs @ take 1 rest))) (issued tr tr')
                = ?L # map ?R (qs @ take 1 rest)" by simp
  qed
  have 4: "\<forall>qs q rest a.
          iam_ListInstanceProfilesForRole conn tr ?r = Inr (qs @ q # rest)
          \<and> removedAll conn ?r qs (tr @ [?L])
          \<and> iam_RemoveRoleFromInstanceProfile conn (tr @ ?L # map ?R qs) q ?r = Some a
          \<and> \<not> ErrCodeEquals (Some (AwsErr a)) ErrCodeNoSuchEntityException
          \<longrightarrow> issued tr tr' = ?L # map ?R (qs @ [q])
              \<and> fst res = Some (Errorf_w (''error deleting IAM Role ('' @ rd_Id d @ ''): '')
                              (Errorf_w ''unable to detach instance profiles: '' (AwsErr a)))"
  proof (intro allI impI, elim conjE)
    fix qs q rest a
    assume l: "iam_ListInstanceProfilesForRole conn tr ?r = Inr (qs @ q # rest)"
      and ra: "removedAll conn ?r qs (tr @ [?L])"
      and an: "iam_RemoveRoleFromInstanceProfile conn (tr @ ?L # map ?R qs) q ?r = Some a"
      and ns: "\<not> ErrCodeEquals (Some (AwsErr a)) ErrCodeNoSuchEntityException"
    from l ip have "removeRoleFromInstanceProfiles conn ?r (qs @ q # rest) (tr @ [?L]) = (e1, tr1)"
      by (simp add: deleteAwsIamRoleInstanceProfiles_def Let_def apiOut_def)
    with removeRoleFromInstanceProfiles_removedAll [OF ra, of "q # rest"]
    have "removeRoleFromInstanceProfiles conn ?r (q # rest) (tr @ ?L # map ?R qs) = (e1, tr1)"
      by simp
    with removeRoleFromInstanceProfiles_fails [OF an ns, of rest]
    have e1: "e1 = Some (AwsErr a)" and tr1: "tr1 = (tr @ ?L # map ?R qs) @ [?R q]" by simp_all
    from fl e1 have m: "more = []"
      and e: "e = Some (Errorf_w ''unable to detach instance profiles: '' (AwsErr a))" by simp_all
    have "issued tr tr' = ?L # map ?R (qs @ [q])"
      unfolding t m tr1 by (simp add: issued_append [of tr, simplified])
    moreover have "fst res = Some (Errorf_w (''error deleting IAM Role ('' @ rd_Id d @ ''): '')
                              (Errorf_w ''unable to detach instance profiles: '' (AwsErr a)))"
      unfolding res e using ns by (simp add: ErrCodeEquals_wrapped)
    ultimately show "issued tr tr' = ?L # map ?R (qs @ [q])
              \<and> fst res = Some (Errorf_w (''error deleting IAM Role ('' @ rd_Id d @ ''): '')
                              (Errorf_w ''unable to detach instance profiles: '' (AwsErr a)))" ..
  qed
  have 5: "\<forall>b. filter (\<lambda>c. phase c = 0)
               (issued tr (snd (resourceAwsIamRoleDelete ev conn (withForceDetach b d) tr)))
             = filter (\<lambda>c. phase c = 0) (issued tr tr')"
  proof
    fix b
    have "filter (\<lambda>c. phase c = 0)
               (issued tr (snd (resourceAwsIamRoleDelete ev conn (withForceDetach b d) tr)))
       = issued tr (snd (deleteAwsIamRoleInstanceProfiles conn ?r tr))"
      unfolding resourceAwsIamRoleDelete_trace withForceDetach_simps
      by (rule deleteAwsIamRole_profile_requests)
    also have "\<dots> = filter (\<lambda>c. phase c = 0) (issued tr (snd (deleteAwsIamRole ev conn ?r ?f tr)))"
      by (rule deleteAwsIamRole_profile_requests [symmetric])
    finally show "filter (\<lambda>c. phase c = 0)
               (issued tr (snd (resourceAwsIamRoleDelete ev conn (withForceDetach b d) tr)))
             = filter (\<lambda>c. phase c = 0) (issued tr tr')" unfolding del snd_conv .
  qed
  from 1 2 3 4 5 show ?thesis by (intro conjI)
qed

lemma profiles_run:
  "resourceAwsIamRoleDelete example_env profiles_conn example_data []
     = ((None, example_data),
        [ListInstanceProfilesForRole ''r'', RemoveRoleFromInstanceProfile (Some ''p'') ''r'',
         RemoveRoleFromInstanceProfile (Some ''q'') ''r'',
         RemoveRoleFromInstanceProfile (Some ''s'') ''r'', DeleteRole ''r''])"
  by code_simp

lemma profiles_listed:
  "iam_ListInstanceProfilesForRole profiles_conn [] (rd_Id example_data)
     = Inr ([Some ''p'', Some ''q'', Some ''s''] @ [])
   \<and> removedAll profiles_conn (rd_Id example_data) [Some ''p'', Some ''q'', Some ''s'']
        ([] @ [ListInstanceProfilesForRole (rd_Id example_data)])"
  by code_simp


lemma stuck_profiles_run:
  "resourceAwsIamRoleDelete example_env stuck_profiles_conn (withForceDetach True example_data) []
     = ((Some (Errorf_w ''error deleting IAM Role (r): ''
                (Errorf_w ''unable to detach instance profiles: '' (AwsErr serviceFailure))),
         withForceDetach True example_data),
        [ListInstanceProfilesForRole ''r'', RemoveRoleFromInstanceProfile (Some ''p'') ''r'',
         RemoveRoleFromInstanceProfile (Some ''q'') ''r'',
         RemoveRoleFromInstanceProfile (Some ''s'') ''r''])"
  by code_simp

lemma stuck_profiles_listed:
  "iam_ListInstanceProfilesForRole stuck_profiles_conn [] (rd_Id (withForceDetach True example_data))
     = Inr ([Some ''p'', Some ''q''] @ Some ''s'' # [])
   \<and> removedAll stuck_profiles_conn (rd_Id (withForceDetach True example_data)) [Some ''p'', Some ''q'']
        ([] @ [ListInstanceProfilesForRole (rd_Id (withForceDetach True example_data))])
   \<and> iam_RemoveRoleFromInstanceProfile stuck_profiles_conn
        ([] @ ListInstanceProfilesForRole (rd_Id (withForceDetach True example_data))
            # map (\<lambda>p. RemoveRoleFromInstanceProfile p (rd_Id (withForceDetach True example_data)))
                [Some ''p'', Some ''q''])
        (Some ''s'') (rd_Id (withForceDetach True example_data)) = Some serviceFailure
   \<and> \<not> ErrCodeEquals (Some (AwsErr serviceFailure)) ErrCodeNoSuchEntityException"
  by code_simp

theorem delete_without_force_detaches_instance_profiles_only_witness:
  "resourceAwsIamRoleDelete example_env profiles_conn example_data []
     = ((None, example_data),
        [ListInstanceProfilesForRole ''r'', RemoveRoleFromInstanceProfile (Some ''p'') ''r'',
         RemoveRoleFromInstanceProfile (Some ''q'') ''r'',
         RemoveRoleFromInstanceProfile (Some ''s'') ''r'', DeleteRole ''r''])
   \<and> \<not> force_detach_policies (config example_data)
   \<and> sends (\<lambda>c. c = ListInstanceProfilesForRole ''r''
               \<or> (\<exists>p. c = RemoveRoleFromInstanceProfile p ''r'')
               \<or> c = DeleteRole ''r'') []
        [ListInstanceProfilesForRole ''r'', RemoveRoleFromInstanceProfile (Some ''p'') ''r'',
         RemoveRoleFromInstanceProfile (Some ''q'') ''r'',
         RemoveRoleFromInstanceProfile (Some ''s'') ''r'', DeleteRole ''r'']
   \<and> iam_ListInstanceProfilesForRole profiles_conn [] ''r'' = Inr [Some ''p'', Some ''q'', Some ''s'']
   \<and> removedAll profiles_conn ''r'' [Some ''p'', Some ''q'', Some ''s'']
        [ListInstanceProfilesForRole ''r'']
   \<and> take 4 (issued []
        [ListInstanceProfilesForRole ''r'', RemoveRoleFromInstanceProfile (Some ''p'') ''r'',
         RemoveRoleFromInstanceProfile (Some ''q'') ''r'',
         RemoveRoleFromInstanceProfile (Some ''s'') ''r'', DeleteRole ''r''])
       = [ListInstanceProfilesForRole ''r'', RemoveRoleFromInstanceProfile (Some ''p'') ''r'',
          RemoveRoleFromInstanceProfile (Some ''q'') ''r'',
          RemoveRoleFromInstanceProfile (Some ''s'') ''r'']
   \<and> resourceAwsIamRoleDelete example_env stuck_profiles_conn (withForceDetach True example_data) []
     = ((Some (Errorf_w ''error deleting IAM Role (r): ''
                (Errorf_w ''unable to detach instance profiles: '' (AwsErr serviceFailure))),
         withForceDetach True example_data),
        [ListInstanceProfilesForRole ''r'', RemoveRoleFromInstanceProfile (Some ''p'') ''r'',
         RemoveRoleFromInstanceProfile (Some ''q'') ''r'',
         RemoveRoleFromInstanceProfile (Some ''s'') ''r''])
   \<and> issued []
        [ListInstanceProfilesForRole ''r'', RemoveRoleFromInstanceProfile (Some ''p'') ''r'',
         RemoveRoleFromInstanceProfile (Some ''q'') ''r'',
         RemoveRoleFromInstanceProfile (Some ''s'') ''r'']
     = [ListInstanceProfilesForRole ''r'', RemoveRoleFromInstanceProfile (Some ''p'') ''r'',
        RemoveRoleFromInstanceProfile (Some ''q'') ''r'',
        RemoveRoleFromInstanceProfile (Some ''s'') ''r'']"
proof -
  have f: "\<not> force_detach_policies (config example_data)"
    by (simp add: example_data_def example_attrs_def)
  have i: "rd_Id example_data = ''r''" by (simp add: example_data_def)
  note w = delete_without_force_detaches_instance_profiles_only [OF profiles_run]
  from w f
  have a: "sends (\<lambda>c. c = ListInstanceProfilesForRole ''r''
               \<or> (\<exists>p. c = RemoveRoleFromInstanceProfile p ''r'')
               \<or> c = DeleteRole ''r'') []
        [ListInstanceProfilesForRole ''r'', RemoveRoleFromInstanceProfile (Some ''p'') ''r'',
         RemoveRoleFromInstanceProfile (Some ''q'') ''r'',
         RemoveRoleFromInstanceProfile (Some ''s'') ''r'', DeleteRole ''r'']" unfolding i by blast
  from profiles_listed
  have l: "iam_ListInstanceProfilesForRole profiles_conn [] ''r'' = Inr [Some ''p'', Some ''q'', Some ''s'']"
    and r: "removedAll profiles_conn ''r'' [Some ''p'', Some ''q'', Some ''s'']
        [ListInstanceProfilesForRole ''r'']" unfolding i by simp_all
  from w [THEN conjunct2, THEN conjunct2, THEN conjunct1, THEN spec, THEN spec, THEN mp,
          OF profiles_listed]
  have t: "take 4 (issued []
        [ListInstanceProfilesForRole ''r'', RemoveRoleFromInstanceProfile (Some ''p'') ''r'',
         RemoveRoleFromInstanceProfile (Some ''q'') ''r'',
         RemoveRoleFromInstanceProfile (Some ''s'') ''r'', DeleteRole ''r''])
       = [ListInstanceProfilesForRole ''r'', RemoveRoleFromInstanceProfile (Some ''p'') ''r'',
          RemoveRoleFromInstanceProfile (Some ''q'') ''r'',
          RemoveRoleFromInstanceProfile (Some ''s'') ''r'']" unfolding i by (simp add: numeral_eq_Suc)
  have j: "rd_Id (withForceDetach True example_data) = ''r''"
    by (simp add: example_data_def withForceDetach_def)
  note v = delete_without_force_detaches_instance_profiles_only [OF stuck_profiles_run]
  from v [THEN conjunct2, THEN conjunct2, THEN conjunct2, THEN conjunct1,
          THEN spec, THEN spec, THEN spec, THEN spec, THEN mp, OF stuck_profiles_listed,
          THEN conjunct1]
  have u: "issued []
        [ListInstanceProfilesForRole ''r'', RemoveRoleFromInstanceProfile (Some ''p'') ''r'',
         RemoveRoleFromInstanceProfile (Some ''q'') ''r'',
         RemoveRoleFromInstanceProfile (Some ''s'') ''r'']
     = [ListInstanceProfilesForRole ''r'', RemoveRoleFromInstanceProfile (Some ''p'') ''r'',
        RemoveRoleFromInstanceProfile (Some ''q'') ''r'',
        RemoveRoleFromInstanceProfile (Some ''s'') ''r'']" unfolding j by simp
  from profiles_run f a l r t stuck_profiles_run u show ?thesis by (intro conjI)
qed

text \<open>
  C1 as stated fails: with the flag false the role is still removed from its instance
  profile before \<^verbatim>\<open>DeleteRole\<close>.
\<close>

theorem delete_without_force_counterexample:
  "\<not> force_detach_policies (config example_data)
   \<and> snd (resourceAwsIamRoleDelete example_env profile_conn example_data [])
     = [ListInstanceProfilesForRole ''r'', RemoveRoleFromInstanceProfile (Some ''p'') ''r'',
        DeleteRole ''r'']"
  by code_simp

section \<open>What Read writes for the inline policies\<close>

lemma listInlinePoliciesLoop_names:
  "listInlinePoliciesLoop ev conn r names acc tr = (Inr ps, tr') \<Longrightarrow>
   list_all (\<lambda>p. PolicyName p = None) acc \<Longrightarrow> list_all (\<lambda>p. PolicyName p = None) ps"
proof (induction names arbitrary: acc tr)
  case Nil
  then show ?case by simp
next
  case (Cons n names)
  from Cons.prems(1) obtain doc policy where
    "listInlinePoliciesLoop ev conn r names
       (acc @ [\<lparr>PolicyDocument = Some policy, PolicyName = None, pr_RoleName = Some r\<rparr>])
       (tr @ [GetRolePolicy r n]) = (Inr ps, tr')"
    by (auto simp: Let_def split: sum.splits)
  moreover have "list_all (\<lambda>p. PolicyName p = None)
       (acc @ [\<lparr>PolicyDocument = Some policy, PolicyName = None, pr_RoleName = Some r\<rparr>])"
    using Cons.prems(2) by simp
  ultimately show ?case by (rule Cons.IH)
qed

lemma resourceAwsIamRoleListInlinePolicies_names:
  "resourceAwsIamRoleListInlinePolicies ev conn r tr = (Inr ps, tr') \<Longrightarrow>
   list_all (\<lambda>p. PolicyName p = None) ps"
proof -
  assume a: "resourceAwsIamRoleListInlinePolicies ev conn r tr = (Inr ps, tr')"
  obtain res tr1 where n: "readAwsIamRolePolicyNames conn r tr = (res, tr1)" by force
  show ?thesis
  proof (cases res)
    case (Inl x)
    with a n show ?thesis by (simp add: resourceAwsIamRoleListInlinePolicies_def)
  next
    case (Inr names)
    with a n have "listInlinePoliciesLoop ev conn r names [] tr1 = (Inr ps, tr')"
      by (simp add: resourceAwsIamRoleListInlinePolicies_def)
    then show ?thesis by (rule listInlinePoliciesLoop_names) simp
  qed
qed

lemma flattenLoop_Some: "flattenLoop (map Some ps) = map (\<lambda>p. flattenIamInlinePolicy (Some p)) ps"
  by (induction ps) simp_all

lemma flattenIamInlinePolicies_Some:
  "flattenIamInlinePolicies (map Some ps) = map (\<lambda>p. flattenIamInlinePolicy (Some p)) ps"
  by (cases ps) (simp_all add: flattenIamInlinePolicies_def flattenLoop_Some)

lemma tfMap_of_flatten:
  "tfMap_of (flattenIamInlinePolicy (Some p))
     = \<lparr>tf_name = StringValue (PolicyName p), tf_name_prefix = [],
        tf_policy = StringValue (PolicyDocument p)\<rparr>"
  by (simp add: tfMap_of_def flattenIamInlinePolicy_def)

text \<open>The attribute \<^verbatim>\<open>inline_policy\<close> after \<^verbatim>\<open>resourceAwsIamRoleRead\<close>.\<close>

lemma resourceAwsIamRoleRead_inline_policy:
  "inline_policy (config (snd (fst (resourceAwsIamRoleRead ev conn d tr)))) =
     (case iam_GetRole conn tr (rd_Id d) of
        Inr (Some (Some role)) \<Rightarrow>
          (case QueryUnescape ev (AssumeRolePolicyDocument role) of
             Inl x \<Rightarrow> inline_policy (config d)
           | Inr a \<Rightarrow>
               (case fst (resourceAwsIamRoleListInlinePolicies ev conn (RoleName role) (tr @ [GetRole (rd_Id d)])) of
                  Inl x \<Rightarrow> inline_policy (config d)
                | Inr ps \<Rightarrow> map tfMap_of (flattenIamInlinePolicies (map Some ps))))
      | _ \<Rightarrow> inline_policy (config d))"
proof (cases "iam_GetRole conn tr (rd_Id d)")
  case (Inl a)
  then show ?thesis by (simp add: resourceAwsIamRoleRead_def apiOut_def Let_def)
next
  case (Inr g)
  show ?thesis
  proof (cases g)
    case None
    with Inr show ?thesis by (simp add: resourceAwsIamRoleRead_def apiOut_def Let_def)
  next
    case (Some g')
    show ?thesis
    proof (cases g')
      case None
      with Inr Some show ?thesis by (simp add: resourceAwsIamRoleRead_def apiOut_def Let_def)
    next
      case role: (Some role)
      show ?thesis
      proof (cases "QueryUnescape ev (AssumeRolePolicyDocument role)")
        case (Inl x)
        with Inr Some role show ?thesis
          by (simp add: resourceAwsIamRoleRead_def apiOut_def Let_def split: option.splits)
      next
        case q: (Inr a)
        obtain res tr2 where l: "resourceAwsIamRoleListInlinePolicies ev conn (RoleName role) (tr @ [GetRole (rd_Id d)]) = (res, tr2)"
          by force
        show ?thesis
        proof (cases res)
          case (Inl x)
          with Inr Some role q l show ?thesis
            by (simp add: resourceAwsIamRoleRead_def apiOut_def Let_def split: option.splits)
        next
          case ps: (Inr ps)
          obtain res3 tr3 where m: "readAwsIamRolePolicyAttachments conn (RoleName role) tr2 = (res3, tr3)"
            by force
          with Inr Some role q l ps show ?thesis
            by (cases res3) (simp_all add: resourceAwsIamRoleRead_def apiOut_def Let_def split: option.splits)
        qed
      qed
    qed
  qed
qed


text \<open>
  C9. \<^verbatim>\<open>resourceAwsIamRoleListInlinePolicies\<close> builds every policy it returns
  without \<^verbatim>\<open>PolicyName\<close>, so \<^verbatim>\<open>flattenIamInlinePolicy\<close> maps it to a map whose
  \<^verbatim>\<open>name\<close> is the empty string. When \<^verbatim>\<open>resourceAwsIamRoleRead\<close> gets as far as the
  inline policies, the entries it writes into \<^verbatim>\<open>inline_policy\<close> carry the empty name
  and the fetched document; in every run, \<^verbatim>\<open>inline_policy\<close> is left as it was or
  holds only entries with the empty name.
\<close>

theorem Read_writes_inline_policies_with_empty_name:
  "(resourceAwsIamRoleListInlinePolicies ev conn r tr = (Inr ps, tr1) \<longrightarrow>
      list_all (\<lambda>p. PolicyName p = None) ps
      \<and> list_all (\<lambda>p. map_of (flattenIamInlinePolicy (Some p)) ''name'' = Some []) ps)
   \<and> (iam_GetRole conn tr (rd_Id d) = Inr (Some (Some role))
      \<and> QueryUnescape ev (AssumeRolePolicyDocument role) = Inr a
      \<and> resourceAwsIamRoleListInlinePolicies ev conn (RoleName role) (tr @ [GetRole (rd_Id d)])
          = (Inr ps', tr2)
      \<longrightarrow> inline_policy (config (snd (fst (resourceAwsIamRoleRead ev conn d tr))))
          = map (\<lambda>p. \<lparr>tf_name = [], tf_name_prefix = [],
                        tf_policy = StringValue (PolicyDocument p)\<rparr>) ps')
   \<and> (inline_policy (config (snd (fst (resourceAwsIamRoleRead ev conn d tr))))
         = inline_policy (config d)
      \<or> list_all (\<lambda>m. tf_name m = [])
           (inline_policy (config (snd (fst (resourceAwsIamRoleRead ev conn d tr))))))"
proof (intro conjI impI)
  assume l: "resourceAwsIamRoleListInlinePolicies ev conn r tr = (Inr ps, tr1)"
  from resourceAwsIamRoleListInlinePolicies_names [OF l]
  show n: "list_all (\<lambda>p. PolicyName p = None) ps" .
  then show "list_all (\<lambda>p. map_of (flattenIamInlinePolicy (Some p)) ''name'' = Some []) ps"
    by (simp add: list_all_iff flattenIamInlinePolicy_def StringValue_def)
next
  assume h: "iam_GetRole conn tr (rd_Id d) = Inr (Some (Some role))
      \<and> QueryUnescape ev (AssumeRolePolicyDocument role) = Inr a
      \<and> resourceAwsIamRoleListInlinePolicies ev conn (RoleName role) (tr @ [GetRole (rd_Id d)])
          = (Inr ps', tr2)"
  then have n: "list_all (\<lambda>p. PolicyName p = None) ps'"
    using resourceAwsIamRoleListInlinePolicies_names by blast
  from h have "inline_policy (config (snd (fst (resourceAwsIamRoleRead ev conn d tr))))
      = map tfMap_of (flattenIamInlinePolicies (map Some ps'))"
    by (simp add: resourceAwsIamRoleRead_inline_policy)
  also have "\<dots> = map (\<lambda>p. \<lparr>tf_name = [], tf_name_prefix = [],
                        tf_policy = StringValue (PolicyDocument p)\<rparr>) ps'"
    using n by (simp add: flattenIamInlinePolicies_Some tfMap_of_flatten list_all_iff StringValue_def)
  finally show "inline_policy (config (snd (fst (resourceAwsIamRoleRead ev conn d tr))))
          = map (\<lambda>p. \<lparr>tf_name = [], tf_name_prefix = [],
                        tf_policy = StringValue (PolicyDocument p)\<rparr>) ps'" .
next
  let ?ip = "inline_policy (config (snd (fst (resourceAwsIamRoleRead ev conn d tr))))"
  have names: "\<And>r t ps. fst (resourceAwsIamRoleListInlinePolicies ev conn r t) = Inr ps \<Longrightarrow>
      list_all (\<lambda>m. tf_name m = []) (map tfMap_of (flattenIamInlinePolicies (map Some ps)))"
  proof -
    fix r t ps assume "fst (resourceAwsIamRoleListInlinePolicies ev conn r t) = Inr ps"
    then have "resourceAwsIamRoleListInlinePolicies ev conn r t
        = (Inr ps, snd (resourceAwsIamRoleListInlinePolicies ev conn r t))"
      by (metis prod.collapse)
    from resourceAwsIamRoleListInlinePolicies_names [OF this]
    show "list_all (\<lambda>m. tf_name m = []) (map tfMap_of (flattenIamInlinePolicies (map Some ps)))"
      by (simp add: flattenIamInlinePolicies_Some tfMap_of_flatten list_all_iff StringValue_def)
  qed
  show "?ip = inline_policy (config d) \<or> list_all (\<lambda>m. tf_name m = []) ?ip"
    unfolding resourceAwsIamRoleRead_inline_policy
    using names by (auto split: sum.splits option.splits)
qed

lemma named_list:
  "resourceAwsIamRoleListInlinePolicies example_env named_conn ''r'' [GetRole ''r'']
     = (Inr [\<lparr>PolicyDocument = Some ''doc1'', PolicyName = None, pr_RoleName = Some ''r''\<rparr>,
             \<lparr>PolicyDocument = Some ''doc2'', PolicyName = None, pr_RoleName = Some ''r''\<rparr>],
        [GetRole ''r'', ListRolePoliciesPages ''r'', GetRolePolicy ''r'' (Some ''p1''),
         GetRolePolicy ''r'' (Some ''p2'')])"
  by code_simp

theorem Read_writes_inline_policies_with_empty_name_witness:
  "fst (resourceAwsIamRoleListInlinePolicies example_env named_conn ''r'' [GetRole ''r''])
     = Inr [\<lparr>PolicyDocument = Some ''doc1'', PolicyName = None, pr_RoleName = Some ''r''\<rparr>,
            \<lparr>PolicyDocument = Some ''doc2'', PolicyName = None, pr_RoleName = Some ''r''\<rparr>]
   \<and> inline_policy (config (snd (fst (resourceAwsIamRoleRead example_env named_conn example_data []))))
     = [\<lparr>tf_name = [], tf_name_prefix = [], tf_policy = ''doc1''\<rparr>,
        \<lparr>tf_name = [], tf_name_prefix = [], tf_policy = ''doc2''\<rparr>]"
proof -
  have g: "iam_GetRole named_conn [] (rd_Id example_data) = Inr (Some (Some example_role))"
    by (simp add: named_conn_def example_conn_def)
  have q: "QueryUnescape example_env (AssumeRolePolicyDocument example_role) = Inr ''{}''"
    by (simp add: example_env_def example_role_def)
  have l: "resourceAwsIamRoleListInlinePolicies example_env named_conn (RoleName example_role)
             ([] @ [GetRole (rd_Id example_data)])
     = (Inr [\<lparr>PolicyDocument = Some ''doc1'', PolicyName = None, pr_RoleName = Some ''r''\<rparr>,
             \<lparr>PolicyDocument = Some ''doc2'', PolicyName = None, pr_RoleName = Some ''r''\<rparr>],
        [GetRole ''r'', ListRolePoliciesPages ''r'', GetRolePolicy ''r'' (Some ''p1''),
         GetRolePolicy ''r'' (Some ''p2'')])"
    using named_list by (simp add: example_role_def example_data_def)
  from Read_writes_inline_policies_with_empty_name
         [of example_env named_conn "''r''" "[]" "[]" "[]" example_data example_role "''{}''"]
       g q l
  have "inline_policy (config (snd (fst (resourceAwsIamRoleRead example_env named_conn example_data []))))
     = map (\<lambda>p. \<lparr>tf_name = [], tf_name_prefix = [],
                        tf_policy = StringValue (PolicyDocument p)\<rparr>)
         [\<lparr>PolicyDocument = Some ''doc1'', PolicyName = None, pr_RoleName = Some ''r''\<rparr>,
          \<lparr>PolicyDocument = Some ''doc2'', PolicyName = None, pr_RoleName = Some ''r''\<rparr>]"
    by blast
  then show ?thesis using named_list by (simp add: StringValue_def)
qed

section \<open>Requests sent by the Update operation\<close>

lemma andThen_sends:
  assumes "andThen s k tr = (res, tr')"
    and "\<And>r t. s tr = (r, t) \<Longrightarrow> sends P tr t"
    and "\<And>t r t'. k t = (r, t') \<Longrightarrow> sends P t t'"
  shows "sends P tr tr'"
proof -
  obtain r t where s: "s tr = (r, t)" by force
  from assms(2) [OF s] have 1: "sends P tr t" .
  show ?thesis
  proof (cases r)
    case None
    with assms(1) s have "k t = (res, tr')" by (simp add: andThen_def)
    from assms(3) [OF this] 1 show ?thesis by (blast intro: sends_trans)
  next
    case (Some x)
    with assms(1) s have "tr' = t" by (simp add: andThen_def)
    with 1 show ?thesis by simp
  qed
qed

lemma sends_one_or_none:
  "tr' = tr \<or> (tr' = tr @ [c] \<and> P c) \<Longrightarrow> sends P tr tr'"
  by (auto intro: sends_snoc)

lemma updateAssumeRolePolicy_sends:
  "updateAssumeRolePolicy conn d tr = (r, tr') \<Longrightarrow>
   sends (\<lambda>c. mutated c = Some A_assume_role_policy \<and> changed d A_assume_role_policy) tr tr'"
  by (rule sends_one_or_none [where c = "UpdateAssumeRolePolicy (rd_Id d) (assume_role_policy (config d))"])
     (auto simp: updateAssumeRolePolicy_def Let_def mutated_def changed_def split: if_splits option.splits)

lemma updateRoleDescription_sends:
  "updateRoleDescription conn d tr = (r, tr') \<Longrightarrow>
   sends (\<lambda>c. mutated c = Some A_description \<and> changed d A_description) tr tr'"
  by (rule sends_one_or_none [where c = "UpdateRoleDescription (rd_Id d) (description (config d))"])
     (auto simp: updateRoleDescription_def Let_def mutated_def changed_def split: if_splits option.splits)

lemma updateMaxSessionDuration_sends:
  "updateMaxSessionDuration conn d tr = (r, tr') \<Longrightarrow>
   sends (\<lambda>c. mutated c = Some A_max_session_duration \<and> changed d A_max_session_duration) tr tr'"
  by (rule sends_one_or_none [where c = "UpdateRole (rd_Id d) (max_session_duration (config d))"])
     (auto simp: updateMaxSessionDuration_def Let_def mutated_def changed_def split: if_splits option.splits)

lemma updatePermissionsBoundary_sends:
  "updatePermissionsBoundary conn d tr = (r, tr') \<Longrightarrow>
   sends (\<lambda>c. mutated c = Some A_permissions_boundary \<and> changed d A_permissions_boundary) tr tr'"
  by (rule sends_one_or_none [where c = "if permissions_boundary (config d) \<noteq> []
        then PutRolePermissionsBoundary (permissions_boundary (config d)) (rd_Id d)
        else DeleteRolePermissionsBoundary (rd_Id d)"])
     (auto simp: updatePermissionsBoundary_def Let_def mutated_def changed_def split: if_splits option.splits)

lemma updateTags_sends:
  "updateTags conn d tr = (r, tr') \<Longrightarrow>
   sends (\<lambda>c. mutated c = Some A_tags \<and> changed d A_tags) tr tr'"
  by (rule sends_one_or_none [where c = "IamRoleUpdateTags (rd_Id d) (tags (state d)) (tags (config d))"])
     (auto simp: updateTags_def Let_def mutated_def changed_def split: if_splits option.splits)

lemma set_Difference [simp]: "set (Difference os ns) = set os - set ns"
  by (auto simp: Difference_def)

lemma sends_map:
  "(\<And>x. x \<in> set xs \<Longrightarrow> P (f x)) \<Longrightarrow> sends P tr (tr @ map f xs)"
  unfolding sends_iff by (auto simp: list_all_iff)

lemma resourceAwsIamRoleCreateInlinePolicies_trace:
  "resourceAwsIamRoleCreateInlinePolicies conn ps tr = (e, tr') \<Longrightarrow> tr' = tr @ map PutRolePolicy ps"
  by (simp add: resourceAwsIamRoleCreateInlinePolicies_def createInlinePoliciesLoop_eq)

lemma resourceAwsIamRoleAttachManagedPolicies_trace:
  "resourceAwsIamRoleAttachManagedPolicies conn r ps tr = (e, tr') \<Longrightarrow>
   tr' = tr @ map (\<lambda>a. AttachRolePolicy r (StringValue a)) ps"
  by (simp add: resourceAwsIamRoleAttachManagedPolicies_def attachManagedPoliciesLoop_eq)

lemma expandIamInlinePolicies_map:
  "expandIamInlinePolicies ev r ms = map (expandIamInlinePolicy ev r) ms"
  by (cases ms) (simp_all add: expandIamInlinePolicies_def)

lemma updateInlinePolicies_sends:
  assumes "updateInlinePolicies ev conn d tr = (r, tr')"
  shows "sends (\<lambda>c. mutated c = Some A_inline_policy \<and> changed d A_inline_policy \<and> reconciles ev d c) tr tr'"
proof (cases "HasChangeSet inline_policy d")
  case False
  with assms have "tr' = tr" by (simp add: updateInlinePolicies_def)
  then show ?thesis by simp
next
  case True
  let ?Q = "\<lambda>c. mutated c = Some A_inline_policy \<and> changed d A_inline_policy \<and> reconciles ev d c"
  let ?n = "name (config d)"
  let ?rem = "Difference (inline_policy (state d)) (inline_policy (config d))"
  let ?add = "Difference (inline_policy (config d)) (inline_policy (state d))"
  from True have ch: "changed d A_inline_policy" by (simp add: changed_def)
  obtain e1 tr1 where del: "deleteAwsIamRolePolicies conn ?n (map (\<lambda>m. Some (tf_name m)) ?rem) tr = (e1, tr1)"
    by force
  from deleteAwsIamRolePolicies_sends [OF del] have s1: "sends ?Q tr tr1"
    by (rule sends_mono) (use ch in \<open>auto simp: mutated_def reconciles_def\<close>)
  show ?thesis
  proof (cases e1)
    case (Some x)
    with assms True del have "tr' = tr1" by (simp add: updateInlinePolicies_def Let_def)
    with s1 show ?thesis by simp
  next
    case None
    obtain e2 tr2 where put: "resourceAwsIamRoleCreateInlinePolicies conn
         (expandIamInlinePolicies ev ?n ?add) tr1 = (e2, tr2)" by force
    from resourceAwsIamRoleCreateInlinePolicies_trace [OF put]
    have "tr2 = tr1 @ map PutRolePolicy (map (expandIamInlinePolicy ev ?n) ?add)"
      by (simp add: expandIamInlinePolicies_map)
    then have t2: "tr2 = tr1 @ map (\<lambda>m. PutRolePolicy (expandIamInlinePolicy ev ?n m)) ?add"
      by (simp add: comp_def)
    have s2: "sends ?Q tr1 tr2" unfolding t2
      by (rule sends_map) (use ch in \<open>auto simp: mutated_def reconciles_def\<close>)
    from assms True del None put have "tr' = tr2"
      by (auto simp: updateInlinePolicies_def Let_def split: option.splits)
    with s1 s2 show ?thesis by (auto intro: sends_trans)
  qed
qed

lemma updateManagedPolicies_sends:
  assumes "updateManagedPolicies ev conn d tr = (r, tr')"
  shows "sends (\<lambda>c. mutated c = Some A_managed_policy_arns \<and> changed d A_managed_policy_arns \<and> reconciles ev d c) tr tr'"
proof (cases "HasChangeSet managed_policy_arns d")
  case False
  with assms have "tr' = tr" by (simp add: updateManagedPolicies_def)
  then show ?thesis by simp
next
  case True
  let ?Q = "\<lambda>c. mutated c = Some A_managed_policy_arns \<and> changed d A_managed_policy_arns \<and> reconciles ev d c"
  let ?n = "name (config d)"
  let ?rem = "expandStringList ev (Difference (managed_policy_arns (state d)) (managed_policy_arns (config d)))"
  let ?add = "expandStringList ev (Difference (managed_policy_arns (config d)) (managed_policy_arns (state d)))"
  from True have ch: "changed d A_managed_policy_arns" by (simp add: changed_def)
  obtain e1 tr1 where del: "deleteAwsIamRolePolicyAttachments conn ?n ?rem tr = (e1, tr1)"
    by force
  from deleteAwsIamRolePolicyAttachments_sends [OF del] have s1: "sends ?Q tr tr1"
    by (rule sends_mono) (use ch in \<open>auto simp: mutated_def reconciles_def\<close>)
  show ?thesis
  proof (cases e1)
    case (Some x)
    with assms True del have "tr' = tr1" by (simp add: updateManagedPolicies_def Let_def)
    with s1 show ?thesis by simp
  next
    case None
    obtain e2 tr2 where att: "resourceAwsIamRoleAttachManagedPolicies conn ?n ?add tr1 = (e2, tr2)"
      by force
    from resourceAwsIamRoleAttachManagedPolicies_trace [OF att]
    have t2: "tr2 = tr1 @ map (\<lambda>a. AttachRolePolicy ?n (StringValue a)) ?add" .
    have s2: "sends ?Q tr1 tr2" unfolding t2
      by (rule sends_map) (use ch in \<open>auto simp: mutated_def reconciles_def\<close>)
    from assms True del None att have "tr' = tr2"
      by (auto simp: updateManagedPolicies_def Let_def split: option.splits)
    with s1 s2 show ?thesis by (auto intro: sends_trans)
  qed
qed

lemma listInlinePoliciesLoop_sends:
  "listInlinePoliciesLoop ev conn r names acc tr = (res, tr') \<Longrightarrow> sends isRead tr tr'"
proof (induction names arbitrary: acc tr)
  case Nil
  then show ?case by simp
next
  case (Cons n names)
  have s: "sends isRead tr (tr @ [GetRolePolicy r n])"
    by (rule sends_snoc) (simp add: isRead_def)
  from Cons.prems consider "tr' = tr @ [GetRolePolicy r n]"
    | acc' where "listInlinePoliciesLoop ev conn r names acc' (tr @ [GetRolePolicy r n]) = (res, tr')"
    by (auto simp: Let_def split: sum.splits)
  then show ?case
  proof cases
    case 1
    with s show ?thesis by simp
  next
    case 2
    from sends_trans [OF s Cons.IH [OF 2]] show ?thesis .
  qed
qed

lemma resourceAwsIamRoleListInlinePolicies_sends:
  assumes "resourceAwsIamRoleListInlinePolicies ev conn r tr = (res, tr')"
  shows "sends isRead tr tr'"
proof -
  obtain r1 tr1 where n: "readAwsIamRolePolicyNames conn r tr = (r1, tr1)" by force
  from readAwsIamRolePolicyNames_sends [OF n] have "tr1 = tr @ [ListRolePoliciesPages r]" .
  then have s1: "sends isRead tr tr1" by (simp add: sends_snoc isRead_def)
  show ?thesis
  proof (cases r1)
    case (Inl x)
    with assms n have "tr' = tr1" by (simp add: resourceAwsIamRoleListInlinePolicies_def)
    with s1 show ?thesis by simp
  next
    case (Inr names)
    with assms n have "listInlinePoliciesLoop ev conn r names [] tr1 = (res, tr')"
      by (simp add: resourceAwsIamRoleListInlinePolicies_def)
    from sends_trans [OF s1 listInlinePoliciesLoop_sends [OF this]] show ?thesis .
  qed
qed

lemma resourceAwsIamRoleRead_sends:
  assumes "resourceAwsIamRoleRead ev conn d tr = (res, tr')"
  shows "sends isRead tr tr'"
proof -
  let ?tr1 = "tr @ [GetRole (rd_Id d)]"
  have s1: "sends isRead tr ?tr1" by (simp add: sends_snoc isRead_def)
  show ?thesis
  proof (cases "iam_GetRole conn tr (rd_Id d)")
    case (Inl a)
    with assms have "tr' = ?tr1"
      by (auto simp: resourceAwsIamRoleRead_def apiOut_def Let_def split: if_splits)
    with s1 show ?thesis by simp
  next
    case (Inr g)
    show ?thesis
    proof (cases "\<exists>role. g = Some (Some role)")
      case False
      with assms Inr have "tr' = ?tr1"
        by (cases g; cases "the g") (auto simp: resourceAwsIamRoleRead_def apiOut_def Let_def)
      with s1 show ?thesis by simp
    next
      case True
      then obtain role where g: "g = Some (Some role)" by blast
      show ?thesis
      proof (cases "QueryUnescape ev (AssumeRolePolicyDocument role)")
        case (Inl x)
        with assms Inr g have "tr' = ?tr1"
          by (simp add: resourceAwsIamRoleRead_def apiOut_def Let_def split: option.splits)
        with s1 show ?thesis by simp
      next
        case q: (Inr a)
        obtain r2 tr2 where l: "resourceAwsIamRoleListInlinePolicies ev conn (RoleName role) ?tr1 = (r2, tr2)"
          by force
        from sends_trans [OF s1 resourceAwsIamRoleListInlinePolicies_sends [OF l]]
        have s2: "sends isRead tr tr2" .
        show ?thesis
        proof (cases r2)
          case (Inl x)
          with assms Inr g q l have "tr' = tr2"
            by (simp add: resourceAwsIamRoleRead_def apiOut_def Let_def split: option.splits)
          with s2 show ?thesis by simp
        next
          case ps: (Inr ps)
          obtain r3 tr3 where m: "readAwsIamRolePolicyAttachments conn (RoleName role) tr2 = (r3, tr3)"
            by force
          from readAwsIamRolePolicyAttachments_sends [OF m]
          have "sends isRead tr2 tr3" by (simp add: sends_snoc isRead_def)
          with s2 have s3: "sends isRead tr tr3" by (rule sends_trans)
          from assms Inr g q l ps m have "tr' = tr3"
            by (cases r3) (simp_all add: resourceAwsIamRoleRead_def apiOut_def Let_def split: option.splits)
          with s3 show ?thesis by simp
        qed
      qed
    qed
  qed
qed

text \<open>
  Every request of \<^verbatim>\<open>resourceAwsIamRoleUpdate\<close> is a read, or changes an attribute
  that has a change and comes from the set differences.
\<close>

lemma resourceAwsIamRoleUpdate_sends:
  assumes "resourceAwsIamRoleUpdate ev conn d tr = (res, tr')"
  shows "sends (\<lambda>c. isRead c \<or> (\<exists>k. mutated c = Some k \<and> changed d k \<and> reconciles ev d c)) tr tr'"
proof -
  let ?Q = "\<lambda>c. isRead c \<or> (\<exists>k. mutated c = Some k \<and> changed d k \<and> reconciles ev d c)"
  have rc: "\<And>c k. mutated c = Some k \<Longrightarrow> k \<noteq> A_inline_policy \<Longrightarrow> k \<noteq> A_managed_policy_arns \<Longrightarrow> reconciles ev d c"
    by (auto simp: mutated_def reconciles_def split: call.splits)
  have 1: "\<And>t r t'. updateAssumeRolePolicy conn d t = (r, t') \<Longrightarrow> sends ?Q t t'"
    by (drule updateAssumeRolePolicy_sends, erule sends_mono) (use rc in auto)
  have 2: "\<And>t r t'. updateRoleDescription conn d t = (r, t') \<Longrightarrow> sends ?Q t t'"
    by (drule updateRoleDescription_sends, erule sends_mono) (use rc in auto)
  have 3: "\<And>t r t'. updateMaxSessionDuration conn d t = (r, t') \<Longrightarrow> sends ?Q t t'"
    by (drule updateMaxSessionDuration_sends, erule sends_mono) (use rc in auto)
  have 4: "\<And>t r t'. updatePermissionsBoundary conn d t = (r, t') \<Longrightarrow> sends ?Q t t'"
    by (drule updatePermissionsBoundary_sends, erule sends_mono) (use rc in auto)
  have 5: "\<And>t r t'. updateTags conn d t = (r, t') \<Longrightarrow> sends ?Q t t'"
    by (drule updateTags_sends, erule sends_mono) (use rc in auto)
  have 6: "\<And>t r t'. updateInlinePolicies ev conn d t = (r, t') \<Longrightarrow> sends ?Q t t'"
    by (drule updateInlinePolicies_sends, erule sends_mono) auto
  have 7: "\<And>t r t'. updateManagedPolicies ev conn d t = (r, t') \<Longrightarrow> sends ?Q t t'"
    by (drule updateManagedPolicies_sends, erule sends_mono) auto
  have 8: "\<And>t r t'. resourceAwsIamRoleRead ev conn d t = (r, t') \<Longrightarrow> sends ?Q t t'"
    by (drule resourceAwsIamRoleRead_sends, erule sends_mono) auto
  from assms show ?thesis unfolding resourceAwsIamRoleUpdate_def
    by (elim andThen_sends 1 2 3 4 5 6 7 8)
qed


lemma HasChangeMap_iff:
  "HasChangeMap key d \<longleftrightarrow> map_of (key (state d)) \<noteq> map_of (key (config d))"
proof -
  let ?o = "key (state d)" and ?n = "key (config d)"
  have "(\<forall>k \<in> set (map fst ?o @ map fst ?n). map_of ?o k = map_of ?n k) \<longleftrightarrow> map_of ?o = map_of ?n"
  proof
    assume a: "\<forall>k \<in> set (map fst ?o @ map fst ?n). map_of ?o k = map_of ?n k"
    show "map_of ?o = map_of ?n"
    proof
      fix k
      show "map_of ?o k = map_of ?n k"
      proof (cases "k \<in> set (map fst ?o @ map fst ?n)")
        case True
        with a show ?thesis by blast
      next
        case False
        then have "map_of ?o k = None" "map_of ?n k = None"
          by (simp_all add: map_of_eq_None_iff)
        then show ?thesis by simp
      qed
    qed
  next
    assume "map_of ?o = map_of ?n"
    then show "\<forall>k \<in> set (map fst ?o @ map fst ?n). map_of ?o k = map_of ?n k" by simp
  qed
  then show ?thesis unfolding HasChangeMap_def list_all_iff by blast
qed

text \<open>
  C4. Every request that \<^verbatim>\<open>resourceAwsIamRoleUpdate\<close> sends is a read or changes an
  attribute for which \<^verbatim>\<open>d.HasChange\<close> holds: for an attribute without change, no
  request that changes it is sent.
\<close>

theorem Update_requests_only_for_changed_attributes:
  assumes "resourceAwsIamRoleUpdate ev conn d tr = (res, tr')"
  shows "sends (\<lambda>c. isRead c \<or> (\<exists>k. mutated c = Some k \<and> changed d k)) tr tr'
    \<and> (\<forall>k. \<not> changed d k \<longrightarrow> list_all (\<lambda>c. mutated c \<noteq> Some k) (issued tr tr'))"
proof -
  have r: "\<And>c. isRead c \<Longrightarrow> mutated c = None"
    by (auto simp: isRead_def mutated_def split: call.splits)
  from resourceAwsIamRoleUpdate_sends [OF assms]
  have s: "sends (\<lambda>c. isRead c \<or> (\<exists>k. mutated c = Some k \<and> changed d k)) tr tr'"
    by (rule sends_mono) blast
  have "\<forall>k. \<not> changed d k \<longrightarrow> list_all (\<lambda>c. mutated c \<noteq> Some k) (issued tr tr')"
  proof (intro allI impI)
    fix k assume "\<not> changed d k"
    with s have "sends (\<lambda>c. mutated c \<noteq> Some k) tr tr'"
      by (elim sends_mono) (use r in auto)
    then show "list_all (\<lambda>c. mutated c \<noteq> Some k) (issued tr tr')" by (simp add: sends_def)
  qed
  with s show ?thesis by (intro conjI)
qed

lemma changed_run:
  "snd (resourceAwsIamRoleUpdate example_env example_conn changed_data [])
     = [UpdateRoleDescription ''r'' ''new'',
        DeleteRolePolicy (Some ''p1'') ''r'',
        PutRolePolicy \<lparr>PolicyDocument = Some ''{}'', PolicyName = Some ''p3'', pr_RoleName = Some ''r''\<rparr>,
        DetachRolePolicy (Some ''arn:a'') ''r'', AttachRolePolicy ''r'' ''arn:c'',
        GetRole ''r'', ListRolePoliciesPages ''r'', ListAttachedRolePoliciesPages ''r'']"
  by code_simp

theorem Update_requests_only_for_changed_attributes_witness:
  "snd (resourceAwsIamRoleUpdate example_env example_conn changed_data [])
     = [UpdateRoleDescription ''r'' ''new'',
        DeleteRolePolicy (Some ''p1'') ''r'',
        PutRolePolicy \<lparr>PolicyDocument = Some ''{}'', PolicyName = Some ''p3'', pr_RoleName = Some ''r''\<rparr>,
        DetachRolePolicy (Some ''arn:a'') ''r'', AttachRolePolicy ''r'' ''arn:c'',
        GetRole ''r'', ListRolePoliciesPages ''r'', ListAttachedRolePoliciesPages ''r'']
   \<and> \<not> changed changed_data A_tags
   \<and> list_all (\<lambda>c. mutated c \<noteq> Some A_tags)
        (issued [] (snd (resourceAwsIamRoleUpdate example_env example_conn changed_data [])))"
proof -
  have t: "\<not> changed changed_data A_tags"
    by (simp add: changed_def HasChangeMap_def changed_data_def example_attrs_def)
  from Update_requests_only_for_changed_attributes [OF surjective_pairing] t
  have "list_all (\<lambda>c. mutated c \<noteq> Some A_tags)
        (issued [] (snd (resourceAwsIamRoleUpdate example_env example_conn changed_data [])))"
    by blast
  with changed_run t show ?thesis by (intro conjI)
qed

text \<open>
  C8. The requests of \<^verbatim>\<open>resourceAwsIamRoleUpdate\<close> are reads and changes to the
  seven attributes it reconciles, none of which is the name; \<^verbatim>\<open>CreateRole\<close>, the
  request that gives a role its name, is never among them. In the schema the entry
  \<^verbatim>\<open>name\<close> is marked \<^verbatim>\<open>ForceNew\<close>.
\<close>

theorem Update_never_renames_and_name_is_ForceNew:
  "(resourceAwsIamRoleUpdate ev conn d tr = (res, tr') \<longrightarrow>
      sends (\<lambda>c. isRead c \<or> (\<exists>k. mutated c = Some k)) tr tr'
      \<and> list_all (\<lambda>c. \<forall>request. c \<noteq> CreateRole request) (issued tr tr'))
   \<and> map_option ForceNew (map_of resourceAwsIamRole_Schema ''name'') = Some True"
proof (intro conjI impI)
  assume a: "resourceAwsIamRoleUpdate ev conn d tr = (res, tr')"
  from resourceAwsIamRoleUpdate_sends [OF a]
  show s: "sends (\<lambda>c. isRead c \<or> (\<exists>k. mutated c = Some k)) tr tr'"
    by (rule sends_mono) blast
  have "sends (\<lambda>c. \<forall>request. c \<noteq> CreateRole request) tr tr'"
    by (rule sends_mono [OF s]) (auto simp: isRead_def mutated_def)
  then show "list_all (\<lambda>c. \<forall>request. c \<noteq> CreateRole request) (issued tr tr')"
    by (simp add: sends_def)
next
  show "map_option ForceNew (map_of resourceAwsIamRole_Schema ''name'') = Some True"
    by (simp add: resourceAwsIamRole_Schema_def)
qed

theorem Update_never_renames_and_name_is_ForceNew_witness:
  "sends (\<lambda>c. isRead c \<or> (\<exists>k. mutated c = Some k)) []
     (snd (resourceAwsIamRoleUpdate example_env example_conn changed_data []))
   \<and> list_all (\<lambda>c. \<forall>request. c \<noteq> CreateRole request)
       (issued [] (snd (resourceAwsIamRoleUpdate example_env example_conn changed_data [])))
   \<and> map_option ForceNew (map_of resourceAwsIamRole_Schema ''name'') = Some True"
  using Update_never_renames_and_name_is_ForceNew
          [of example_env example_conn changed_data "[]"
              "fst (resourceAwsIamRoleUpdate example_env example_conn changed_data [])"
              "snd (resourceAwsIamRoleUpdate example_env example_conn changed_data [])"]
  by simp

lemma deleteAwsIamRolePolicies_ok:
  "(\<forall>t p r. iam_DeleteRolePolicy conn t p r = None) \<Longrightarrow>
   deleteAwsIamRolePolicies conn r ps tr = (None, tr @ map (\<lambda>p. DeleteRolePolicy p r) ps)"
  by (induction ps arbitrary: tr) simp_all

lemma deleteAwsIamRolePolicyAttachments_ok:
  "(\<forall>t p r. iam_DetachRolePolicy conn t p r = None) \<Longrightarrow>
   deleteAwsIamRolePolicyAttachments conn r ps tr = (None, tr @ map (\<lambda>p. DetachRolePolicy p r) ps)"
  by (induction ps arbitrary: tr) simp_all

lemma putFailures_ok: "(\<forall>t p. iam_PutRolePolicy conn t p = None) \<Longrightarrow> putFailures conn ps tr = []"
  by (induction ps arbitrary: tr) simp_all

lemma attachFailures_ok:
  "(\<forall>t r p. iam_AttachRolePolicy conn t r p = None) \<Longrightarrow> attachFailures conn r ps tr = []"
  by (induction ps arbitrary: tr) simp_all

lemma updateInlinePolicies_ok:
  assumes "answersAll conn"
  shows "updateInlinePolicies ev conn d tr = (None, tr @ inlineRequests ev d)"
proof -
  from assms have d: "\<forall>t p r. iam_DeleteRolePolicy conn t p r = None"
    unfolding answersAll_def by (elim conjE)
  from assms have p: "\<forall>t p. iam_PutRolePolicy conn t p = None"
    unfolding answersAll_def by (elim conjE)
  show ?thesis
    by (simp add: updateInlinePolicies_def Let_def deleteAwsIamRolePolicies_ok [OF d]
          resourceAwsIamRoleCreateInlinePolicies_def createInlinePoliciesLoop_eq putFailures_ok [OF p]
          ErrorOrNil_def expandIamInlinePolicies_map inlineRequests_def comp_def)
qed

lemma updateManagedPolicies_ok:
  assumes "answersAll conn"
  shows "updateManagedPolicies ev conn d tr = (None, tr @ managedRequests ev d)"
proof -
  from assms have d: "\<forall>t p r. iam_DetachRolePolicy conn t p r = None"
    unfolding answersAll_def by (elim conjE)
  from assms have p: "\<forall>t r p. iam_AttachRolePolicy conn t r p = None"
    unfolding answersAll_def by (elim conjE)
  show ?thesis
    by (simp add: updateManagedPolicies_def Let_def deleteAwsIamRolePolicyAttachments_ok [OF d]
          resourceAwsIamRoleAttachManagedPolicies_def attachManagedPoliciesLoop_eq attachFailures_ok [OF p]
          ErrorOrNil_def managedRequests_def)
qed

lemma step_ok:
  assumes "answersAll conn"
  shows "fst (updateAssumeRolePolicy conn d tr) = None"
    and "fst (updateRoleDescription conn d tr) = None"
    and "fst (updateMaxSessionDuration conn d tr) = None"
    and "fst (updatePermissionsBoundary conn d tr) = None"
    and "fst (updateTags conn d tr) = None"
proof -
  from assms have 1: "\<forall>t r p. iam_UpdateAssumeRolePolicy conn t r p = None"
    unfolding answersAll_def by (elim conjE)
  from assms have 2: "\<forall>t r p. iam_UpdateRoleDescription conn t r p = None"
    unfolding answersAll_def by (elim conjE)
  from assms have 3: "\<forall>t r p. iam_UpdateRole conn t r p = None"
    unfolding answersAll_def by (elim conjE)
  from assms have 4: "\<forall>t p r. iam_PutRolePermissionsBoundary conn t p r = None"
    unfolding answersAll_def by (elim conjE)
  from assms have 5: "\<forall>t r. iam_DeleteRolePermissionsBoundary conn t r = None"
    unfolding answersAll_def by (elim conjE)
  from assms have 6: "\<forall>t r o1 n1. iam_IamRoleUpdateTags conn t r o1 n1 = None"
    unfolding answersAll_def by (elim conjE)
  show "fst (updateAssumeRolePolicy conn d tr) = None"
    by (simp add: updateAssumeRolePolicy_def Let_def 1)
  show "fst (updateRoleDescription conn d tr) = None"
    by (simp add: updateRoleDescription_def Let_def 2)
  show "fst (updateMaxSessionDuration conn d tr) = None"
    by (simp add: updateMaxSessionDuration_def Let_def 3)
  show "fst (updatePermissionsBoundary conn d tr) = None"
    by (simp add: updatePermissionsBoundary_def Let_def 4 5)
  show "fst (updateTags conn d tr) = None"
    by (simp add: updateTags_def Let_def 6)
qed

lemma andThen_None: "fst (s tr) = None \<Longrightarrow> andThen s k tr = k (snd (s tr))"
  by (cases "s tr") (simp add: andThen_def)

lemma sends_filter_empty:
  "sends Q tr tr' \<Longrightarrow> (\<And>c. Q c \<Longrightarrow> \<not> P c) \<Longrightarrow> \<exists>suf. tr' = tr @ suf \<and> filter P suf = []"
  unfolding sends_iff by (auto simp: list_all_iff filter_empty_conv)

text \<open>
  When no request fails, the requests of an Update that change the attribute \<open>k\<close> are
  those of the block of \<open>k\<close>.
\<close>

lemma resourceAwsIamRoleUpdate_ok:
  assumes ok: "answersAll conn" and run: "resourceAwsIamRoleUpdate ev conn d tr = (res, tr')"
  shows "filter (\<lambda>c. mutated c = Some A_inline_policy) (issued tr tr') = inlineRequests ev d"
    and "filter (\<lambda>c. mutated c = Some A_managed_policy_arns) (issued tr tr') = managedRequests ev d"
proof -
  let ?I = "\<lambda>c. mutated c = Some A_inline_policy"
  let ?M = "\<lambda>c. mutated c = Some A_managed_policy_arns"
  define t1 where "t1 = snd (updateAssumeRolePolicy conn d tr)"
  define t2 where "t2 = snd (updateRoleDescription conn d t1)"
  define t3 where "t3 = snd (updateMaxSessionDuration conn d t2)"
  define t4 where "t4 = snd (updatePermissionsBoundary conn d t3)"
  define t5 where "t5 = snd (updateTags conn d t4)"
  define t6 where "t6 = t5 @ inlineRequests ev d"
  define t7 where "t7 = t6 @ managedRequests ev d"
  have e1: "updateAssumeRolePolicy conn d tr = (None, t1)"
    using step_ok(1) [OF ok, of d tr] by (simp add: t1_def prod_eq_iff)
  have e2: "updateRoleDescription conn d t1 = (None, t2)"
    using step_ok(2) [OF ok, of d t1] by (simp add: t2_def prod_eq_iff)
  have e3: "updateMaxSessionDuration conn d t2 = (None, t3)"
    using step_ok(3) [OF ok, of d t2] by (simp add: t3_def prod_eq_iff)
  have e4: "updatePermissionsBoundary conn d t3 = (None, t4)"
    using step_ok(4) [OF ok, of d t3] by (simp add: t4_def prod_eq_iff)
  have e5: "updateTags conn d t4 = (None, t5)"
    using step_ok(5) [OF ok, of d t4] by (simp add: t5_def prod_eq_iff)
  have e6: "updateInlinePolicies ev conn d t5 = (None, t6)"
    unfolding t6_def by (rule updateInlinePolicies_ok [OF ok])
  have e7: "updateManagedPolicies ev conn d t6 = (None, t7)"
    unfolding t7_def by (rule updateManagedPolicies_ok [OF ok])
  from run have rd: "resourceAwsIamRoleRead ev conn d t7 = (res, tr')"
    by (simp add: resourceAwsIamRoleUpdate_def andThen_def e1 e2 e3 e4 e5 e6 e7)
  from sends_filter_empty [OF updateAssumeRolePolicy_sends [OF e1], of ?I]
       sends_filter_empty [OF updateAssumeRolePolicy_sends [OF e1], of ?M]
  obtain u1 where u1: "t1 = tr @ u1" "filter ?I u1 = []" "filter ?M u1 = []" by auto
  from sends_filter_empty [OF updateRoleDescription_sends [OF e2], of ?I]
       sends_filter_empty [OF updateRoleDescription_sends [OF e2], of ?M]
  obtain u2 where u2: "t2 = t1 @ u2" "filter ?I u2 = []" "filter ?M u2 = []" by auto
  from sends_filter_empty [OF updateMaxSessionDuration_sends [OF e3], of ?I]
       sends_filter_empty [OF updateMaxSessionDuration_sends [OF e3], of ?M]
  obtain u3 where u3: "t3 = t2 @ u3" "filter ?I u3 = []" "filter ?M u3 = []" by auto
  from sends_filter_empty [OF updatePermissionsBoundary_sends [OF e4], of ?I]
       sends_filter_empty [OF updatePermissionsBoundary_sends [OF e4], of ?M]
  obtain u4 where u4: "t4 = t3 @ u4" "filter ?I u4 = []" "filter ?M u4 = []" by auto
  from sends_filter_empty [OF updateTags_sends [OF e5], of ?I]
       sends_filter_empty [OF updateTags_sends [OF e5], of ?M]
  obtain u5 where u5: "t5 = t4 @ u5" "filter ?I u5 = []" "filter ?M u5 = []" by auto
  have rm: "\<And>c. isRead c \<Longrightarrow> mutated c = None"
    by (auto simp: isRead_def mutated_def split: call.splits)
  from sends_filter_empty [OF resourceAwsIamRoleRead_sends [OF rd], of ?I]
       sends_filter_empty [OF resourceAwsIamRoleRead_sends [OF rd], of ?M]
  obtain u8 where u8: "tr' = t7 @ u8" "filter ?I u8 = []" "filter ?M u8 = []"
    using rm by auto
  have i6: "filter ?I (inlineRequests ev d) = inlineRequests ev d"
    "filter ?M (inlineRequests ev d) = []"
    by (auto simp: inlineRequests_def mutated_def filter_empty_conv)
  have i7: "filter ?M (managedRequests ev d) = managedRequests ev d"
    "filter ?I (managedRequests ev d) = []"
    by (auto simp: managedRequests_def mutated_def filter_empty_conv)
  have "issued tr tr' = u1 @ u2 @ u3 @ u4 @ u5 @ inlineRequests ev d @ managedRequests ev d @ u8"
    unfolding u8(1) t7_def t6_def u5(1) u4(1) u3(1) u2(1) u1(1) by (simp add: issued_def)
  then show "filter ?I (issued tr tr') = inlineRequests ev d"
    and "filter ?M (issued tr tr') = managedRequests ev d"
    using u1 u2 u3 u4 u5 u8 i6 i7 by simp_all
qed


text \<open>
  C3, as the code has it. In every run of \<^verbatim>\<open>resourceAwsIamRoleUpdate\<close>, with the old
  set \<open>O\<close> and the new set \<open>N\<close> of \<^verbatim>\<open>inline_policy\<close> or of
  \<^verbatim>\<open>managed_policy_arns\<close>: a request that removes a policy is sent only for an element
  of \<open>O - N\<close>, a request that adds one only for an element of \<open>N - O\<close>. An inline
  policy is removed by its name, so for an element of both sets no removal is sent unless
  an element of \<open>O - N\<close> bears its name, and no addition unless an element of \<open>N - O\<close>
  gives the same request. When the service answers every request that changes the role
  without error, the removals are exactly those for \<open>O - N\<close>, in the order of the old
  list, followed by the additions, exactly those for \<open>N - O\<close>. The managed policy ARNs
  pass through the helper \<^verbatim>\<open>expandStringList\<close>, which is not part of the source file:
  the statements about them hold when it returns pointers to elements of its argument
  (and to all of them, for the exact sets).
\<close>

theorem Update_adds_and_removes_by_set_difference:
  assumes "resourceAwsIamRoleUpdate ev conn d tr = (res, tr')"
  shows "(\<forall>p r. DeleteRolePolicy p r \<in> set (issued tr tr') \<longrightarrow>
            r = name (config d)
            \<and> (\<exists>m \<in> set (inline_policy (state d)) - set (inline_policy (config d)).
                  p = Some (tf_name m)))
    \<and> (\<forall>q. PutRolePolicy q \<in> set (issued tr tr') \<longrightarrow>
          (\<exists>m \<in> set (inline_policy (config d)) - set (inline_policy (state d)).
              q = expandIamInlinePolicy ev (name (config d)) m))
    \<and> (\<forall>m \<in> set (inline_policy (state d)) \<inter> set (inline_policy (config d)).
          (\<forall>m' \<in> set (inline_policy (state d)) - set (inline_policy (config d)).
              tf_name m' \<noteq> tf_name m)
          \<longrightarrow> (\<forall>r. DeleteRolePolicy (Some (tf_name m)) r \<notin> set (issued tr tr')))
    \<and> (\<forall>m \<in> set (inline_policy (state d)) \<inter> set (inline_policy (config d)).
          (\<forall>m' \<in> set (inline_policy (config d)) - set (inline_policy (state d)).
              expandIamInlinePolicy ev (name (config d)) m'
                \<noteq> expandIamInlinePolicy ev (name (config d)) m)
          \<longrightarrow> PutRolePolicy (expandIamInlinePolicy ev (name (config d)) m)
                \<notin> set (issued tr tr'))
    \<and> ((\<forall>xs. set (expandStringList ev xs) \<subseteq> Some ` set xs) \<longrightarrow>
          (\<forall>p r. DetachRolePolicy p r \<in> set (issued tr tr') \<longrightarrow>
              r = name (config d)
              \<and> p \<in> Some ` (set (managed_policy_arns (state d)) - set (managed_policy_arns (config d))))
          \<and> (\<forall>r a. AttachRolePolicy r a \<in> set (issued tr tr') \<longrightarrow>
              r = name (config d)
              \<and> a \<in> set (managed_policy_arns (config d)) - set (managed_policy_arns (state d)))
          \<and> (\<forall>a \<in> set (managed_policy_arns (state d)) \<inter> set (managed_policy_arns (config d)).
                \<forall>r. DetachRolePolicy (Some a) r \<notin> set (issued tr tr')
                    \<and> AttachRolePolicy r a \<notin> set (issued tr tr')))
    \<and> (answersAll conn \<longrightarrow>
          filter (\<lambda>c. mutated c = Some A_inline_policy) (issued tr tr')
            = map (\<lambda>m. DeleteRolePolicy (Some (tf_name m)) (name (config d)))
                (filter (\<lambda>m. m \<notin> set (inline_policy (config d))) (inline_policy (state d)))
              @ map (\<lambda>m. PutRolePolicy (expandIamInlinePolicy ev (name (config d)) m))
                  (filter (\<lambda>m. m \<notin> set (inline_policy (state d))) (inline_policy (config d)))
          \<and> {p. \<exists>r. DeleteRolePolicy p r \<in> set (issued tr tr')}
            = (\<lambda>m. Some (tf_name m))
                ` (set (inline_policy (state d)) - set (inline_policy (config d)))
          \<and> {q. PutRolePolicy q \<in> set (issued tr tr')}
            = expandIamInlinePolicy ev (name (config d))
                ` (set (inline_policy (config d)) - set (inline_policy (state d)))
          \<and> ((\<forall>xs. set (expandStringList ev xs) = Some ` set xs) \<longrightarrow>
                {p. \<exists>r. DetachRolePolicy p r \<in> set (issued tr tr')}
                  = Some ` (set (managed_policy_arns (state d)) - set (managed_policy_arns (config d)))
                \<and> {a. \<exists>r. AttachRolePolicy r a \<in> set (issued tr tr')}
                  = set (managed_policy_arns (config d)) - set (managed_policy_arns (state d))))"
proof -
  let ?n = "name (config d)"
  let ?O = "inline_policy (state d)" and ?N = "inline_policy (config d)"
  let ?O' = "managed_policy_arns (state d)" and ?N' = "managed_policy_arns (config d)"
  let ?ex = "expandIamInlinePolicy ev ?n"
  let ?is = "issued tr tr'"
  from resourceAwsIamRoleUpdate_sends [OF assms] have s: "sends (reconciles ev d) tr tr'"
  proof (rule sends_mono)
    fix c assume "isRead c \<or> (\<exists>k. mutated c = Some k \<and> changed d k \<and> reconciles ev d c)"
    then show "reconciles ev d c"
      by (auto simp: isRead_def reconciles_def split: call.splits)
  qed
  have r: "\<And>c. c \<in> set ?is \<Longrightarrow> reconciles ev d c"
    using s by (rule sends_issued)
  have 1: "\<forall>p r. DeleteRolePolicy p r \<in> set ?is \<longrightarrow>
            r = ?n \<and> (\<exists>m \<in> set ?O - set ?N. p = Some (tf_name m))"
  proof (intro allI impI)
    fix p r' assume "DeleteRolePolicy p r' \<in> set ?is"
    from r [OF this] show "r' = ?n \<and> (\<exists>m \<in> set ?O - set ?N. p = Some (tf_name m))"
      by (simp add: reconciles_def)
  qed
  have 2: "\<forall>q. PutRolePolicy q \<in> set ?is \<longrightarrow> (\<exists>m \<in> set ?N - set ?O. q = ?ex m)"
  proof (intro allI impI)
    fix q assume "PutRolePolicy q \<in> set ?is"
    from r [OF this] show "\<exists>m \<in> set ?N - set ?O. q = ?ex m"
      by (simp add: reconciles_def)
  qed
  have 3: "\<forall>m \<in> set ?O \<inter> set ?N.
          (\<forall>m' \<in> set ?O - set ?N. tf_name m' \<noteq> tf_name m)
          \<longrightarrow> (\<forall>r. DeleteRolePolicy (Some (tf_name m)) r \<notin> set ?is)"
  proof (intro ballI impI allI notI)
    fix m r'
    assume h: "\<forall>m' \<in> set ?O - set ?N. tf_name m' \<noteq> tf_name m"
      and "DeleteRolePolicy (Some (tf_name m)) r' \<in> set ?is"
    with 1 obtain m' where "m' \<in> set ?O - set ?N" "Some (tf_name m) = Some (tf_name m')" by blast
    with h show False by auto
  qed
  have 4: "\<forall>m \<in> set ?O \<inter> set ?N.
          (\<forall>m' \<in> set ?N - set ?O. ?ex m' \<noteq> ?ex m)
          \<longrightarrow> PutRolePolicy (?ex m) \<notin> set ?is"
  proof (intro ballI impI notI)
    fix m
    assume h: "\<forall>m' \<in> set ?N - set ?O. ?ex m' \<noteq> ?ex m"
      and "PutRolePolicy (?ex m) \<in> set ?is"
    with 2 obtain m' where "m' \<in> set ?N - set ?O" "?ex m = ?ex m'" by blast
    with h show False by auto
  qed
  have 5: "(\<forall>xs. set (expandStringList ev xs) \<subseteq> Some ` set xs) \<longrightarrow>
          (\<forall>p r. DetachRolePolicy p r \<in> set ?is \<longrightarrow>
              r = ?n \<and> p \<in> Some ` (set ?O' - set ?N'))
          \<and> (\<forall>r a. AttachRolePolicy r a \<in> set ?is \<longrightarrow>
              r = ?n \<and> a \<in> set ?N' - set ?O')
          \<and> (\<forall>a \<in> set ?O' \<inter> set ?N'.
                \<forall>r. DetachRolePolicy (Some a) r \<notin> set ?is \<and> AttachRolePolicy r a \<notin> set ?is)"
  proof
    assume h: "\<forall>xs. set (expandStringList ev xs) \<subseteq> Some ` set xs"
    have a: "\<forall>p r. DetachRolePolicy p r \<in> set ?is \<longrightarrow>
              r = ?n \<and> p \<in> Some ` (set ?O' - set ?N')"
    proof (intro allI impI)
      fix p r' assume "DetachRolePolicy p r' \<in> set ?is"
      from r [OF this] have n: "r' = ?n"
        and "p \<in> set (expandStringList ev (Difference ?O' ?N'))"
        by (simp_all add: reconciles_def)
      with h have "p \<in> Some ` set (Difference ?O' ?N')" by blast
      with n show "r' = ?n \<and> p \<in> Some ` (set ?O' - set ?N')" by simp
    qed
    have b: "\<forall>r a. AttachRolePolicy r a \<in> set ?is \<longrightarrow>
              r = ?n \<and> a \<in> set ?N' - set ?O'"
    proof (intro allI impI)
      fix r' a assume "AttachRolePolicy r' a \<in> set ?is"
      from r [OF this] obtain p where n: "r' = ?n"
        and p: "p \<in> set (expandStringList ev (Difference ?N' ?O'))" "a = StringValue p"
        by (auto simp: reconciles_def)
      with h have "p \<in> Some ` set (Difference ?N' ?O')" by blast
      with p(2) n show "r' = ?n \<and> a \<in> set ?N' - set ?O'"
        by (auto simp: StringValue_def)
    qed
    have c: "\<forall>a \<in> set ?O' \<inter> set ?N'.
                \<forall>r. DetachRolePolicy (Some a) r \<notin> set ?is \<and> AttachRolePolicy r a \<notin> set ?is"
      using a b by blast
    from a b c show "(\<forall>p r. DetachRolePolicy p r \<in> set ?is \<longrightarrow>
              r = ?n \<and> p \<in> Some ` (set ?O' - set ?N'))
          \<and> (\<forall>r a. AttachRolePolicy r a \<in> set ?is \<longrightarrow>
              r = ?n \<and> a \<in> set ?N' - set ?O')
          \<and> (\<forall>a \<in> set ?O' \<inter> set ?N'.
                \<forall>r. DetachRolePolicy (Some a) r \<notin> set ?is \<and> AttachRolePolicy r a \<notin> set ?is)"
      by (intro conjI)
  qed
  have 6: "answersAll conn \<longrightarrow>
          filter (\<lambda>c. mutated c = Some A_inline_policy) ?is
            = map (\<lambda>m. DeleteRolePolicy (Some (tf_name m)) ?n) (filter (\<lambda>m. m \<notin> set ?N) ?O)
              @ map (\<lambda>m. PutRolePolicy (?ex m)) (filter (\<lambda>m. m \<notin> set ?O) ?N)
          \<and> {p. \<exists>r. DeleteRolePolicy p r \<in> set ?is} = (\<lambda>m. Some (tf_name m)) ` (set ?O - set ?N)
          \<and> {q. PutRolePolicy q \<in> set ?is} = ?ex ` (set ?N - set ?O)
          \<and> ((\<forall>xs. set (expandStringList ev xs) = Some ` set xs) \<longrightarrow>
                {p. \<exists>r. DetachRolePolicy p r \<in> set ?is} = Some ` (set ?O' - set ?N')
                \<and> {a. \<exists>r. AttachRolePolicy r a \<in> set ?is} = set ?N' - set ?O')"
  proof
    assume ok: "answersAll conn"
    let ?I = "\<lambda>c. mutated c = Some A_inline_policy"
    let ?M = "\<lambda>c. mutated c = Some A_managed_policy_arns"
    let ?il = "map (\<lambda>m. DeleteRolePolicy (Some (tf_name m)) ?n) (filter (\<lambda>m. m \<notin> set ?N) ?O)
              @ map (\<lambda>m. PutRolePolicy (?ex m)) (filter (\<lambda>m. m \<notin> set ?O) ?N)"
    let ?ml = "map (\<lambda>p. DetachRolePolicy p ?n) (expandStringList ev (Difference ?O' ?N'))
              @ map (\<lambda>p. AttachRolePolicy ?n (StringValue p)) (expandStringList ev (Difference ?N' ?O'))"
    from resourceAwsIamRoleUpdate_ok [OF ok assms]
    have fi: "filter ?I ?is = inlineRequests ev d" and fm: "filter ?M ?is = managedRequests ev d"
      by simp_all
    have il: "inlineRequests ev d = ?il"
    proof (cases "HasChangeSet inline_policy d")
      case True
      then show ?thesis by (simp add: inlineRequests_def Difference_def)
    next
      case False
      then have e: "set ?O = set ?N" by (simp add: HasChangeSet_def)
      have "filter (\<lambda>m. m \<notin> set ?N) ?O = []" unfolding e [symmetric] by (simp add: filter_empty_conv)
      moreover have "filter (\<lambda>m. m \<notin> set ?O) ?N = []" unfolding e by (simp add: filter_empty_conv)
      ultimately show ?thesis using False by (simp add: inlineRequests_def)
    qed
    have a: "filter ?I ?is = ?il" unfolding fi il ..
    have mI: "\<And>p r. ?I (DeleteRolePolicy p r)" "\<And>q. ?I (PutRolePolicy q)"
      by (simp_all add: mutated_def)
    have mM: "\<And>p r. ?M (DetachRolePolicy p r)" "\<And>r a. ?M (AttachRolePolicy r a)"
      by (simp_all add: mutated_def)
    have inI: "\<And>c. ?I c \<Longrightarrow> c \<in> set ?is \<longleftrightarrow> c \<in> set ?il"
    proof -
      fix c assume "?I c"
      then have "c \<in> set ?is \<longleftrightarrow> c \<in> set (filter ?I ?is)" by simp
      then show "c \<in> set ?is \<longleftrightarrow> c \<in> set ?il" unfolding a .
    qed
    have b: "{p. \<exists>r. DeleteRolePolicy p r \<in> set ?is} = (\<lambda>m. Some (tf_name m)) ` (set ?O - set ?N)"
      unfolding inI [OF mI(1)] by auto
    have c: "{q. PutRolePolicy q \<in> set ?is} = ?ex ` (set ?N - set ?O)"
      unfolding inI [OF mI(2)] by auto
    have ml: "set (managedRequests ev d) = set ?ml"
      if h: "\<forall>xs. set (expandStringList ev xs) = Some ` set xs"
    proof (cases "HasChangeSet managed_policy_arns d")
      case True
      then show ?thesis by (simp add: managedRequests_def)
    next
      case False
      then have e: "set ?O' = set ?N'" by (simp add: HasChangeSet_def)
      have "set (expandStringList ev (Difference ?O' ?N')) = {}"
        "set (expandStringList ev (Difference ?N' ?O')) = {}" using h e by simp_all
      with False show ?thesis by (simp add: managedRequests_def)
    qed
    have dd: "(\<forall>xs. set (expandStringList ev xs) = Some ` set xs) \<longrightarrow>
                {p. \<exists>r. DetachRolePolicy p r \<in> set ?is} = Some ` (set ?O' - set ?N')
                \<and> {a. \<exists>r. AttachRolePolicy r a \<in> set ?is} = set ?N' - set ?O'"
    proof
      assume h: "\<forall>xs. set (expandStringList ev xs) = Some ` set xs"
      have inM: "\<And>c. ?M c \<Longrightarrow> c \<in> set ?is \<longleftrightarrow> c \<in> set ?ml"
      proof -
        fix c assume "?M c"
        then have "c \<in> set ?is \<longleftrightarrow> c \<in> set (filter ?M ?is)" by simp
        then show "c \<in> set ?is \<longleftrightarrow> c \<in> set ?ml" unfolding fm ml [OF h] .
      qed
      have hD: "set (expandStringList ev (Difference ?O' ?N')) = Some ` (set ?O' - set ?N')"
        and hA: "set (expandStringList ev (Difference ?N' ?O')) = Some ` (set ?N' - set ?O')"
        using h by simp_all
      have x: "{p. \<exists>r. DetachRolePolicy p r \<in> set ?is} = Some ` (set ?O' - set ?N')"
        unfolding inM [OF mM(1)] using hD by auto
      have y: "{a. \<exists>r. AttachRolePolicy r a \<in> set ?is} = set ?N' - set ?O'"
        unfolding inM [OF mM(2)] using hA by (force simp: StringValue_def image_iff)
      from x y show "{p. \<exists>r. DetachRolePolicy p r \<in> set ?is} = Some ` (set ?O' - set ?N')
                \<and> {a. \<exists>r. AttachRolePolicy r a \<in> set ?is} = set ?N' - set ?O'" ..
    qed
    from a b c dd show "filter ?I ?is = ?il
          \<and> {p. \<exists>r. DeleteRolePolicy p r \<in> set ?is} = (\<lambda>m. Some (tf_name m)) ` (set ?O - set ?N)
          \<and> {q. PutRolePolicy q \<in> set ?is} = ?ex ` (set ?N - set ?O)
          \<and> ((\<forall>xs. set (expandStringList ev xs) = Some ` set xs) \<longrightarrow>
                {p. \<exists>r. DetachRolePolicy p r \<in> set ?is} = Some ` (set ?O' - set ?N')
                \<and> {a. \<exists>r. AttachRolePolicy r a \<in> set ?is} = set ?N' - set ?O')"
      by (intro conjI)
  qed
  from 1 2 3 4 5 6 show ?thesis by (intro conjI)
qed

lemma answersAll_example: "answersAll example_conn"
  by (simp add: answersAll_def example_conn_def)

lemma expandStringList_example: "\<forall>xs. set (expandStringList example_env xs) = Some ` set xs"
  by (simp add: example_env_def)

lemma changed_requests:
  "map (\<lambda>m. DeleteRolePolicy (Some (tf_name m)) (name (config changed_data)))
     (filter (\<lambda>m. m \<notin> set (inline_policy (config changed_data))) (inline_policy (state changed_data)))
   @ map (\<lambda>m. PutRolePolicy (expandIamInlinePolicy example_env (name (config changed_data)) m))
       (filter (\<lambda>m. m \<notin> set (inline_policy (state changed_data))) (inline_policy (config changed_data)))
   = [DeleteRolePolicy (Some ''p1'') ''r'',
      PutRolePolicy \<lparr>PolicyDocument = Some ''{}'', PolicyName = Some ''p3'', pr_RoleName = Some ''r''\<rparr>]"
  by code_simp

lemma changed_arns:
  "Some ` (set (managed_policy_arns (state changed_data)) - set (managed_policy_arns (config changed_data)))
     = {Some ''arn:a''}"
  "set (managed_policy_arns (config changed_data)) - set (managed_policy_arns (state changed_data))
     = {''arn:c''}"
  by (auto simp: changed_data_def example_attrs_def)

lemma changed_kept:
  "example_inline ''p2''
     \<in> set (inline_policy (state changed_data)) \<inter> set (inline_policy (config changed_data))"
  "\<forall>m' \<in> set (inline_policy (state changed_data)) - set (inline_policy (config changed_data)).
      tf_name m' \<noteq> tf_name (example_inline ''p2'')"
  "''arn:b'' \<in> set (managed_policy_arns (state changed_data))
                \<inter> set (managed_policy_arns (config changed_data))"
  "\<forall>xs. set (expandStringList example_env xs) \<subseteq> Some ` set xs"
  by (auto simp: changed_data_def example_attrs_def example_inline_def example_env_def)

theorem Update_adds_and_removes_by_set_difference_witness:
  "answersAll example_conn
   \<and> (\<forall>xs. set (expandStringList example_env xs) = Some ` set xs)
   \<and> filter (\<lambda>c. mutated c = Some A_inline_policy)
       (issued [] (snd (resourceAwsIamRoleUpdate example_env example_conn changed_data [])))
     = [DeleteRolePolicy (Some ''p1'') ''r'',
        PutRolePolicy \<lparr>PolicyDocument = Some ''{}'', PolicyName = Some ''p3'', pr_RoleName = Some ''r''\<rparr>]
   \<and> {p. \<exists>r. DetachRolePolicy p r
              \<in> set (issued [] (snd (resourceAwsIamRoleUpdate example_env example_conn changed_data [])))}
     = {Some ''arn:a''}
   \<and> {a. \<exists>r. AttachRolePolicy r a
              \<in> set (issued [] (snd (resourceAwsIamRoleUpdate example_env example_conn changed_data [])))}
     = {''arn:c''}
   \<and> (\<forall>r. DeleteRolePolicy (Some ''p2'') r
          \<notin> set (issued [] (snd (resourceAwsIamRoleUpdate example_env example_conn changed_data []))))
   \<and> (\<forall>r. DetachRolePolicy (Some ''arn:b'') r
          \<notin> set (issued [] (snd (resourceAwsIamRoleUpdate example_env example_conn changed_data [])))
        \<and> AttachRolePolicy r ''arn:b''
          \<notin> set (issued [] (snd (resourceAwsIamRoleUpdate example_env example_conn changed_data []))))"
proof -
  note w = Update_adds_and_removes_by_set_difference
             [where ev = example_env and conn = example_conn and d = changed_data and tr = "[]",
              OF surjective_pairing]
  note x = w [THEN conjunct2, THEN conjunct2, THEN conjunct2, THEN conjunct2, THEN conjunct2,
              THEN mp, OF answersAll_example]
  note i = x [THEN conjunct1, unfolded changed_requests]
  note m = x [THEN conjunct2, THEN conjunct2, THEN conjunct2, THEN mp, OF expandStringList_example,
              unfolded changed_arns]
  have n: "tf_name (example_inline ''p2'') = ''p2''" by (simp add: example_inline_def)
  note k = w [THEN conjunct2, THEN conjunct2, THEN conjunct1, THEN bspec, OF changed_kept(1),
              THEN mp, OF changed_kept(2), unfolded n]
  note b = w [THEN conjunct2, THEN conjunct2, THEN conjunct2, THEN conjunct2, THEN conjunct1,
              THEN mp, OF changed_kept(4), THEN conjunct2, THEN conjunct2,
              THEN bspec, OF changed_kept(3)]
  from answersAll_example expandStringList_example i m [THEN conjunct1] m [THEN conjunct2] k b
  show ?thesis by (intro conjI)
qed

text \<open>
  C3 as stated fails. In the first run the request that detaches the managed policy
  \<open>a\<close> fails: the Update stops with that error, \<open>b\<close> is not detached and \<open>c\<close> is not
  attached. In the second run the first of the two inline policies to remove is already
  gone: the loop of \<^verbatim>\<open>deleteAwsIamRolePolicies\<close> returns at its
  \<^verbatim>\<open>NoSuchEntity\<close>, and the Update ends without error and without a request for the
  second one.
\<close>

theorem Update_set_difference_counterexample:
  "fst (fst (resourceAwsIamRoleUpdate example_env failing_conn aborted_data []))
     = Some (Errorf_w ''unable to detach policies: '' (AwsErr serviceFailure))
   \<and> snd (resourceAwsIamRoleUpdate example_env failing_conn aborted_data [])
     = [DetachRolePolicy (Some ''a'') ''r'']
   \<and> ''b'' \<in> set (managed_policy_arns (state aborted_data))
               - set (managed_policy_arns (config aborted_data))
   \<and> ''c'' \<in> set (managed_policy_arns (config aborted_data))
               - set (managed_policy_arns (state aborted_data))
   \<and> fst (fst (resourceAwsIamRoleUpdate example_env gone_conn stale_data [])) = None
   \<and> snd (resourceAwsIamRoleUpdate example_env gone_conn stale_data [])
     = [DeleteRolePolicy (Some ''b'') ''r'', GetRole ''r'', ListRolePoliciesPages ''r'',
        ListAttachedRolePoliciesPages ''r'']
   \<and> example_inline ''c''
       \<in> set (inline_policy (state stale_data)) - set (inline_policy (config stale_data))"
  by code_simp

section \<open>The retry and the provisioning of the Create operation\<close>

lemma tryCreateRole_cases:
  "tryCreateRole conn request tr =
    (case iam_CreateRole conn tr request of
       Inr role \<Rightarrow> (RetryNil role, tr @ [CreateRole request])
     | Inl a \<Rightarrow>
         if isAWSErr (Some (AwsErr a)) ''MalformedPolicyDocument'' ''Invalid principal in policy''
         then (RetryableError (AwsErr a), tr @ [CreateRole request])
         else (NonRetryableError (AwsErr a), tr @ [CreateRole request]))"
  by (cases "iam_CreateRole conn tr request") (simp_all add: tryCreateRole_def apiOut_def Let_def)

lemma principalAt_shift:
  "principalAt conn request (tr @ [CreateRole request]) i = principalAt conn request tr (Suc i)"
  by (simp add: principalAt_def)

lemma retriedCreate_one:
  "\<not> principalAt conn request tr 0 \<Longrightarrow>
   retriedCreate conn request (Suc n) tr (tr @ [CreateRole request]) 1"
  by (simp add: retriedCreate_def)

lemma retriedCreate_Suc:
  assumes "retriedCreate conn request n (tr @ [CreateRole request]) tr' k"
    "principalAt conn request tr 0"
  shows "retriedCreate conn request (Suc n) tr tr' (Suc k)"
proof -
  from assms(1) have k1: "k \<le> n" unfolding retriedCreate_def by (elim conjE)
  from assms(1) have k2: "tr' = (tr @ [CreateRole request]) @ replicate k (CreateRole request)"
    unfolding retriedCreate_def by (elim conjE)
  from assms(1) have al: "\<forall>i. Suc i < k \<longrightarrow> principalAt conn request tr (Suc i)"
    unfolding retriedCreate_def principalAt_shift by (elim conjE)
  from assms(1) have la: "0 < k \<and> principalAt conn request tr (Suc (k - 1)) \<longrightarrow> k = n"
    unfolding retriedCreate_def principalAt_shift by (elim conjE)
  from assms(1) have po: "0 < n \<longrightarrow> 0 < k"
    unfolding retriedCreate_def by (elim conjE)
  have 1: "Suc k \<le> Suc n" using k1 by simp
  have 2: "tr' = tr @ replicate (Suc k) (CreateRole request)" unfolding k2 by simp
  have 3: "\<forall>i. Suc i < Suc k \<longrightarrow> principalAt conn request tr i"
  proof (intro allI impI)
    fix i assume i: "Suc i < Suc k"
    show "principalAt conn request tr i"
    proof (cases i)
      case 0
      with assms(2) show ?thesis by simp
    next
      case (Suc j)
      with i have "Suc j < k" by simp
      with al have "principalAt conn request tr (Suc j)" by blast
      with Suc show ?thesis by simp
    qed
  qed
  have 4: "0 < Suc k \<and> principalAt conn request tr (Suc k - 1) \<longrightarrow> Suc k = Suc n"
  proof (cases k)
    case 0
    with po have "n = 0" by (cases n) simp_all
    with 0 show ?thesis by simp
  next
    case (Suc j)
    with la show ?thesis by simp
  qed
  have 5: "0 < Suc n \<longrightarrow> 0 < Suc k" by simp
  show ?thesis unfolding retriedCreate_def using 1 2 3 4 5 by (intro conjI)
qed

lemma replicate_pred: "0 < k \<Longrightarrow> (tr @ [c]) @ replicate (k - 1) c = tr @ replicate k c"
  by (cases k) simp_all

text \<open>What the retried request of \<^verbatim>\<open>resourceAwsIamRoleCreate\<close> sends and returns.\<close>

lemma Retry_tryCreateRole:
  "Retry n (tryCreateRole conn request) lastErr tr = (res, tr') \<Longrightarrow>
   \<exists>k. retriedCreate conn request n tr tr' k
     \<and> (0 < k \<longrightarrow> res = apiOut (iam_CreateRole conn (tr @ replicate (k - 1) (CreateRole request)) request))
     \<and> (k = 0 \<longrightarrow> res = Inl (case lastErr of None \<Rightarrow> TimeoutError None | Some e \<Rightarrow> e))"
proof (induction n arbitrary: lastErr tr)
  case 0
  then have t: "tr' = tr" "res = Inl (case lastErr of None \<Rightarrow> TimeoutError None | Some e \<Rightarrow> e)"
    by simp_all
  from t(1) have "retriedCreate conn request 0 tr tr' 0" by (simp add: retriedCreate_def)
  moreover have "0 < (0::nat) \<longrightarrow> res = apiOut (iam_CreateRole conn (tr @ replicate (0 - 1) (CreateRole request)) request)"
    by simp
  moreover from t(2) have "(0::nat) = 0 \<longrightarrow> res = Inl (case lastErr of None \<Rightarrow> TimeoutError None | Some e \<Rightarrow> e)"
    by simp
  ultimately show ?case by (intro exI conjI)
next
  case (Suc n)
  let ?c = "CreateRole request"
  have one: "\<And>r. \<not> principalAt conn request tr 0 \<Longrightarrow> tr' = tr @ [?c] \<Longrightarrow>
      res = apiOut (iam_CreateRole conn tr request) \<Longrightarrow> ?case"
  proof -
    assume np: "\<not> principalAt conn request tr 0" and t: "tr' = tr @ [?c]"
      and r: "res = apiOut (iam_CreateRole conn tr request)"
    from retriedCreate_one [OF np] have "retriedCreate conn request (Suc n) tr tr' 1" unfolding t .
    moreover from r have "0 < (1::nat) \<longrightarrow> res = apiOut (iam_CreateRole conn (tr @ replicate (1 - 1) ?c) request)"
      by simp
    moreover have "(1::nat) = 0 \<longrightarrow> res = Inl (case lastErr of None \<Rightarrow> TimeoutError None | Some e \<Rightarrow> e)"
      by simp
    ultimately show ?case by (intro exI conjI)
  qed
  show ?case
  proof (cases "iam_CreateRole conn tr request")
    case (Inr role)
    then have "tryCreateRole conn request tr = (RetryNil role, tr @ [?c])"
      by (simp add: tryCreateRole_cases)
    with Suc.prems have t: "tr' = tr @ [?c]" "res = Inr role" by simp_all
    from Inr have np: "\<not> principalAt conn request tr 0"
      by (simp add: principalAt_def createErr_def isAWSErr_def)
    from t(2) Inr have "res = apiOut (iam_CreateRole conn tr request)" by (simp add: apiOut_def)
    with np t(1) show ?thesis by (rule one)
  next
    case (Inl a)
    show ?thesis
    proof (cases "isAWSErr (Some (AwsErr a)) ''MalformedPolicyDocument'' ''Invalid principal in policy''")
      case False
      with Inl have "tryCreateRole conn request tr = (NonRetryableError (AwsErr a), tr @ [?c])"
        by (simp add: tryCreateRole_cases)
      with Suc.prems have t: "tr' = tr @ [?c]" "res = Inl (AwsErr a)" by simp_all
      from Inl False have np: "\<not> principalAt conn request tr 0"
        by (simp add: principalAt_def createErr_def)
      from t(2) Inl have "res = apiOut (iam_CreateRole conn tr request)" by (simp add: apiOut_def)
      with np t(1) show ?thesis by (rule one)
    next
      case True
      with Inl have p0: "principalAt conn request tr 0" by (simp add: principalAt_def createErr_def)
      from Inl True have "tryCreateRole conn request tr = (RetryableError (AwsErr a), tr @ [?c])"
        by (simp add: tryCreateRole_cases)
      with Suc.prems have R:
        "Retry n (tryCreateRole conn request) (Some (AwsErr a)) (tr @ [?c]) = (res, tr')"
        by simp
      from Suc.IH [OF R] obtain k where k: "retriedCreate conn request n (tr @ [?c]) tr' k"
        and pos: "0 < k \<longrightarrow> res = apiOut (iam_CreateRole conn ((tr @ [?c]) @ replicate (k - 1) ?c) request)"
        and zero: "k = 0 \<longrightarrow> res = Inl (case Some (AwsErr a) of None \<Rightarrow> TimeoutError None | Some e \<Rightarrow> e)"
        by (elim exE conjE)
      have "res = apiOut (iam_CreateRole conn (tr @ replicate k ?c) request)"
      proof (cases "0 < k")
        case True
        with pos replicate_pred [OF True, of tr ?c] show ?thesis by simp
      next
        case False
        with zero Inl show ?thesis by (simp add: apiOut_def)
      qed
      then have "0 < Suc k \<longrightarrow> res = apiOut (iam_CreateRole conn (tr @ replicate (Suc k - 1) ?c) request)"
        by simp
      moreover have "Suc k = 0 \<longrightarrow> res = Inl (case lastErr of None \<Rightarrow> TimeoutError None | Some e \<Rightarrow> e)"
        by simp
      moreover note retriedCreate_Suc [OF k p0]
      ultimately show ?thesis by (intro exI conjI)
    qed
  qed
qed

lemma apiOut_not_timeout: "apiOut r \<noteq> Inl (TimeoutError None)"
  by (cases r) (simp_all add: apiOut_def)

lemma retryCreateRole_sends:
  assumes "retryCreateRole ev conn request tr = (r, tr')"
  shows "\<exists>k. retriedCreate conn request (max 1 (attempts ev (30 * Second))) tr tr' k \<and> 0 < k
     \<and> r = apiOut (iam_CreateRole conn (tr @ replicate (k - 1) (CreateRole request)) request)"
proof -
  let ?n = "attempts ev (30 * Second)" and ?c = "CreateRole request"
  obtain res tr1 where R: "Retry ?n (tryCreateRole conn request) None tr = (res, tr1)" by force
  from Retry_tryCreateRole [OF R] obtain k where k: "retriedCreate conn request ?n tr tr1 k"
    and pos: "0 < k \<longrightarrow> res = apiOut (iam_CreateRole conn (tr @ replicate (k - 1) ?c) request)"
    and zero: "k = 0 \<longrightarrow> res = Inl (case None of None \<Rightarrow> TimeoutError None | Some e \<Rightarrow> e)"
    by (elim exE conjE)
  from k have kn: "0 < ?n \<longrightarrow> 0 < k" unfolding retriedCreate_def by (elim conjE)
  from k have kle: "k \<le> ?n" unfolding retriedCreate_def by (elim conjE)
  from k have t1: "tr1 = tr @ replicate k ?c" unfolding retriedCreate_def by (elim conjE)
  show ?thesis
  proof (cases "0 < k")
    case False
    then have k0: "k = 0" by simp
    with kn have n0: "?n = 0" by simp
    from k0 zero have "res = Inl (TimeoutError None)" by simp
    with R assms t1 k0 have "tr' = tr @ [?c]" "r = apiOut (iam_CreateRole conn tr request)"
      by (simp_all add: retryCreateRole_def isResourceTimeoutError_def)
    then have "retriedCreate conn request (max 1 ?n) tr tr' 1"
      "r = apiOut (iam_CreateRole conn (tr @ replicate (1 - 1) ?c) request)"
      using n0 by (simp_all add: retriedCreate_def)
    moreover have "0 < (1::nat)" by simp
    ultimately show ?thesis by (intro exI conjI)
  next
    case True
    with pos have res: "res = apiOut (iam_CreateRole conn (tr @ replicate (k - 1) ?c) request)" by simp
    then have "res \<noteq> Inl (TimeoutError None)" by (simp add: apiOut_not_timeout)
    then have "\<not> isResourceTimeoutError (case res of Inl x \<Rightarrow> Some x | Inr v \<Rightarrow> None)"
      by (auto simp: isResourceTimeoutError_def split: sum.splits)
    with R assms have "tr' = tr1" "r = res" by (simp_all add: retryCreateRole_def)
    moreover from True kle have "max 1 ?n = ?n" by simp
    ultimately have "retriedCreate conn request (max 1 ?n) tr tr' k"
      "r = apiOut (iam_CreateRole conn (tr @ replicate (k - 1) ?c) request)"
      using k res by simp_all
    with True show ?thesis by (intro exI conjI)
  qed
qed


lemma apiOut_Inl: "apiOut r = Inl x \<Longrightarrow> \<exists>a. r = Inl a \<and> x = AwsErr a"
  by (cases r) (simp_all add: apiOut_def)

lemma apiOut_Inr: "apiOut r = Inr v \<Longrightarrow> r = Inr v"
  by (cases r) (simp_all add: apiOut_def)

text \<open>What \<^verbatim>\<open>resourceAwsIamRoleCreate\<close> sends once \<^verbatim>\<open>CreateRole\<close> has answered with a role.\<close>

lemma Create_provisioning:
  assumes "(case (if inline_policy (config d) \<noteq> []
                    then resourceAwsIamRoleCreateInlinePolicies conn
                           (expandIamInlinePolicies ev rn (inline_policy (config d))) tr1
                    else (None, tr1)) of
                (Some x, tr2) \<Rightarrow> ((Some x, d), tr2)
              | (None, tr2) \<Rightarrow>
                  (case (if managed_policy_arns (config d) \<noteq> []
                         then resourceAwsIamRoleAttachManagedPolicies conn rn
                                (expandStringList ev (managed_policy_arns (config d))) tr2
                         else (None, tr2)) of
                     (Some x, tr3) \<Rightarrow> ((Some x, d), tr3)
                   | (None, tr3) \<Rightarrow> resourceAwsIamRoleRead ev conn (d\<lparr>rd_Id := rn\<rparr>) tr3)) = (res, tr')"
  shows "\<exists>rest2. tr' = tr1 @ map PutRolePolicy (expandIamInlinePolicies ev rn (inline_policy (config d))) @ rest2
           \<and> list_all (\<lambda>c. isRead c \<or> (\<exists>a. c = AttachRolePolicy rn a)) rest2"
proof -
  let ?Q = "\<lambda>c. isRead c \<or> (\<exists>a. c = AttachRolePolicy rn a)"
  let ?puts = "map PutRolePolicy (expandIamInlinePolicies ev rn (inline_policy (config d)))"
  obtain e2 tr2 where i: "(if inline_policy (config d) \<noteq> []
                    then resourceAwsIamRoleCreateInlinePolicies conn
                           (expandIamInlinePolicies ev rn (inline_policy (config d))) tr1
                    else (None, tr1)) = (e2, tr2)" by force
  have t2: "tr2 = tr1 @ ?puts"
  proof (cases "inline_policy (config d) \<noteq> []")
    case True
    with i show ?thesis by (simp add: resourceAwsIamRoleCreateInlinePolicies_trace)
  next
    case False
    with i show ?thesis by (simp add: expandIamInlinePolicies_def)
  qed
  have "sends ?Q tr2 tr'"
  proof (cases e2)
    case (Some x)
    with assms i have "tr' = tr2" by simp
    then show ?thesis by simp
  next
    case None
    obtain e3 tr3 where m: "(if managed_policy_arns (config d) \<noteq> []
                         then resourceAwsIamRoleAttachManagedPolicies conn rn
                                (expandStringList ev (managed_policy_arns (config d))) tr2
                         else (None, tr2)) = (e3, tr3)" by force
    have s3: "sends ?Q tr2 tr3"
    proof (cases "managed_policy_arns (config d) \<noteq> []")
      case True
      with m have "tr3 = tr2 @ map (\<lambda>a. AttachRolePolicy rn (StringValue a))
          (expandStringList ev (managed_policy_arns (config d)))"
        by (simp add: resourceAwsIamRoleAttachManagedPolicies_trace)
      then show ?thesis by (simp add: sends_map)
    next
      case False
      with m show ?thesis by simp
    qed
    show ?thesis
    proof (cases e3)
      case (Some x)
      with assms i None m have "tr' = tr3" by simp
      with s3 show ?thesis by simp
    next
      case n3: None
      with assms i None m have "resourceAwsIamRoleRead ev conn (d\<lparr>rd_Id := rn\<rparr>) tr3 = (res, tr')"
        by simp
      from resourceAwsIamRoleRead_sends [OF this] have "sends ?Q tr3 tr'"
        by (rule sends_mono) simp
      with s3 show ?thesis by (rule sends_trans)
    qed
  qed
  then obtain rest2 where "tr' = tr2 @ rest2" "list_all ?Q rest2" unfolding sends_iff by blast
  with t2 show ?thesis by simp
qed

text \<open>
  C6. \<^verbatim>\<open>resourceAwsIamRoleCreate\<close> begins with \<open>k\<close> requests \<^verbatim>\<open>CreateRole\<close>, one at
  least and at most as many as fit into the window of 30 seconds. Each of them but the
  last failed with \<^verbatim>\<open>MalformedPolicyDocument\<close> and a message about an invalid
  principal, so any other error ends the retries at once; when the last one failed in
  that way too, the window is used up. When the last \<^verbatim>\<open>CreateRole\<close> failed, nothing
  else is sent and the error is returned. Only when it answered with a role are the
  inline policies put (all of them) and then the managed policies attached and the role
  read; no \<^verbatim>\<open>CreateRole\<close> follows.
\<close>

theorem Create_retries_CreateRole_then_provisions:
  assumes "resourceAwsIamRoleCreate ev conn d tr = (res, tr')"
  shows "\<exists>k rest.
      issued tr tr' = replicate k (CreateRole (createRequest ev d)) @ rest
      \<and> 0 < k \<and> k \<le> max 1 (attempts ev (30 * Second))
      \<and> (\<forall>i. Suc i < k \<longrightarrow>
            isAWSErr (createErr conn (createRequest ev d)
                        (tr @ replicate i (CreateRole (createRequest ev d))))
              ''MalformedPolicyDocument'' ''Invalid principal in policy'')
      \<and> (isAWSErr (createErr conn (createRequest ev d)
                        (tr @ replicate (k - 1) (CreateRole (createRequest ev d))))
              ''MalformedPolicyDocument'' ''Invalid principal in policy''
           \<longrightarrow> k = max 1 (attempts ev (30 * Second)))
      \<and> list_all (\<lambda>c. \<forall>q. c \<noteq> CreateRole q) rest
      \<and> (\<forall>a. iam_CreateRole conn (tr @ replicate (k - 1) (CreateRole (createRequest ev d)))
                 (createRequest ev d) = Inl a
            \<longrightarrow> rest = []
              \<and> res = (Some (Errorf_s (''Error creating IAM Role '' @ createName ev d @ '': '')
                               (AwsErr a)), d))
      \<and> (\<forall>role. iam_CreateRole conn (tr @ replicate (k - 1) (CreateRole (createRequest ev d)))
                    (createRequest ev d) = Inr role
            \<longrightarrow> (\<exists>rest2.
                  rest = map PutRolePolicy
                           (expandIamInlinePolicies ev (RoleName role) (inline_policy (config d)))
                         @ rest2
                  \<and> list_all (\<lambda>c. isRead c \<or> (\<exists>a. c = AttachRolePolicy (RoleName role) a)) rest2))"
proof -
  let ?rq = "createRequest ev d"
  let ?c = "CreateRole ?rq"
  let ?n = "max 1 (attempts ev (30 * Second))"
  obtain r tr1 where cr: "retryCreateRole ev conn ?rq tr = (r, tr1)" by force
  from retryCreateRole_sends [OF cr] obtain k where k: "retriedCreate conn ?rq ?n tr tr1 k"
    and kpos: "0 < k"
    and rr: "r = apiOut (iam_CreateRole conn (tr @ replicate (k - 1) ?c) ?rq)"
    by (elim exE conjE)
  let ?last = "iam_CreateRole conn (tr @ replicate (k - 1) ?c) ?rq"
  from k have kle: "k \<le> ?n" unfolding retriedCreate_def by (elim conjE)
  from k have t1: "tr1 = tr @ replicate k ?c" unfolding retriedCreate_def by (elim conjE)
  from k have al: "\<forall>i. Suc i < k \<longrightarrow>
            isAWSErr (createErr conn ?rq (tr @ replicate i ?c))
              ''MalformedPolicyDocument'' ''Invalid principal in policy''"
    unfolding retriedCreate_def principalAt_def by (elim conjE)
  from k have "0 < k \<and> isAWSErr (createErr conn ?rq (tr @ replicate (k - 1) ?c))
              ''MalformedPolicyDocument'' ''Invalid principal in policy'' \<longrightarrow> k = ?n"
    unfolding retriedCreate_def principalAt_def by (elim conjE)
  with kpos have la: "isAWSErr (createErr conn ?rq (tr @ replicate (k - 1) ?c))
              ''MalformedPolicyDocument'' ''Invalid principal in policy'' \<longrightarrow> k = ?n"
    by blast
  have "\<exists>rest. tr' = tr1 @ rest
      \<and> list_all (\<lambda>c. \<forall>q. c \<noteq> CreateRole q) rest
      \<and> (\<forall>a. ?last = Inl a
            \<longrightarrow> rest = []
              \<and> res = (Some (Errorf_s (''Error creating IAM Role '' @ createName ev d @ '': '')
                               (AwsErr a)), d))
      \<and> (\<forall>role. ?last = Inr role
            \<longrightarrow> (\<exists>rest2.
                  rest = map PutRolePolicy
                           (expandIamInlinePolicies ev (RoleName role) (inline_policy (config d)))
                         @ rest2
                  \<and> list_all (\<lambda>c. isRead c \<or> (\<exists>a. c = AttachRolePolicy (RoleName role) a)) rest2))"
  proof (cases r)
    case (Inl x)
    with rr obtain a where a: "?last = Inl a" "x = AwsErr a" using apiOut_Inl by metis
    from assms cr Inl a(2) have "tr' = tr1 @ []"
      "res = (Some (Errorf_s (''Error creating IAM Role '' @ createName ev d @ '': '') (AwsErr a)), d)"
      by (simp_all add: resourceAwsIamRoleCreate_def)
    with a(1) show ?thesis by (intro exI [of _ "[]"]) simp
  next
    case (Inr role)
    with rr have l: "?last = Inr role" using apiOut_Inr by metis
    from assms cr Inr have "(case (if inline_policy (config d) \<noteq> []
                    then resourceAwsIamRoleCreateInlinePolicies conn
                           (expandIamInlinePolicies ev (RoleName role) (inline_policy (config d))) tr1
                    else (None, tr1)) of
                (Some x, tr2) \<Rightarrow> ((Some x, d), tr2)
              | (None, tr2) \<Rightarrow>
                  (case (if managed_policy_arns (config d) \<noteq> []
                         then resourceAwsIamRoleAttachManagedPolicies conn (RoleName role)
                                (expandStringList ev (managed_policy_arns (config d))) tr2
                         else (None, tr2)) of
                     (Some x, tr3) \<Rightarrow> ((Some x, d), tr3)
                   | (None, tr3) \<Rightarrow> resourceAwsIamRoleRead ev conn (d\<lparr>rd_Id := RoleName role\<rparr>) tr3)) = (res, tr')"
      by (simp add: resourceAwsIamRoleCreate_def Let_def)
    from Create_provisioning [OF this] obtain rest2 where
      r2: "tr' = tr1 @ map PutRolePolicy (expandIamInlinePolicies ev (RoleName role) (inline_policy (config d))) @ rest2"
      "list_all (\<lambda>c. isRead c \<or> (\<exists>a. c = AttachRolePolicy (RoleName role) a)) rest2"
      by (elim exE conjE)
    let ?rest = "map PutRolePolicy (expandIamInlinePolicies ev (RoleName role) (inline_policy (config d))) @ rest2"
    have nc: "list_all (\<lambda>c. \<forall>q. c \<noteq> CreateRole q) ?rest"
      using r2(2) by (auto simp: list_all_iff isRead_def)
    from r2 nc l show ?thesis by (intro exI [of _ ?rest]) simp
  qed
  then obtain rest where rest: "tr' = tr1 @ rest"
      "list_all (\<lambda>c. \<forall>q. c \<noteq> CreateRole q) rest"
      "\<forall>a. ?last = Inl a
            \<longrightarrow> rest = []
              \<and> res = (Some (Errorf_s (''Error creating IAM Role '' @ createName ev d @ '': '')
                               (AwsErr a)), d)"
      "\<forall>role. ?last = Inr role
            \<longrightarrow> (\<exists>rest2.
                  rest = map PutRolePolicy
                           (expandIamInlinePolicies ev (RoleName role) (inline_policy (config d)))
                         @ rest2
                  \<and> list_all (\<lambda>c. isRead c \<or> (\<exists>a. c = AttachRolePolicy (RoleName role) a)) rest2)"
    by (elim exE conjE)
  have iss: "issued tr tr' = replicate k ?c @ rest" unfolding rest(1) t1 by simp
  from iss kpos kle al la rest(2) rest(3) rest(4) show ?thesis by (intro exI conjI)
qed


lemma propagating_run:
  "snd (resourceAwsIamRoleCreate example_env propagating_conn new_data [])
     = [CreateRole (createRequest example_env new_data),
        CreateRole (createRequest example_env new_data),
        CreateRole (createRequest example_env new_data),
        PutRolePolicy \<lparr>PolicyDocument = Some ''{}'', PolicyName = Some ''p1'', pr_RoleName = Some ''r''\<rparr>,
        AttachRolePolicy ''r'' ''arn:a'',
        GetRole ''r'', ListRolePoliciesPages ''r'', ListAttachedRolePoliciesPages ''r'']"
  by code_simp

theorem Create_retries_CreateRole_then_provisions_witness:
  "snd (resourceAwsIamRoleCreate example_env propagating_conn new_data [])
     = [CreateRole (createRequest example_env new_data),
        CreateRole (createRequest example_env new_data),
        CreateRole (createRequest example_env new_data),
        PutRolePolicy \<lparr>PolicyDocument = Some ''{}'', PolicyName = Some ''p1'', pr_RoleName = Some ''r''\<rparr>,
        AttachRolePolicy ''r'' ''arn:a'',
        GetRole ''r'', ListRolePoliciesPages ''r'', ListAttachedRolePoliciesPages ''r'']
   \<and> (\<exists>k rest.
        issued [] (snd (resourceAwsIamRoleCreate example_env propagating_conn new_data []))
          = replicate k (CreateRole (createRequest example_env new_data)) @ rest
        \<and> 0 < k \<and> k \<le> max 1 (attempts example_env (30 * Second))
        \<and> list_all (\<lambda>c. \<forall>q. c \<noteq> CreateRole q) rest)"
proof -
  from Create_retries_CreateRole_then_provisions
         [where ev = example_env and conn = propagating_conn and d = new_data and tr = "[]",
          OF surjective_pairing]
  obtain k rest where
    "issued [] (snd (resourceAwsIamRoleCreate example_env propagating_conn new_data []))
          = replicate k (CreateRole (createRequest example_env new_data)) @ rest"
    "0 < k" "k \<le> max 1 (attempts example_env (30 * Second))"
    "list_all (\<lambda>c. \<forall>q. c \<noteq> CreateRole q) rest"
    by (elim exE conjE)
  then have "\<exists>k rest.
        issued [] (snd (resourceAwsIamRoleCreate example_env propagating_conn new_data []))
          = replicate k (CreateRole (createRequest example_env new_data)) @ rest
        \<and> 0 < k \<and> k \<le> max 1 (attempts example_env (30 * Second))
        \<and> list_all (\<lambda>c. \<forall>q. c \<noteq> CreateRole q) rest"
    by (intro exI conjI)
  with propagating_run show ?thesis by (intro conjI)
qed

section \<open>NoSuchEntity\<close>

lemma Contains_Nil [simp]: "Contains m []"
  by (cases m) (simp_all add: HasPrefix_def)

lemma isAWSErr_NoSuchEntity [simp]:
  "isAWSErr (Some (AwsErr (AwsError c m))) code [] = (c = code)"
  by (simp add: isAWSErr_def)

lemma andThen_Some: "s tr = (Some r, t) \<Longrightarrow> andThen s k tr = (r, t)"
  by (simp add: andThen_def)

lemma andThen_None': "s tr = (None, t) \<Longrightarrow> andThen s k tr = k t"
  by (simp add: andThen_def)

lemma ErrCodeEquals_Errorf_w [simp]:
  "ErrCodeEquals (Some (Errorf_w p x)) code = ErrCodeEquals (Some x) code"
  by (simp add: ErrCodeEquals_def)

text \<open>
  C7, as the code has it. \<^verbatim>\<open>NoSuchEntity\<close> is taken as "the role is gone" at these
  places: in Read when \<^verbatim>\<open>GetRole\<close> answers it, and in Update when
  \<^verbatim>\<open>UpdateAssumeRolePolicy\<close>, \<^verbatim>\<open>UpdateRoleDescription\<close> or \<^verbatim>\<open>UpdateRole\<close>
  answers it: the id is cleared and no error is returned. Delete never returns an error
  with the code \<^verbatim>\<open>NoSuchEntity\<close>: when \<^verbatim>\<open>deleteAwsIamRole\<close> ends with one, Delete
  returns no error. Create has no such handling: when \<^verbatim>\<open>CreateRole\<close> answers
  \<^verbatim>\<open>NoSuchEntity\<close>, the error is returned and nothing else is sent.
\<close>

theorem NoSuchEntity_clears_state_where_handled:
  "(iam_GetRole conn tr (rd_Id d) = Inl (AwsError ErrCodeNoSuchEntityException m) \<longrightarrow>
      resourceAwsIamRoleRead ev conn d tr = ((None, d\<lparr>rd_Id := []\<rparr>), tr @ [GetRole (rd_Id d)]))
   \<and> (HasChange assume_role_policy d
       \<and> iam_UpdateAssumeRolePolicy conn tr (rd_Id d) (assume_role_policy (config d))
           = Some (AwsError ErrCodeNoSuchEntityException m) \<longrightarrow>
      resourceAwsIamRoleUpdate ev conn d tr
        = ((None, d\<lparr>rd_Id := []\<rparr>),
           tr @ [UpdateAssumeRolePolicy (rd_Id d) (assume_role_policy (config d))]))
   \<and> (updateAssumeRolePolicy conn d tr = (None, ta)
       \<and> HasChange description d
       \<and> iam_UpdateRoleDescription conn ta (rd_Id d) (description (config d))
           = Some (AwsError ErrCodeNoSuchEntityException m) \<longrightarrow>
      resourceAwsIamRoleUpdate ev conn d tr
        = ((None, d\<lparr>rd_Id := []\<rparr>),
           ta @ [UpdateRoleDescription (rd_Id d) (description (config d))]))
   \<and> (updateAssumeRolePolicy conn d tr = (None, ta)
       \<and> updateRoleDescription conn d ta = (None, tb)
       \<and> HasChange max_session_duration d
       \<and> iam_UpdateRole conn tb (rd_Id d) (max_session_duration (config d))
           = Some (AwsError ErrCodeNoSuchEntityException m) \<longrightarrow>
      resourceAwsIamRoleUpdate ev conn d tr
        = ((None, d\<lparr>rd_Id := []\<rparr>),
           tb @ [UpdateRole (rd_Id d) (max_session_duration (config d))]))
   \<and> \<not> ErrCodeEquals (fst (fst (resourceAwsIamRoleDelete ev conn d tr))) ErrCodeNoSuchEntityException
   \<and> (ErrCodeEquals (fst (deleteAwsIamRole ev conn (rd_Id d) (force_detach_policies (config d)) tr))
         ErrCodeNoSuchEntityException \<longrightarrow>
      fst (resourceAwsIamRoleDelete ev conn d tr) = (None, d))
   \<and> (iam_CreateRole conn tr (createRequest ev d) = Inl (AwsError ErrCodeNoSuchEntityException m) \<longrightarrow>
      resourceAwsIamRoleCreate ev conn d tr
        = ((Some (Errorf_s (''Error creating IAM Role '' @ createName ev d @ '': '')
                    (AwsErr (AwsError ErrCodeNoSuchEntityException m))), d),
           tr @ [CreateRole (createRequest ev d)]))"
proof (intro conjI impI)
  assume "iam_GetRole conn tr (rd_Id d) = Inl (AwsError ErrCodeNoSuchEntityException m)"
  then show "resourceAwsIamRoleRead ev conn d tr = ((None, d\<lparr>rd_Id := []\<rparr>), tr @ [GetRole (rd_Id d)])"
    by (simp add: resourceAwsIamRoleRead_def apiOut_def Let_def)
next
  assume "HasChange assume_role_policy d
       \<and> iam_UpdateAssumeRolePolicy conn tr (rd_Id d) (assume_role_policy (config d))
           = Some (AwsError ErrCodeNoSuchEntityException m)"
  then have "updateAssumeRolePolicy conn d tr
      = (Some (None, d\<lparr>rd_Id := []\<rparr>), tr @ [UpdateAssumeRolePolicy (rd_Id d) (assume_role_policy (config d))])"
    by (simp add: updateAssumeRolePolicy_def Let_def)
  then show "resourceAwsIamRoleUpdate ev conn d tr
        = ((None, d\<lparr>rd_Id := []\<rparr>),
           tr @ [UpdateAssumeRolePolicy (rd_Id d) (assume_role_policy (config d))])"
    unfolding resourceAwsIamRoleUpdate_def by (rule andThen_Some)
next
  assume a: "updateAssumeRolePolicy conn d tr = (None, ta)
       \<and> HasChange description d
       \<and> iam_UpdateRoleDescription conn ta (rd_Id d) (description (config d))
           = Some (AwsError ErrCodeNoSuchEntityException m)"
  then have "updateRoleDescription conn d ta
      = (Some (None, d\<lparr>rd_Id := []\<rparr>), ta @ [UpdateRoleDescription (rd_Id d) (description (config d))])"
    by (simp add: updateRoleDescription_def Let_def)
  with a show "resourceAwsIamRoleUpdate ev conn d tr
        = ((None, d\<lparr>rd_Id := []\<rparr>),
           ta @ [UpdateRoleDescription (rd_Id d) (description (config d))])"
    unfolding resourceAwsIamRoleUpdate_def by (simp add: andThen_Some andThen_None')
next
  assume a: "updateAssumeRolePolicy conn d tr = (None, ta)
       \<and> updateRoleDescription conn d ta = (None, tb)
       \<and> HasChange max_session_duration d
       \<and> iam_UpdateRole conn tb (rd_Id d) (max_session_duration (config d))
           = Some (AwsError ErrCodeNoSuchEntityException m)"
  then have "updateMaxSessionDuration conn d tb
      = (Some (None, d\<lparr>rd_Id := []\<rparr>), tb @ [UpdateRole (rd_Id d) (max_session_duration (config d))])"
    by (simp add: updateMaxSessionDuration_def Let_def)
  with a show "resourceAwsIamRoleUpdate ev conn d tr
        = ((None, d\<lparr>rd_Id := []\<rparr>),
           tb @ [UpdateRole (rd_Id d) (max_session_duration (config d))])"
    unfolding resourceAwsIamRoleUpdate_def by (simp add: andThen_Some andThen_None')
next
  show "\<not> ErrCodeEquals (fst (fst (resourceAwsIamRoleDelete ev conn d tr))) ErrCodeNoSuchEntityException"
    by (cases "deleteAwsIamRole ev conn (rd_Id d) (force_detach_policies (config d)) tr")
       (auto simp: resourceAwsIamRoleDelete_def split: option.splits)
next
  assume "ErrCodeEquals (fst (deleteAwsIamRole ev conn (rd_Id d) (force_detach_policies (config d)) tr))
         ErrCodeNoSuchEntityException"
  then show "fst (resourceAwsIamRoleDelete ev conn d tr) = (None, d)"
    by (cases "deleteAwsIamRole ev conn (rd_Id d) (force_detach_policies (config d)) tr")
       (auto simp: resourceAwsIamRoleDelete_def split: option.splits)
next
  let ?rq = "createRequest ev d"
  let ?x = "AwsErr (AwsError ErrCodeNoSuchEntityException m)"
  assume a: "iam_CreateRole conn tr ?rq = Inl (AwsError ErrCodeNoSuchEntityException m)"
  have np: "\<not> isAWSErr (Some ?x) ''MalformedPolicyDocument'' ''Invalid principal in policy''"
    by (simp add: isAWSErr_def ErrCodeNoSuchEntityException_def)
  with a have t: "tryCreateRole conn ?rq tr = (NonRetryableError ?x, tr @ [CreateRole ?rq])"
    by (simp add: tryCreateRole_cases)
  have "retryCreateRole ev conn ?rq tr = (Inl ?x, tr @ [CreateRole ?rq])"
  proof (cases "attempts ev (30 * Second)")
    case 0
    with a show ?thesis
      by (simp add: retryCreateRole_def isResourceTimeoutError_def apiOut_def)
  next
    case (Suc n)
    with t show ?thesis
      by (simp add: retryCreateRole_def isResourceTimeoutError_def)
  qed
  then show "resourceAwsIamRoleCreate ev conn d tr
        = ((Some (Errorf_s (''Error creating IAM Role '' @ createName ev d @ '': '') ?x), d),
           tr @ [CreateRole ?rq])"
    by (simp add: resourceAwsIamRoleCreate_def)
qed


theorem NoSuchEntity_clears_state_where_handled_witness:
  "resourceAwsIamRoleRead example_env gone_role_conn example_data []
     = ((None, example_data\<lparr>rd_Id := []\<rparr>), [GetRole ''r''])
   \<and> resourceAwsIamRoleUpdate example_env gone_role_conn changed_data []
     = ((None, changed_data\<lparr>rd_Id := []\<rparr>), [UpdateRoleDescription ''r'' ''new''])
   \<and> fst (resourceAwsIamRoleDelete example_env gone_role_conn example_data []) = (None, example_data)"
proof -
  note w = NoSuchEntity_clears_state_where_handled
             [where ev = example_env and conn = gone_role_conn and tr = "[]" and ta = "[]"
                and m = "''The role cannot be found.''"]
  have g: "iam_GetRole gone_role_conn [] (rd_Id example_data)
             = Inl (AwsError ErrCodeNoSuchEntityException ''The role cannot be found.'')"
    by (simp add: gone_role_conn_def example_conn_def noSuchEntity_def ErrCodeNoSuchEntityException_def)
  have u1: "updateAssumeRolePolicy gone_role_conn changed_data [] = (None, [])"
    by (simp add: updateAssumeRolePolicy_def HasChange_def changed_data_def example_attrs_def)
  have u2: "HasChange description changed_data"
    by (simp add: HasChange_def changed_data_def example_attrs_def)
  have u3: "iam_UpdateRoleDescription gone_role_conn [] (rd_Id changed_data) (description (config changed_data))
             = Some (AwsError ErrCodeNoSuchEntityException ''The role cannot be found.'')"
    by (simp add: gone_role_conn_def example_conn_def noSuchEntity_def ErrCodeNoSuchEntityException_def)
  have dl: "ErrCodeEquals
       (fst (deleteAwsIamRole example_env gone_role_conn (rd_Id example_data)
               (force_detach_policies (config example_data)) []))
       ErrCodeNoSuchEntityException"
    by code_simp
  from w [where d = example_data] g
  have 1: "resourceAwsIamRoleRead example_env gone_role_conn example_data []
     = ((None, example_data\<lparr>rd_Id := []\<rparr>), [] @ [GetRole (rd_Id example_data)])"
    by blast
  from w [where d = changed_data] u1 u2 u3
  have 2: "resourceAwsIamRoleUpdate example_env gone_role_conn changed_data []
     = ((None, changed_data\<lparr>rd_Id := []\<rparr>),
        [] @ [UpdateRoleDescription (rd_Id changed_data) (description (config changed_data))])"
    by blast
  from w [where d = example_data] dl
  have 3: "fst (resourceAwsIamRoleDelete example_env gone_role_conn example_data []) = (None, example_data)"
    by blast
  from 1 2 3 show ?thesis
    by (simp add: example_data_def changed_data_def example_attrs_def)
qed

text \<open>
  C7 as stated fails for the Create operation: a \<^verbatim>\<open>NoSuchEntity\<close> answer to
  \<^verbatim>\<open>CreateRole\<close> is returned as an error, and the id is left as it was.
\<close>

theorem Create_NoSuchEntity_counterexample:
  "resourceAwsIamRoleCreate example_env gone_role_conn example_data []
     = ((Some (Errorf_s ''Error creating IAM Role r: '' (AwsErr noSuchEntity)), example_data),
        [CreateRole (createRequest example_env example_data)])
   \<and> ErrCodeEquals (Some (AwsErr noSuchEntity)) ErrCodeNoSuchEntityException
   \<and> rd_Id example_data = ''r''"
  by code_simp

end
